theory Spec2Isabelle
  imports
    Complex_Main
    "HOL-Library.AList"
    "HOL-Library.Char_ord"
    "HOL-Library.Code_Target_Numeral"
    "HOL-Library.List_Lexorder"
    "HOL-Library.Word"
begin

section \<open>Data model of the multisig feed\<close>

text \<open>
  A confirmation of the coordination feed: the signer's address and the signature as a
  hex string. The feed may deliver \<^verbatim>\<open>null\<close> for the signature (\<open>None\<close>).
\<close>

record confirmation =
  owner :: string
  signature :: "string option"

text \<open>
  One record of the feed, with the keys the helpers read. \<open>nonce\<close>, \<open>isExecuted\<close> and
  \<open>submissionDate\<close> are read with \<^verbatim>\<open>tx[...]\<close> and are therefore always present;
  \<open>data\<close>, \<open>confirmations\<close> and \<open>confirmationsRequired\<close> are read with \<^verbatim>\<open>tx.get(...)\<close>,
  so \<open>None\<close> stands for a missing key. \<open>submissionDate\<close> is the ISO timestamp string of
  the feed; Python compares two of them as strings, code point by code point.
\<close>

record feed_tx =
  nonce :: int
  isExecuted :: bool
  submissionDate :: string
  data :: "string option"
  confirmations :: "confirmation list option"
  confirmationsRequired :: "int option"

text \<open>
  \<^verbatim>\<open>fetch_recent_transactions\<close> adds two keys to every record of the feed.
\<close>

record tx = feed_tx +
  signature_count :: int
  confirmations_required :: int

section \<open>Transaction queue normalizer (helpers/fetch\_transactions.py)\<close>

text \<open>
  \<^verbatim>\<open>latest_transactions\<close> is a Python dict keyed by nonce. A dict keeps its keys in the
  order of their first insertion and an assignment to an existing key keeps the key's
  place: this is \<open>AList.update\<close> on an association list. One turn of the \<^verbatim>\<open>for\<close>
  loop:
  \<^verbatim>\<open>
    if tx["isExecuted"]:
        latest_transactions[tx["nonce"]] = tx
        continue
    if tx["nonce"] not in latest_transactions or \
       tx["submissionDate"] > latest_transactions[tx["nonce"]]["submissionDate"]:
        latest_transactions[tx["nonce"]] = tx
  \<close>
\<close>

definition latest_step ::
  "(int \<times> 'a feed_tx_scheme) list \<Rightarrow> 'a feed_tx_scheme \<Rightarrow> (int \<times> 'a feed_tx_scheme) list"
where
  "latest_step latest_transactions t =
     (if isExecuted t then AList.update (nonce t) t latest_transactions
      else (case map_of latest_transactions (nonce t) of
              None \<Rightarrow> AList.update (nonce t) t latest_transactions
            | Some old \<Rightarrow>
                if submissionDate t > submissionDate old
                then AList.update (nonce t) t latest_transactions
                else latest_transactions))"

definition filter_and_sort_pending_transactions ::
  "'a feed_tx_scheme list \<Rightarrow> 'a feed_tx_scheme list"
where
  "filter_and_sort_pending_transactions transactions =
     (let latest_transactions = foldl latest_step [] transactions;
          filtered_transactions = filter (\<lambda>t. \<not> isExecuted t) (map snd latest_transactions)
      in sort_key nonce filtered_transactions)"

text \<open>Two records of nonce 5: the executed one first, a later pending resubmission second.\<close>

definition executed_5 :: feed_tx where
  "executed_5 = \<lparr>nonce = 5, isExecuted = True, submissionDate = ''2024-01-01T00:00:00Z'',
     data = None, confirmations = Some [], confirmationsRequired = Some 2\<rparr>"

definition pending_5 :: feed_tx where
  "pending_5 = \<lparr>nonce = 5, isExecuted = False, submissionDate = ''2024-01-02T00:00:00Z'',
     data = None, confirmations = Some [], confirmationsRequired = Some 2\<rparr>"

section \<open>Python values, exceptions and floats\<close>

text \<open>
  The exceptions the modelled code can raise, and the result of a call: a returned value
  or an exception that reaches the caller.
\<close>

datatype py_error = ValueError | TypeError | AttributeError | IndexError | KeyError

datatype 'a outcome = Returned 'a | Raised py_error

text \<open>
  A Python float is modelled by the rational number it denotes. \<open>to_double\<close> rounds a
  non-negative rational to the nearest binary64 value, ties to even, as Python's true
  division of two integers does. It covers the normal range of binary64; the quotients
  formed here are \<open>0\<close> or lie between \<open>10\<^sup>-\<^sup>1\<^sup>8\<close> and \<open>2\<^sup>2\<^sup>5\<^sup>6\<close>.
\<close>

definition round_half_even :: "rat \<Rightarrow> int" where
  "round_half_even x =
     (let f = \<lfloor>x\<rfloor>; d = x - of_int f
      in if d < 1 / 2 then f else if 1 / 2 < d then f + 1 else if even f then f else f + 1)"

definition pow2 :: "int \<Rightarrow> rat" where
  "pow2 e = (if 0 \<le> e then 2 ^ nat e else 1 / 2 ^ nat (- e))"

definition pow10 :: "int \<Rightarrow> rat" where
  "pow10 e = (if 0 \<le> e then 10 ^ nat e else 1 / 10 ^ nat (- e))"

fun digits_in_base :: "nat \<Rightarrow> nat \<Rightarrow> nat" where
  "digits_in_base b n = (if n = 0 \<or> b < 2 then 0 else Suc (digits_in_base b (n div b)))"

declare digits_in_base.simps [simp del]

text \<open>The greatest \<open>k\<close> with \<open>pw k \<le> x\<close>, for \<open>x > 0\<close> and \<open>pw\<close> the powers of \<open>b\<close>.\<close>

definition floor_log :: "nat \<Rightarrow> (int \<Rightarrow> rat) \<Rightarrow> rat \<Rightarrow> int" where
  "floor_log b pw x =
     (let (n, d) = quotient_of x;
          k = int (digits_in_base b (nat n)) - int (digits_in_base b (nat d))
      in if pw k \<le> x then k else k - 1)"

definition to_double :: "rat \<Rightarrow> rat" where
  "to_double x =
     (if x = 0 then 0
      else let e = floor_log 2 pow2 x - 52
           in of_int (round_half_even (x / pow2 e)) * pow2 e)"

text \<open>\<^verbatim>\<open>a / b\<close> on two Python ints, \<open>a \<ge> 0\<close> and \<open>b > 0\<close>.\<close>

definition py_truediv :: "nat \<Rightarrow> nat \<Rightarrow> rat" where
  "py_truediv a b = to_double (of_nat a / of_nat b)"

text \<open>\<^verbatim>\<open>str(n)\<close> for a Python int \<open>n \<ge> 0\<close>.\<close>

definition digit_char :: "nat \<Rightarrow> char" where
  "digit_char d = ''0123456789'' ! d"

fun str_nat :: "nat \<Rightarrow> string" where
  "str_nat n = (if n < 10 then [digit_char n] else str_nat (n div 10) @ [digit_char (n mod 10)])"

declare str_nat.simps [simp del]

text \<open>
  \<^verbatim>\<open>str(x)\<close> for a Python float \<open>x \<ge> 0\<close>: the shortest decimal digit string that reads
  back as \<open>x\<close> (the one nearest to \<open>x\<close> when two of that length do), printed in positional
  notation when the decimal point falls within \<open>-4 < decpt \<le> 16\<close> and in exponent
  notation otherwise. \<open>round_trip_candidate x scale\<close> looks among the multiples of
  \<open>scale\<close> next to \<open>x\<close>; \<open>shortest_digits\<close> tries 1 to 16 digits and falls back on 17,
  which always read back.
\<close>

definition round_trip_candidate :: "rat \<Rightarrow> rat \<Rightarrow> int option" where
  "round_trip_candidate x scale =
     (let lo = \<lfloor>x / scale\<rfloor>; hi = lo + 1;
          lo_ok = (to_double (of_int lo * scale) = x);
          hi_ok = (to_double (of_int hi * scale) = x);
          dl = x - of_int lo * scale; dh = of_int hi * scale - x
      in if lo_ok \<and> hi_ok then (if dl < dh \<or> (dl = dh \<and> even lo) then Some lo else Some hi)
         else if lo_ok then Some lo
         else if hi_ok then Some hi
         else None)"

fun shortest_digits :: "rat \<Rightarrow> int \<Rightarrow> nat \<Rightarrow> nat \<Rightarrow> int \<times> int" where
  "shortest_digits x p n 0 = (round_half_even (x / pow10 (p - int n + 1)), p - int n + 1)"
| "shortest_digits x p n (Suc fuel) =
     (case round_trip_candidate x (pow10 (p - int n + 1)) of
        Some m \<Rightarrow> (m, p - int n + 1)
      | None \<Rightarrow> shortest_digits x p (Suc n) fuel)"

definition strip_zeros :: "string \<Rightarrow> string" where
  "strip_zeros ds = rev (dropWhile (\<lambda>c. c = CHR ''0'') (rev ds))"

definition float_str :: "rat \<Rightarrow> string" where
  "float_str x =
     (if x = 0 then ''0.0''
      else let (m, e) = shortest_digits x (floor_log 10 pow10 x) 1 16;
               all_digits = str_nat (nat m);
               decpt = int (length all_digits) + e;
               ds = strip_zeros all_digits
           in if - 4 < decpt \<and> decpt \<le> 16 then
                (if decpt \<le> 0 then ''0.'' @ replicate (nat (- decpt)) CHR ''0'' @ ds
                 else if int (length ds) \<le> decpt
                   then ds @ replicate (nat decpt - length ds) CHR ''0'' @ ''.0''
                 else take (nat decpt) ds @ ''.'' @ drop (nat decpt) ds)
              else
                (let ex = decpt - 1;
                     mant = (if length ds \<le> 1 then ds else take 1 ds @ ''.'' @ drop 1 ds);
                     exs = str_nat (nat \<bar>ex\<bar>)
                 in mant @ ''e'' @ (if ex < 0 then ''-'' else ''+'')
                      @ (if length exs < 2 then ''0'' @ exs else exs)))"

text \<open>
  A value stored in a Python dict is dynamically typed; the decoder's payload holds
  strings, and a caller may expect a float.
\<close>

datatype pyval = PyStr string | PyFloat rat

section \<open>Calldata decoder (helpers/decode\_hex.py)\<close>

record decoded_payload =
  validatorId :: pyval
  amountInTokens :: pyval

definition hex_digit :: "char \<Rightarrow> nat option" where
  "hex_digit c =
     map_of (zip ''0123456789abcdefABCDEF''
       [0, 1, 2, 3, 4, 5, 6, 7, 8, 9, 10, 11, 12, 13, 14, 15, 10, 11, 12, 13, 14, 15]) c"

text \<open>
  \<^verbatim>\<open>eth_utils.decode_hex\<close>: an optional \<^verbatim>\<open>0x\<close> or \<^verbatim>\<open>0X\<close> prefix is dropped and the rest
  goes to \<^verbatim>\<open>binascii.unhexlify\<close>, which wants an even number of hex digits and nothing
  else. \<open>None\<close> stands for the exception it raises.
\<close>

fun unhexlify :: "string \<Rightarrow> 8 word list option" where
  "unhexlify [] = Some []"
| "unhexlify [c] = None"
| "unhexlify (c # d # rest) =
     (case (hex_digit c, hex_digit d) of
        (Some h, Some l) \<Rightarrow> map_option ((#) (of_nat (16 * h + l))) (unhexlify rest)
      | _ \<Rightarrow> None)"

definition decode_hex :: "string \<Rightarrow> 8 word list option" where
  "decode_hex v =
     unhexlify (if take 2 v = ''0x'' \<or> take 2 v = ''0X'' then drop 2 v else v)"

text \<open>
  \<^verbatim>\<open>eth_abi.decode(['uint256', 'uint256'], b)\<close>: two 32-byte big-endian words read from
  the front of \<open>b\<close>; it raises (\<open>None\<close>) when \<open>b\<close> has fewer than 64 bytes and does not
  look at the bytes after them.
\<close>

definition big_endian :: "8 word list \<Rightarrow> nat" where
  "big_endian bs = foldl (\<lambda>acc b. acc * 256 + unat b) 0 bs"

definition decode_uint256_pair :: "8 word list \<Rightarrow> (nat \<times> nat) option" where
  "decode_uint256_pair bs =
     (if length bs < 64 then None
      else Some (big_endian (take 32 bs), big_endian (take 32 (drop 32 bs))))"

definition DECIMALS :: nat where
  "DECIMALS = 10 ^ 18"

text \<open>
  \<^verbatim>\<open>decode_hex_data\<close>. The whole body is inside \<^verbatim>\<open>try ... except Exception\<close>, which
  returns \<^verbatim>\<open>None\<close>.
  \<^verbatim>\<open>
    hex_data = hex_data[2:] if hex_data.startswith("0x") else hex_data
    params = decode(['uint256', 'uint256'], decode_hex(hex_data[8:]))
    validator_id = str(params[0])
    amount_in_tokens = params[1] / 10**18
    return {"validatorId": validator_id, "amountInTokens": str(amount_in_tokens)}
  \<close>
\<close>

definition decode_hex_data :: "string \<Rightarrow> decoded_payload option" where
  "decode_hex_data hex_data =
     (let hex_data = (if take 2 hex_data = ''0x'' then drop 2 hex_data else hex_data)
      in case decode_hex (drop 8 hex_data) of
           None \<Rightarrow> None
         | Some bs \<Rightarrow>
            (case decode_uint256_pair bs of
               None \<Rightarrow> None
             | Some params \<Rightarrow>
                 Some \<lparr>validatorId = PyStr (str_nat (fst params)),
                       amountInTokens = PyStr (float_str (py_truediv (snd params) DECIMALS))\<rparr>))"

text \<open>
  The two argument words of the example: \<open>validatorId = 7\<close> and
  \<open>amount = 2500 * 10\<^sup>1\<^sup>8 = 0x878678326eac900000\<close>, as hex text and as bytes; and the
  selector of \<^verbatim>\<open>delegate\<close>.
\<close>

definition args_7_2500 :: string where
  "args_7_2500 =
     ''0000000000000000000000000000000000000000000000000000000000000007'' @
     ''0000000000000000000000000000000000000000000000878678326eac900000''"

definition bytes_7_2500 :: "8 word list" where
  "bytes_7_2500 =
     replicate 31 0 @ [7] @ replicate 23 0 @ [0x87, 0x86, 0x78, 0x32, 0x6e, 0xac, 0x90, 0, 0]"

definition delegate_selector :: string where
  "delegate_selector = ''d9a34952''"

section \<open>Signature aggregation (helpers/execute\_transaction.py)\<close>

text \<open>
  \<^verbatim>\<open>str.lower()\<close> on the ASCII letters; owner addresses are hex text.
\<close>

definition lower_char :: "char \<Rightarrow> char" where
  "lower_char c =
     (case map_of (zip ''ABCDEFGHIJKLMNOPQRSTUVWXYZ'' ''abcdefghijklmnopqrstuvwxyz'') c of
        Some l \<Rightarrow> l
      | None \<Rightarrow> c)"

definition lower :: "string \<Rightarrow> string" where
  "lower s = map lower_char s"

text \<open>
  \<^verbatim>\<open>bytes.fromhex\<close>: two hex digits per byte, ASCII whitespace skipped between bytes;
  \<open>None\<close> stands for the \<^verbatim>\<open>ValueError\<close> it raises on anything else.
\<close>

definition is_ascii_space :: "char \<Rightarrow> bool" where
  "is_ascii_space c \<longleftrightarrow> c \<in> set [CHR '' '', CHR 0x09, CHR 0x0A, CHR 0x0B, CHR 0x0C, CHR 0x0D]"

fun fromhex :: "string \<Rightarrow> 8 word list option" where
  "fromhex [] = Some []"
| "fromhex (c # cs) =
     (if is_ascii_space c then fromhex cs
      else (case cs of
              [] \<Rightarrow> None
            | d # rest \<Rightarrow>
                (case (hex_digit c, hex_digit d) of
                   (Some h, Some l) \<Rightarrow> map_option ((#) (of_nat (16 * h + l))) (fromhex rest)
                 | _ \<Rightarrow> None)))"

text \<open>
  The loop of \<^verbatim>\<open>collect_and_sort_signatures\<close> over the sorted confirmations, with the
  bytes gathered so far:
  \<^verbatim>\<open>
    for confirmation in confirmations:
        signature = confirmation["signature"]
        if not signature:
            continue
        signatures += bytes.fromhex(signature[2:])
  \<close>
\<close>

fun append_signatures :: "confirmation list \<Rightarrow> 8 word list \<Rightarrow> 8 word list option" where
  "append_signatures [] signatures = Some signatures"
| "append_signatures (c # cs) signatures =
     (case signature c of
        None \<Rightarrow> append_signatures cs signatures
      | Some s \<Rightarrow>
          if s = [] then append_signatures cs signatures
          else (case fromhex (drop 2 s) of
                  None \<Rightarrow> None
                | Some bs \<Rightarrow> append_signatures cs (signatures @ bs)))"

text \<open>
  \<^verbatim>\<open>collect_and_sort_signatures\<close>: \<^verbatim>\<open>None\<close> when the confirmations are missing or
  empty, and again when no byte was gathered; \<^verbatim>\<open>sorted(..., key=lambda x:
  x["owner"].lower())\<close> is a stable sort, as \<open>sort_key\<close> is.
\<close>

definition collect_and_sort_signatures :: "'a feed_tx_scheme \<Rightarrow> 8 word list option outcome" where
  "collect_and_sort_signatures transaction =
     (case confirmations transaction of
        None \<Rightarrow> Returned None
      | Some cs \<Rightarrow>
          if cs = [] then Returned None
          else (case append_signatures (sort_key (\<lambda>x. lower (owner x)) cs) [] of
                  None \<Rightarrow> Raised ValueError
                | Some signatures \<Rightarrow>
                    if signatures = [] then Returned None else Returned (Some signatures)))"

text \<open>
  The raw bytes of one confirmation's signature: \<^verbatim>\<open>bytes.fromhex(signature[2:])\<close>, and
  no byte for a signature that is \<^verbatim>\<open>null\<close> or empty.
\<close>

definition signature_bytes :: "confirmation \<Rightarrow> 8 word list" where
  "signature_bytes c =
     (case signature c of
        None \<Rightarrow> []
      | Some s \<Rightarrow> (case fromhex (drop 2 s) of None \<Rightarrow> [] | Some bs \<Rightarrow> bs))"

definition well_formed_signature :: "confirmation \<Rightarrow> bool" where
  "well_formed_signature c =
     (case signature c of None \<Rightarrow> True | Some s \<Rightarrow> s = [] \<or> fromhex (drop 2 s) \<noteq> None)"

text \<open>
  A transaction with two confirmations whose owners sort differently with and without
  regard to case, and one whose only confirmation carries the signature \<^verbatim>\<open>"0x"\<close>.
\<close>

definition two_confirmations :: "confirmation list" where
  "two_confirmations =
     [\<lparr>owner = ''0xB1'', signature = Some ''0x0102''\<rparr>,
      \<lparr>owner = ''0xa2'', signature = Some ''0x03''\<rparr>]"

definition signed_twice :: feed_tx where
  "signed_twice = \<lparr>nonce = 7, isExecuted = False, submissionDate = ''2024-01-01T00:00:00Z'',
     data = None, confirmations = Some two_confirmations, confirmationsRequired = Some 2\<rparr>"

definition blank_confirmations :: "confirmation list" where
  "blank_confirmations = [\<lparr>owner = ''0xB1'', signature = Some ''0x''\<rparr>]"

definition signed_blank :: feed_tx where
  "signed_blank = \<lparr>nonce = 7, isExecuted = False, submissionDate = ''2024-01-01T00:00:00Z'',
     data = None, confirmations = Some blank_confirmations, confirmationsRequired = Some 1\<rparr>"

section \<open>Resilient request executor\<close>

text \<open>
  What one \<^verbatim>\<open>requests.get\<close> can bring: a timeout, another \<^verbatim>\<open>RequestException\<close> of the
  transport, or a response with its status code and its body, \<open>None\<close> when the body is not
  JSON (\<^verbatim>\<open>response.json()\<close> raises a \<^verbatim>\<open>ValueError\<close>). The network is a function from
  the number of the attempt to what that attempt brings.
\<close>

datatype 'b http_outcome = Timeout | RequestFailed | Response nat "'b option"

datatype json =
    JNull | JBool bool | JNum rat | JStr string | JArr "json list" | JObj "(string \<times> json) list"

text \<open>
  The body of the \<^verbatim>\<open>try\<close> block of one attempt either falls through to the next attempt
  (an exception that is caught, or no \<^verbatim>\<open>return\<close>), returns, or raises an exception that
  no \<^verbatim>\<open>except\<close> clause catches.
\<close>

datatype 'a attempt = Failed | Succeeded 'a | Crashed py_error

record 'a request_result =
  result :: "'a outcome"
  attempts :: nat
  sleeps :: "nat list"

text \<open>\<^verbatim>\<open>response.raise_for_status()\<close> raises for the status codes 400 to 599.\<close>

definition raises_for_status :: "nat \<Rightarrow> bool" where
  "raises_for_status status \<longleftrightarrow> 400 \<le> status \<and> status < 600"

text \<open>
  \<^verbatim>\<open>"result" in data\<close>: a key of a dict, an element of a list, a substring of a string,
  and a \<^verbatim>\<open>TypeError\<close> on \<^verbatim>\<open>None\<close>, a bool or a number.
\<close>

definition contains_text :: "string \<Rightarrow> string \<Rightarrow> bool" where
  "contains_text s t = list_ex (\<lambda>i. take (length s) (drop i t) = s) [0..<Suc (length t)]"

definition result_in :: "json \<Rightarrow> bool outcome" where
  "result_in parsed =
     (case parsed of
        JObj kvs \<Rightarrow> Returned (''result'' \<in> set (map fst kvs))
      | JArr xs \<Rightarrow> Returned (JStr ''result'' \<in> set xs)
      | JStr s \<Rightarrow> Returned (contains_text ''result'' s)
      | _ \<Rightarrow> Raised TypeError)"

subsection \<open>Scanning calls: make\_request (helpers/deposit\_monitor.py)\<close>

definition deposit_monitor_MAX_RETRIES :: nat where
  "deposit_monitor_MAX_RETRIES = 5"

definition INITIAL_DELAY :: nat where
  "INITIAL_DELAY = 1"

text \<open>
  \<^verbatim>\<open>
    response = requests.get(url, timeout=REQUEST_TIMEOUT)
    response.raise_for_status()
    data = response.json()
    if "result" in data:
        return data
  \<close>
  with \<^verbatim>\<open>except (requests.exceptions.Timeout)\<close> and
  \<^verbatim>\<open>except (requests.exceptions.RequestException, ValueError)\<close>.
\<close>

definition make_request_attempt :: "json http_outcome \<Rightarrow> json attempt" where
  "make_request_attempt r =
     (case r of
        Timeout \<Rightarrow> Failed
      | RequestFailed \<Rightarrow> Failed
      | Response status body \<Rightarrow>
          if raises_for_status status then Failed
          else (case body of
                  None \<Rightarrow> Failed
                | Some parsed \<Rightarrow>
                    (case result_in parsed of
                       Raised e \<Rightarrow> Crashed e
                     | Returned found \<Rightarrow> if found then Succeeded parsed else Failed)))"

text \<open>
  The \<^verbatim>\<open>for attempt in range(MAX_RETRIES)\<close> loop: \<^verbatim>\<open>time.sleep(delay)\<close> opens every
  attempt and \<^verbatim>\<open>delay *= 2\<close> closes every attempt that falls through; after the loop
  \<^verbatim>\<open>return None\<close>. \<open>slept\<close> lists the delays slept so far.
\<close>

function make_request_loop ::
  "(nat \<Rightarrow> json http_outcome) \<Rightarrow> nat \<Rightarrow> nat \<Rightarrow> nat list \<Rightarrow> json option request_result"
where
  "make_request_loop net attempt delay slept =
     (if attempt < deposit_monitor_MAX_RETRIES then
        (case make_request_attempt (net attempt) of
           Succeeded parsed \<Rightarrow>
             \<lparr>result = Returned (Some parsed), attempts = Suc attempt, sleeps = slept @ [delay]\<rparr>
         | Crashed e \<Rightarrow>
             \<lparr>result = Raised e, attempts = Suc attempt, sleeps = slept @ [delay]\<rparr>
         | Failed \<Rightarrow> make_request_loop net (Suc attempt) (delay * 2) (slept @ [delay]))
      else \<lparr>result = Returned None, attempts = attempt, sleeps = slept\<rparr>)"
  by pat_completeness auto
termination
  by (relation "measure (\<lambda>(net, attempt, delay, slept). deposit_monitor_MAX_RETRIES - attempt)")
    auto

declare make_request_loop.simps [simp del]

definition make_request :: "(nat \<Rightarrow> json http_outcome) \<Rightarrow> json option request_result" where
  "make_request net = make_request_loop net 0 INITIAL_DELAY []"

subsection \<open>Queue calls: fetch\_recent\_transactions (helpers/fetch\_transactions.py)\<close>

definition fetch_transactions_MAX_RETRIES :: nat where
  "fetch_transactions_MAX_RETRIES = 4"

definition BACKOFF_FACTOR :: nat where
  "BACKOFF_FACTOR = 2"

text \<open>
  The body of a response of the coordination feed is whatever JSON the feed sends. A
  JSON object is the list of its keys with their values, as \<^verbatim>\<open>response.json()\<close> builds the
  dict: every key once, in the order of the text. \<^verbatim>\<open>d.get(key, default)\<close> and \<^verbatim>\<open>len(v)\<close>,
  which raises a \<^verbatim>\<open>TypeError\<close> (\<open>None\<close>) on \<^verbatim>\<open>None\<close>, a bool and a number:
\<close>

definition dict_get :: "(string \<times> json) list \<Rightarrow> string \<Rightarrow> json \<Rightarrow> json" where
  "dict_get kvs key fallback = (case map_of kvs key of None \<Rightarrow> fallback | Some v \<Rightarrow> v)"

definition py_len :: "json \<Rightarrow> nat option" where
  "py_len v =
     (case v of
        JArr xs \<Rightarrow> Some (length xs)
      | JStr s \<Rightarrow> Some (length s)
      | JObj kvs \<Rightarrow> Some (length kvs)
      | _ \<Rightarrow> None)"

text \<open>
  One turn of the loop \<^verbatim>\<open>for tx in results\<close>:
  \<^verbatim>\<open>
    tx["signature_count"] = len(tx.get("confirmations", []))
    tx["confirmations_required"] = tx.get("confirmationsRequired", 0)
  \<close>
  \<^verbatim>\<open>tx.get\<close> raises an \<^verbatim>\<open>AttributeError\<close> when \<^verbatim>\<open>tx\<close> is not a dict.
\<close>

definition annotate :: "json \<Rightarrow> json outcome" where
  "annotate t =
     (case t of
        JObj kvs \<Rightarrow>
          (case py_len (dict_get kvs ''confirmations'' (JArr [])) of
             None \<Rightarrow> Raised TypeError
           | Some n \<Rightarrow>
               (let counted = AList.update ''signature_count'' (JNum (of_nat n)) kvs
                in Returned
                     (JObj (AList.update ''confirmations_required''
                              (dict_get counted ''confirmationsRequired'' (JNum 0)) counted))))
      | _ \<Rightarrow> Raised AttributeError)"

fun annotate_all :: "json list \<Rightarrow> json list outcome" where
  "annotate_all [] = Returned []"
| "annotate_all (t # ts) =
     (case annotate t of
        Raised e \<Rightarrow> Raised e
      | Returned t' \<Rightarrow>
          (case annotate_all ts of
             Raised e \<Rightarrow> Raised e
           | Returned ts' \<Rightarrow> Returned (t' # ts')))"

text \<open>
  The whole loop and the \<^verbatim>\<open>return results\<close> after it. A list is annotated element by
  element. A string hands out its characters and a dict its keys, which are strings and
  have no \<^verbatim>\<open>get\<close>; an empty string or dict is returned as it is. \<^verbatim>\<open>None\<close>, a bool and a
  number cannot be iterated (\<^verbatim>\<open>TypeError\<close>).
\<close>

definition annotate_results :: "json \<Rightarrow> json outcome" where
  "annotate_results results =
     (case results of
        JArr ts \<Rightarrow>
          (case annotate_all ts of Raised e \<Rightarrow> Raised e | Returned ts' \<Rightarrow> Returned (JArr ts'))
      | JStr s \<Rightarrow> if s = [] then Returned (JStr []) else Raised AttributeError
      | JObj kvs \<Rightarrow> if kvs = [] then Returned (JObj []) else Raised AttributeError
      | _ \<Rightarrow> Raised TypeError)"

text \<open>
  \<^verbatim>\<open>
    response = requests.get(url, timeout=10)
    response.raise_for_status()
    results = response.json().get("results", [])
    for tx in results: ...
    return results
  \<close>
  with \<^verbatim>\<open>except (requests.exceptions.RequestException, ValueError)\<close>, which catches neither
  the \<^verbatim>\<open>AttributeError\<close> of \<^verbatim>\<open>.get\<close> on JSON that is not an object nor the errors of
  the loop.
\<close>

definition fetch_attempt :: "json http_outcome \<Rightarrow> json attempt" where
  "fetch_attempt r =
     (case r of
        Timeout \<Rightarrow> Failed
      | RequestFailed \<Rightarrow> Failed
      | Response status body \<Rightarrow>
          if raises_for_status status then Failed
          else (case body of
                  None \<Rightarrow> Failed
                | Some (JObj kvs) \<Rightarrow>
                    (case annotate_results (dict_get kvs ''results'' (JArr [])) of
                       Raised e \<Rightarrow> Crashed e
                     | Returned results \<Rightarrow> Succeeded results)
                | Some _ \<Rightarrow> Crashed AttributeError))"

text \<open>
  The loop: a caught exception is followed by \<^verbatim>\<open>time.sleep(delay); delay *=
  BACKOFF_FACTOR\<close> unless the attempt was the last one; after the loop \<^verbatim>\<open>return []\<close>.
\<close>

function fetch_loop ::
  "(nat \<Rightarrow> json http_outcome) \<Rightarrow> nat \<Rightarrow> nat \<Rightarrow> nat list \<Rightarrow> json request_result"
where
  "fetch_loop net attempt delay slept =
     (if attempt < fetch_transactions_MAX_RETRIES then
        (case fetch_attempt (net attempt) of
           Succeeded results \<Rightarrow>
             \<lparr>result = Returned results, attempts = Suc attempt, sleeps = slept\<rparr>
         | Crashed e \<Rightarrow> \<lparr>result = Raised e, attempts = Suc attempt, sleeps = slept\<rparr>
         | Failed \<Rightarrow>
             if attempt < fetch_transactions_MAX_RETRIES - 1
             then fetch_loop net (Suc attempt) (delay * BACKOFF_FACTOR) (slept @ [delay])
             else fetch_loop net (Suc attempt) delay slept)
      else \<lparr>result = Returned (JArr []), attempts = attempt, sleeps = slept\<rparr>)"
  by pat_completeness auto
termination
  by (relation "measure (\<lambda>(net, attempt, delay, slept). fetch_transactions_MAX_RETRIES - attempt)")
    auto

declare fetch_loop.simps [simp del]

text \<open>
  \<open>configured\<close> tells whether \<^verbatim>\<open>SAFE_ADDRESS\<close> and \<^verbatim>\<open>BASE_URL\<close> are set; without them the
  function raises a \<^verbatim>\<open>ValueError\<close> before any request.
\<close>

definition fetch_recent_transactions ::
  "bool \<Rightarrow> (nat \<Rightarrow> json http_outcome) \<Rightarrow> json request_result"
where
  "fetch_recent_transactions configured net =
     (if \<not> configured then \<lparr>result = Raised ValueError, attempts = 0, sleeps = []\<rparr>
      else fetch_loop net 0 1 [])"

subsection \<open>The records of the queue, read off the dicts\<close>

text \<open>
  The helpers that work on the queue take the dicts of the returned list by their keys.
  The records \<open>feed_tx\<close> and \<open>tx\<close> of the data model stand for such dicts; the functions
  below give the record a dict stands for, and \<open>None\<close> for a dict on which the helpers'
  own reads (\<^verbatim>\<open>tx["nonce"]\<close>, \<^verbatim>\<open>conf["owner"]\<close>, \<^verbatim>\<open>confirmation["signature"]\<close>,
  comparisons of the counts) would not find a value of the expected kind. A number of
  the JSON text that has an integral value stands for that integer.
\<close>

definition json_int :: "json \<Rightarrow> int option" where
  "json_int v = (case v of JNum q \<Rightarrow> if of_int \<lfloor>q\<rfloor> = q then Some \<lfloor>q\<rfloor> else None | _ \<Rightarrow> None)"

definition json_bool :: "json \<Rightarrow> bool option" where
  "json_bool v = (case v of JBool b \<Rightarrow> Some b | _ \<Rightarrow> None)"

definition json_str :: "json \<Rightarrow> string option" where
  "json_str v = (case v of JStr s \<Rightarrow> Some s | _ \<Rightarrow> None)"

definition confirmation_of :: "json \<Rightarrow> confirmation option" where
  "confirmation_of v =
     (case v of
        JObj kvs \<Rightarrow>
          (case Option.bind (map_of kvs ''owner'') json_str of
             None \<Rightarrow> None
           | Some a \<Rightarrow>
               (case map_of kvs ''signature'' of
                  Some JNull \<Rightarrow> Some \<lparr>owner = a, signature = None\<rparr>
                | Some (JStr s) \<Rightarrow> Some \<lparr>owner = a, signature = Some s\<rparr>
                | _ \<Rightarrow> None))
      | _ \<Rightarrow> None)"

text \<open>
  The three keys read with \<^verbatim>\<open>tx.get(...)\<close>: the outer \<open>None\<close> is a value of the wrong
  kind, the inner \<open>None\<close> a missing key (for \<open>data\<close> also \<^verbatim>\<open>null\<close>, which
  \<^verbatim>\<open>if tx.get("data")\<close> treats like a missing key).
\<close>

definition data_field :: "(string \<times> json) list \<Rightarrow> string option option" where
  "data_field kvs =
     (case map_of kvs ''data'' of
        None \<Rightarrow> Some None
      | Some JNull \<Rightarrow> Some None
      | Some (JStr h) \<Rightarrow> Some (Some h)
      | Some _ \<Rightarrow> None)"

definition confirmations_field :: "(string \<times> json) list \<Rightarrow> confirmation list option option" where
  "confirmations_field kvs =
     (case map_of kvs ''confirmations'' of
        None \<Rightarrow> Some None
      | Some (JArr cs) \<Rightarrow> map_option Some (those (map confirmation_of cs))
      | Some _ \<Rightarrow> None)"

definition required_field :: "(string \<times> json) list \<Rightarrow> int option option" where
  "required_field kvs =
     (case map_of kvs ''confirmationsRequired'' of
        None \<Rightarrow> Some None
      | Some v \<Rightarrow> map_option Some (json_int v))"

definition feed_tx_of :: "(string \<times> json) list \<Rightarrow> feed_tx option" where
  "feed_tx_of kvs =
     Option.bind (Option.bind (map_of kvs ''nonce'') json_int) (\<lambda>n.
     Option.bind (Option.bind (map_of kvs ''isExecuted'') json_bool) (\<lambda>e.
     Option.bind (Option.bind (map_of kvs ''submissionDate'') json_str) (\<lambda>d.
     Option.bind (data_field kvs) (\<lambda>h.
     Option.bind (confirmations_field kvs) (\<lambda>cs.
     Option.bind (required_field kvs) (\<lambda>r.
       Some \<lparr>nonce = n, isExecuted = e, submissionDate = d, data = h,
             confirmations = cs, confirmationsRequired = r\<rparr>))))))"

definition tx_of :: "json \<Rightarrow> tx option" where
  "tx_of v =
     (case v of
        JObj kvs \<Rightarrow>
          Option.bind (feed_tx_of kvs) (\<lambda>t.
          Option.bind (Option.bind (map_of kvs ''signature_count'') json_int) (\<lambda>sc.
          Option.bind (Option.bind (map_of kvs ''confirmations_required'') json_int) (\<lambda>cr.
            Some \<lparr>nonce = nonce t, isExecuted = isExecuted t,
                  submissionDate = submissionDate t, data = data t,
                  confirmations = confirmations t,
                  confirmationsRequired = confirmationsRequired t,
                  signature_count = sc, confirmations_required = cr\<rparr>)))
      | _ \<Rightarrow> None)"

text \<open>The list \<^verbatim>\<open>fetch_recent_transactions\<close> returned, read as records.\<close>

definition queue_of :: "json \<Rightarrow> tx list option" where
  "queue_of v = (case v of JArr ts \<Rightarrow> those (map tx_of ts) | _ \<Rightarrow> None)"

text \<open>
  Bodies that go through the loop of the queue call without an exception: a JSON object
  whose \<^verbatim>\<open>"results"\<close>, if present, is a list of objects whose \<^verbatim>\<open>"confirmations"\<close>, if
  present, is a list.
\<close>

definition record_shaped :: "json \<Rightarrow> bool" where
  "record_shaped t =
     (case t of
        JObj kvs \<Rightarrow>
          (case map_of kvs ''confirmations'' of
             None \<Rightarrow> True
           | Some (JArr cs) \<Rightarrow> True
           | Some _ \<Rightarrow> False)
      | _ \<Rightarrow> False)"

definition feed_shaped :: "json \<Rightarrow> bool" where
  "feed_shaped body =
     (case body of
        JObj kvs \<Rightarrow>
          (case map_of kvs ''results'' of
             None \<Rightarrow> True
           | Some (JArr ts) \<Rightarrow> list_all record_shaped ts
           | Some _ \<Rightarrow> False)
      | _ \<Rightarrow> False)"

subsection \<open>Example networks\<close>

text \<open>
  A network that always times out; a feed that answers the first request with the JSON
  object \<^verbatim>\<open>{}\<close> and would answer the second with one pending transaction; a feed that
  times out once and then answers \<^verbatim>\<open>{}\<close>; an indexing API that answers
  \<^verbatim>\<open>{"result": "120"}\<close> and one that answers \<^verbatim>\<open>null\<close>; and three feeds whose answers are JSON objects:
  \<^verbatim>\<open>{"results": null}\<close>, \<^verbatim>\<open>{"results": [1]}\<close> and a record with \<^verbatim>\<open>"confirmations": null\<close>.
\<close>

definition net_down :: "nat \<Rightarrow> 'b http_outcome" where
  "net_down k = Timeout"

definition json_pending_5 :: json where
  "json_pending_5 =
     JObj [(''nonce'', JNum 5), (''isExecuted'', JBool False),
           (''submissionDate'', JStr ''2024-01-02T00:00:00Z'')]"

definition feed_empty_object_first :: "nat \<Rightarrow> json http_outcome" where
  "feed_empty_object_first k =
     (if k = 0 then Response 200 (Some (JObj []))
      else Response 200 (Some (JObj [(''results'', JArr [json_pending_5])])))"

definition feed_late_empty_object :: "nat \<Rightarrow> json http_outcome" where
  "feed_late_empty_object k = (if k = 0 then Timeout else Response 200 (Some (JObj [])))"

definition net_block_number :: "nat \<Rightarrow> json http_outcome" where
  "net_block_number k = Response 200 (Some (JObj [(''result'', JStr ''120'')]))"

definition net_null :: "nat \<Rightarrow> json http_outcome" where
  "net_null k = Response 200 (Some JNull)"

definition feed_results_null :: "nat \<Rightarrow> json http_outcome" where
  "feed_results_null k = Response 200 (Some (JObj [(''results'', JNull)]))"

definition feed_results_number :: "nat \<Rightarrow> json http_outcome" where
  "feed_results_number k = Response 200 (Some (JObj [(''results'', JArr [JNum 1])]))"

definition feed_confirmations_null :: "nat \<Rightarrow> json http_outcome" where
  "feed_confirmations_null k =
     Response 200 (Some (JObj [(''results'', JArr [JObj [(''confirmations'', JNull)]])]))"

section \<open>Execution gate (commands/hot.py)\<close>

text \<open>
  What \<^verbatim>\<open>execute_transaction\<close> returns: \<^verbatim>\<open>None\<close>, the transaction hash alone (the legacy
  form) or, with \<^verbatim>\<open>_wait_for_receipt\<close> set, the dict \<^verbatim>\<open>{"ok": ..., "tx_hash": ...}\<close>.
  The callers take \<^verbatim>\<open>isinstance(res, dict) and res.get("ok")\<close> for success.
\<close>

datatype exec_result = NoResult | TxHash string | Receipt bool string

definition exec_ok :: "exec_result \<Rightarrow> bool" where
  "exec_ok res = (case res of Receipt ok h \<Rightarrow> ok | _ \<Rightarrow> False)"

definition tx_hash :: "exec_result \<Rightarrow> string" where
  "tx_hash res = (case res of Receipt ok h \<Rightarrow> h | TxHash h \<Rightarrow> h | NoResult \<Rightarrow> [])"

text \<open>
  The messages a command sends to the channel, one constructor for each text of
  \<^verbatim>\<open>_run_execute_command\<close>, with the values the text shows. What a command does is the list
  of its messages and of its calls of \<^verbatim>\<open>execute_transaction\<close>, in order; \<open>Abort\<close> ends the
  list when an exception leaves the command.
\<close>

datatype reply =
    BotPaused
  | Checking
  | NoPendingTransactions
  | FailedToDecode int
  | InsufficientSignatures int int int
  | InsufficientBalance int int int rat rat
  | NoTransactionFound int
  | ExecutedSuccessfully int "decoded_payload option" string
  | CouldNotBeExecuted int

datatype command_event = Send reply | Submit feed_tx | Abort py_error

text \<open>
  The callables handed to \<^verbatim>\<open>register_hot_commands\<close>, by what they return when called,
  and Python's \<^verbatim>\<open>float(...)\<close>, \<open>None\<close> for its \<^verbatim>\<open>ValueError\<close>.
\<close>

record command_env =
  get_paused :: bool
  get_staking_balance :: "rat option"
  recent_transactions :: "tx list"
  decode :: "string \<Rightarrow> decoded_payload option"
  float_of :: "pyval \<Rightarrow> rat option"
  fetch_transaction_by_nonce :: "int \<Rightarrow> feed_tx option"
  execute_transaction :: "feed_tx \<Rightarrow> exec_result"

text \<open>\<^verbatim>\<open>round(staking_balance, 1) if staking_balance else 0.0\<close>, on a \<^verbatim>\<open>Decimal\<close>.\<close>

definition rounded_balance :: "rat option \<Rightarrow> rat" where
  "rounded_balance b =
     (case b of
        None \<Rightarrow> 0
      | Some x \<Rightarrow> if x = 0 then 0 else of_int (round_half_even (x * 10)) / 10)"

text \<open>
  \<^verbatim>\<open>decode_hex_data(hex_data) if hex_data else {}\<close>, read for its truth value: \<open>None\<close>
  stands for \<^verbatim>\<open>{}\<close> and for \<^verbatim>\<open>None\<close>, a payload for the dict the decoder returns.
\<close>

definition decoded_of ::
  "(string \<Rightarrow> decoded_payload option) \<Rightarrow> string option \<Rightarrow> decoded_payload option"
where
  "decoded_of dec hex_data =
     (case hex_data of None \<Rightarrow> None | Some h \<Rightarrow> if h = [] then None else dec h)"

text \<open>
  \<^verbatim>\<open>_run_execute_command\<close>, check by check in the order of the source: the pause gate,
  the empty queue, the decoding (not for \<^verbatim>\<open>allow_no_data_branch\<close>), the signatures, the
  balance, the lookup by nonce, the execution.
\<close>

definition run_execute_command :: "bool \<Rightarrow> bool \<Rightarrow> bool \<Rightarrow> command_env \<Rightarrow> command_event list"
where
  "run_execute_command check_pause check_balance allow_no_data_branch env =
     (if check_pause \<and> get_paused env then [Send BotPaused]
      else Send Checking #
        (let staking_balance = rounded_balance (get_staking_balance env);
             pending_transactions =
               filter_and_sort_pending_transactions (recent_transactions env)
         in case pending_transactions of
              [] \<Rightarrow> [Send NoPendingTransactions]
            | lowest_transaction # _ \<Rightarrow>
               (let n = nonce lowest_transaction;
                    sc = signature_count lowest_transaction;
                    cr = confirmations_required lowest_transaction;
                    decoded = decoded_of (decode env) (data lowest_transaction)
                in if \<not> allow_no_data_branch \<and> decoded = None then [Send (FailedToDecode n)]
                   else if sc < cr then [Send (InsufficientSignatures n sc cr)]
                   else
                    (case (case decoded of
                             None \<Rightarrow> Some 0
                           | Some d \<Rightarrow> float_of env (amountInTokens d)) of
                       None \<Rightarrow> [Abort ValueError]
                     | Some amount \<Rightarrow>
                         if check_balance \<and> staking_balance < amount
                         then [Send (InsufficientBalance n sc cr amount staking_balance)]
                         else
                          (case fetch_transaction_by_nonce env n of
                             None \<Rightarrow> [Send (NoTransactionFound n)]
                           | Some transaction \<Rightarrow>
                               (let res = execute_transaction env transaction
                                in Submit transaction #
                                   (if exec_ok res
                                    then [Send (ExecutedSuccessfully n decoded (tx_hash res))]
                                    else [Send (CouldNotBeExecuted n)])))))))"

text \<open>The four commands: \<^verbatim>\<open>!execute\<close>, \<^verbatim>\<open>!shikai\<close>, \<^verbatim>\<open>!bankai\<close> and \<^verbatim>\<open>!shukai9000\<close>.\<close>

definition execute :: "command_env \<Rightarrow> command_event list" where
  "execute = run_execute_command True True False"

definition force_execute :: "command_env \<Rightarrow> command_event list" where
  "force_execute = run_execute_command False True False"

definition force_execute_no_checks :: "command_env \<Rightarrow> command_event list" where
  "force_execute_no_checks = run_execute_command False False False"

definition ultimate_force_execute :: "command_env \<Rightarrow> command_event list" where
  "ultimate_force_execute = run_execute_command False False True"

primrec is_submit :: "command_event \<Rightarrow> bool" where
  "is_submit (Send m) = False"
| "is_submit (Submit t) = True"
| "is_submit (Abort e) = False"

definition submissions :: "command_event list \<Rightarrow> command_event list" where
  "submissions evs = filter is_submit evs"

section \<open>Periodic tick and execution engine (main.py)\<close>

subsection \<open>The report (helpers/report\_builder.py, helpers/decode\_hex.py)\<close>

text \<open>
  \<^verbatim>\<open>get_function_name\<close>: the name of the selector, the first eight hex digits after an
  optional \<^verbatim>\<open>0x\<close>, in the table \<^verbatim>\<open>_SELECTOR_TO_NAME\<close>.
\<close>

definition SELECTOR_TO_NAME :: "(string \<times> string) list" where
  "SELECTOR_TO_NAME =
     [(''095ea7b3'', ''approve''), (''42966c68'', ''burn''), (''79cc6790'', ''burnFrom''),
      (''5eac6239'', ''claimRewards''), (''d9a34952'', ''delegate''),
      (''d0e30db0'', ''deposit''), (''ed88c68e'', ''donate''), (''2f2ff15d'', ''grantRole''),
      (''485cc955'', ''initialize''), (''cf5c3eb7'', ''operatorExecuteClawBack''),
      (''71bbf3e7'', ''operatorInitiateClawBack''), (''8456cb59'', ''pause''),
      (''d505accf'', ''permit''), (''715018a6'', ''renounceOwnership''),
      (''36568abe'', ''renounceRole''), (''d547741f'', ''revokeRole''),
      (''543f66a4'', ''setDepositPaused''), (''98176a01'', ''setProtocolFeeBIPS''),
      (''f0f44260'', ''setTreasury''), (''e882e4ef'', ''setUndelegateFromPoolPaused''),
      (''cc90ef5c'', ''setUndelegatePaused''), (''72f0cb30'', ''setWithdrawDelay''),
      (''37d15139'', ''setWithdrawPaused''), (''a9059cbb'', ''transfer''),
      (''23b872dd'', ''transferFrom''), (''f2fde38b'', ''transferOwnership''),
      (''634b91e3'', ''undelegate''), (''d02e92a6'', ''undelegateFromPool''),
      (''2f3cd672'', ''undelegateMany''), (''4f1ef286'', ''upgradeToAndCall''),
      (''38d07436'', ''withdraw''), (''ac697e3f'', ''withdrawMany'')]"

definition get_function_name :: "string \<Rightarrow> string" where
  "get_function_name hex_data =
     (if hex_data = [] then ''No Data''
      else
       (let stripped = (if take 2 hex_data = ''0x'' then drop 2 hex_data else hex_data);
            selector = lower (take 8 stripped)
        in case map_of SELECTOR_TO_NAME selector of
             None \<Rightarrow> ''Unknown''
           | Some name \<Rightarrow> name))"

text \<open>
  The status of a pending transaction, in the listing of the tick and in the report. A
  row of the report and the report itself are kept as the values that the text is
  formatted from: the rows, the amounts that are summed up for the headroom warning, the
  nonces that lack the signature of a known signer, and the three notes the tick may add.
\<close>

datatype tx_status = SignaturesNeeded | ReadyToExecute | BalanceInsufficient | NoData

record report_row =
  row_nonce :: int
  row_func :: string
  row_validator_id :: pyval
  row_amount :: rat
  row_status :: tx_status
  row_signature_count :: int
  row_confirmations_required :: int

record full_report =
  report_staking_balance :: rat
  report_rows :: "report_row list"
  headroom_amounts :: "rat list"
  missing_signatures :: "(nat \<times> int list) list"
  no_pending_note :: bool
  queue_link :: bool
  paused_note :: bool

text \<open>\<^verbatim>\<open>tx.get("data")\<close>, read for its truth value: the calldata when there is some.\<close>

definition data_given :: "string option \<Rightarrow> string option" where
  "data_given d = (case d of None \<Rightarrow> None | Some h \<Rightarrow> if h = [] then None else Some h)"

text \<open>
  \<^verbatim>\<open>float((decode_hex_data(tx["data"]) or {}).get("amountInTokens", 0.0))\<close>, \<open>None\<close> for
  the \<^verbatim>\<open>ValueError\<close> of \<^verbatim>\<open>float\<close>.
\<close>

definition given_amount ::
  "(string \<Rightarrow> decoded_payload option) \<Rightarrow> (pyval \<Rightarrow> rat option) \<Rightarrow> string \<Rightarrow> rat option"
where
  "given_amount dec fl h = (case dec h of None \<Rightarrow> Some 0 | Some d \<Rightarrow> fl (amountInTokens d))"

text \<open>
  \<^verbatim>\<open>sum(float(...) for tx in pending if tx.get("data"))\<close>, as the list of the amounts it
  adds up.
\<close>

definition pending_amounts ::
  "(string \<Rightarrow> decoded_payload option) \<Rightarrow> (pyval \<Rightarrow> rat option) \<Rightarrow> tx list \<Rightarrow> rat list option"
where
  "pending_amounts dec fl pending =
     those (map (given_amount dec fl) (List.map_filter (\<lambda>t. data_given (data t)) pending))"

text \<open>
  One entry of the payload of \<^verbatim>\<open>compose_full_report\<close>. The amount is converted before the
  status is worked out, so a \<^verbatim>\<open>ValueError\<close> of \<^verbatim>\<open>float\<close> comes from there.
\<close>

definition report_row_of ::
  "(string \<Rightarrow> decoded_payload option) \<Rightarrow> (pyval \<Rightarrow> rat option) \<Rightarrow> rat \<Rightarrow> tx \<Rightarrow> report_row outcome"
where
  "report_row_of dec fl staking_balance t =
     (case data_given (data t) of
        None \<Rightarrow>
          Returned \<lparr>row_nonce = nonce t, row_func = ''No Data'',
                    row_validator_id = PyStr ''No Data'', row_amount = 0, row_status = NoData,
                    row_signature_count = signature_count t,
                    row_confirmations_required = confirmations_required t\<rparr>
      | Some h \<Rightarrow>
          (case given_amount dec fl h of
             None \<Rightarrow> Raised ValueError
           | Some amount \<Rightarrow>
               Returned \<lparr>row_nonce = nonce t, row_func = get_function_name h,
                         row_validator_id =
                           (case dec h of None \<Rightarrow> PyStr ''No Data'' | Some d \<Rightarrow> validatorId d),
                         row_amount = amount,
                         row_status =
                           (if signature_count t < confirmations_required t
                            then SignaturesNeeded
                            else if staking_balance \<ge> amount then ReadyToExecute
                            else BalanceInsufficient),
                         row_signature_count = signature_count t,
                         row_confirmations_required = confirmations_required t\<rparr>))"

text \<open>A list comprehension whose elements may raise: the first exception leaves it.\<close>

fun collect :: "'a outcome list \<Rightarrow> 'a list outcome" where
  "collect [] = Returned []"
| "collect (x # xs) =
     (case x of
        Raised e \<Rightarrow> Raised e
      | Returned y \<Rightarrow>
          (case collect xs of Raised e \<Rightarrow> Raised e | Returned ys \<Rightarrow> Returned (y # ys)))"

text \<open>
  The signers the report knows, with their Discord ids, and
  \<^verbatim>\<open>
    for tx in pending:
        if tx["signature_count"] < tx["confirmations_required"]:
            signed_addresses = {conf["owner"] for conf in tx["confirmations"]}
            for address, discord_id in signer_discord_map.items():
                if address not in signed_addresses:
                    missing_signatures.setdefault(discord_id, []).append(tx["nonce"])
  \<close>
  where \<^verbatim>\<open>tx["confirmations"]\<close> raises a \<^verbatim>\<open>KeyError\<close> on a record without that key.
\<close>

definition signer_discord_map :: "(string \<times> nat) list" where
  "signer_discord_map =
     [(''0x69503B52764138e906C883eD6ef4Cac939eb998C'', 892276475045249064),
      (''0x693f30c37D5a0Db9258C636E93Ccf011ACd8c90c'', 232514597200855040),
      (''0xB3B1B2d1C9745E98e93F21DC2e4D816DA8a2440c'', 538717564067381249),
      (''0xf05Ea14723d6501AfEeA3bcFF8c36e375f3a7129'', 771222144780206100),
      (''0xa01Bfd7F1Be1ccF81A02CF7D722c30bDCc029718'', 258369063124860928)]"

definition append_nonce :: "nat \<Rightarrow> int \<Rightarrow> (nat \<times> int list) list \<Rightarrow> (nat \<times> int list) list" where
  "append_nonce discord_id n missing =
     AList.update discord_id
       (case map_of missing discord_id of None \<Rightarrow> [n] | Some ns \<Rightarrow> ns @ [n]) missing"

definition missing_signers ::
  "tx \<Rightarrow> confirmation list \<Rightarrow> (nat \<times> int list) list \<Rightarrow> (nat \<times> int list) list"
where
  "missing_signers t cs missing =
     foldl (\<lambda>m (address, discord_id).
              if address \<notin> set (map owner cs) then append_nonce discord_id (nonce t) m else m)
       missing signer_discord_map"

fun collect_missing_signatures ::
  "tx list \<Rightarrow> (nat \<times> int list) list \<Rightarrow> (nat \<times> int list) list outcome"
where
  "collect_missing_signatures [] missing = Returned missing"
| "collect_missing_signatures (t # ts) missing =
     (if signature_count t < confirmations_required t then
        (case confirmations t of
           None \<Rightarrow> Raised KeyError
         | Some cs \<Rightarrow> collect_missing_signatures ts (missing_signers t cs missing))
      else collect_missing_signatures ts missing)"

text \<open>
  \<^verbatim>\<open>compose_full_report\<close> as the tick calls it, with the signers pinged and the headroom
  warning on: the rows, the amounts of the headroom, the missing signatures.
\<close>

definition compose_full_report ::
  "tx list \<Rightarrow> rat \<Rightarrow> (string \<Rightarrow> decoded_payload option) \<Rightarrow> (pyval \<Rightarrow> rat option) \<Rightarrow>
     full_report outcome"
where
  "compose_full_report transactions staking_balance dec fl =
     (let pending = filter_and_sort_pending_transactions transactions
      in case collect (map (report_row_of dec fl staking_balance) pending) of
           Raised e \<Rightarrow> Raised e
         | Returned rows \<Rightarrow>
             (case pending_amounts dec fl pending of
                None \<Rightarrow> Raised ValueError
              | Some amounts \<Rightarrow>
                  (case collect_missing_signatures pending [] of
                     Raised e \<Rightarrow> Raised e
                   | Returned missing \<Rightarrow>
                       Returned \<lparr>report_staking_balance = staking_balance,
                                 report_rows = rows, headroom_amounts = amounts,
                                 missing_signatures = missing, no_pending_note = False,
                                 queue_link = False, paused_note = False\<rparr>)))"

subsection \<open>The tick\<close>

text \<open>
  The lines the tick broadcasts to the channels or prints to its log, and its calls of
  \<^verbatim>\<open>execute_transaction\<close> with what they returned. \<open>StatusLine\<close> is the line of the listing
  of the pending transactions: nonce, status, validator id, amount and the two counts
  shown as \<^verbatim>\<open>Signatures: sc/cr\<close>. \<open>DailyReport\<close> carries the report, or \<open>None\<close> for the
  text that the report failed to build. The other lines of the log (the balance, the
  headroom, the notice that the deposit monitor set the pause, the announcement of an
  execution) are not kept.
\<close>

datatype tick_notice =
    Rechecking
  | DepositAlert
  | SafeApiEmpty
  | NoPendingFound
  | PendingHeader
  | StatusLine int tx_status pyval rat int int
  | ExecutionPaused
  | PauseDetected
  | SuccessfullyExecuted int decoded_payload string
  | Reverted nat int
  | TransactionRevertedAlert
  | ThreeConsecutiveReverts
  | NotFoundForExecution int
  | SkippingExecution int int int
  | InsufficientBalanceForNext
  | ErrorDuringRecheck py_error
  | DailyReport "full_report option"

datatype tick_event = Broadcast tick_notice | Print tick_notice | Execute feed_tx exec_result

text \<open>
  What one tick meets: what \<^verbatim>\<open>run_deposit_probe\<close> brings (its alert, or an exception), the
  balance, what \<^verbatim>\<open>fetch_recent_transactions\<close> brings (the queue, or an exception), the
  decoder, \<^verbatim>\<open>float(...)\<close>, the lookup by nonce, the result of the \<open>k\<close>-th call of
  \<^verbatim>\<open>execute_transaction\<close> in this tick, the pause flag as the loop finds it after the
  wait that follows the \<open>k\<close>-th failed attempt (the tick suspends there, and a command
  running meanwhile may have set the flag), and whether the daily report is due: the
  clock is past the hour of the report and a date of an earlier day is recorded.
\<close>

record tick_env =
  probe_alert :: "bool outcome"
  tick_staking_balance :: "rat option"
  tick_transactions :: "tx list outcome"
  tick_decode :: "string \<Rightarrow> decoded_payload option"
  tick_float_of :: "pyval \<Rightarrow> rat option"
  tick_transaction_by_nonce :: "int \<Rightarrow> feed_tx option"
  tick_execute :: "nat \<Rightarrow> feed_tx \<Rightarrow> exec_result"
  paused_after_wait :: "nat \<Rightarrow> bool"
  report_due :: bool

text \<open>
  One turn of the listing of the pending transactions:
  \<^verbatim>\<open>
    decoded = decode_hex_data(tx["data"]) if tx.get("data") else {}
    if not isinstance(decoded, dict): decoded = {}
    amount = float(decoded.get("amountInTokens", 0.0)) if "amountInTokens" in decoded else 0.0
    validator_id = decoded.get("validatorId", "N/A") if "validatorId" in decoded else "N/A"
    status = (f"Signatures Needed {sc}/{cr}" if sc < cr
              else ("Ready to Execute" if staking_balance >= amount else "Insufficient Balance")
             ) if decoded else "No Data"
    print(f"- Nonce: {nonce}, Status: {status}, ..., Signatures: {sc}/{cr}")
  \<close>
\<close>

definition status_line :: "tick_env \<Rightarrow> rat \<Rightarrow> tx \<Rightarrow> tick_notice outcome" where
  "status_line env staking_balance t =
     (case decoded_of (tick_decode env) (data t) of
        None \<Rightarrow>
          Returned (StatusLine (nonce t) NoData (PyStr ''N/A'') 0
                      (signature_count t) (confirmations_required t))
      | Some decoded \<Rightarrow>
          (case tick_float_of env (amountInTokens decoded) of
             None \<Rightarrow> Raised ValueError
           | Some amount \<Rightarrow>
               Returned (StatusLine (nonce t)
                           (if signature_count t < confirmations_required t
                            then SignaturesNeeded
                            else if staking_balance \<ge> amount then ReadyToExecute
                            else BalanceInsufficient)
                           (validatorId decoded) amount
                           (signature_count t) (confirmations_required t))))"

text \<open>The listing: the lines printed, and the exception that ended it, if any.\<close>

fun list_pending :: "tick_env \<Rightarrow> rat \<Rightarrow> tx list \<Rightarrow> tick_event list \<times> py_error option" where
  "list_pending env staking_balance [] = ([], None)"
| "list_pending env staking_balance (t # ts) =
     (case status_line env staking_balance t of
        Raised e \<Rightarrow> ([], Some e)
      | Returned line \<Rightarrow>
          (let rest = list_pending env staking_balance ts
           in (Print line # fst rest, snd rest)))"

text \<open>
  The retry loop, from \<^verbatim>\<open>attempts\<close> (here \<open>tried\<close>) and the pause flag to the flag and
  the events:
  \<^verbatim>\<open>
    while attempts < 3:
        if paused: return
        res = execute_transaction(transaction)
        if isinstance(res, dict) and res.get("ok"): ...; return
        attempts += 1
        if attempts < 3:
            await broadcast_message(...)
            for _ in range(60):
                if paused: break
                await asyncio.sleep(1)
    paused = True
    await broadcast_message(...)
    return
  \<close>
\<close>

function attempt_loop ::
  "tick_env \<Rightarrow> feed_tx \<Rightarrow> int \<Rightarrow> decoded_payload \<Rightarrow> nat \<Rightarrow> bool \<Rightarrow> bool \<times> tick_event list"
where
  "attempt_loop env transaction n decoded tried paused =
     (if tried < 3 then
        (if paused then (paused, [Print PauseDetected])
         else
          (let res = tick_execute env tried transaction
           in if exec_ok res
              then (paused,
                    [Execute transaction res,
                     Broadcast (SuccessfullyExecuted n decoded (tx_hash res))])
              else
               (let paused' = (if Suc tried < 3 then paused_after_wait env (Suc tried)
                               else paused);
                    rest = attempt_loop env transaction n decoded (Suc tried) paused'
                in (fst rest,
                    Execute transaction res #
                    (if Suc tried < 3 then [Broadcast (Reverted (Suc tried) n)] else []) @
                    snd rest))))
      else (True, [Broadcast TransactionRevertedAlert, Print ThreeConsecutiveReverts]))"
  by pat_completeness auto
termination
  by (relation "measure (\<lambda>(env, transaction, n, decoded, tried, paused). 3 - tried)")
    auto

declare attempt_loop.simps [simp del]

text \<open>
  The last part of the \<^verbatim>\<open>try\<close> block of \<^verbatim>\<open>periodic_recheck\<close>, from \<^verbatim>\<open># Check if any
  transaction can be executed\<close> on. An exception is caught by the tick and broadcast.
\<close>

definition automated_execution ::
  "bool \<Rightarrow> rat \<Rightarrow> tx list \<Rightarrow> tick_env \<Rightarrow> bool \<times> tick_event list"
where
  "automated_execution paused staking_balance pending_transactions env =
     (if paused then (paused, [Print ExecutionPaused])
      else
       (case pending_transactions of
          [] \<Rightarrow> (paused, [])
        | lowest_transaction # _ \<Rightarrow>
           (case decoded_of (tick_decode env) (data lowest_transaction) of
              None \<Rightarrow> (paused, [])
            | Some decoded \<Rightarrow>
               (case tick_float_of env (amountInTokens decoded) of
                  None \<Rightarrow> (paused, [Broadcast (ErrorDuringRecheck ValueError)])
                | Some amount \<Rightarrow>
                   (let n = nonce lowest_transaction;
                        sc = signature_count lowest_transaction;
                        cr = confirmations_required lowest_transaction
                    in if sc \<ge> cr \<and> staking_balance \<ge> amount then
                         (case tick_transaction_by_nonce env n of
                            None \<Rightarrow> (paused, [Print (NotFoundForExecution n)])
                          | Some transaction \<Rightarrow>
                              attempt_loop env transaction n decoded 0 paused)
                       else if sc < cr then (paused, [Print (SkippingExecution n sc cr)])
                       else (paused, [Print InsufficientBalanceForNext]))))))"

text \<open>
  The \<^verbatim>\<open>try\<close> block from the queue on: the note on an empty answer of the feed, the
  listing, the sum of the pending amounts, the report with its notes, and the execution
  part. An exception ends the block; the tick broadcasts it, and the report stays as it
  was: \<open>None\<close> as long as \<^verbatim>\<open>compose_full_report\<close> has not returned. The result is the
  pause flag, the events and the report.
\<close>

definition recheck_queue ::
  "bool \<Rightarrow> tick_env \<Rightarrow> tx list \<Rightarrow> bool \<times> tick_event list \<times> full_report option"
where
  "recheck_queue paused env transactions =
     (let staking_balance = rounded_balance (tick_staking_balance env);
          pending_transactions = filter_and_sort_pending_transactions transactions;
          api_empty = (if transactions = [] then [Broadcast SafeApiEmpty] else []);
          listing =
            (if pending_transactions = [] then ([Print NoPendingFound], None)
             else (let lines = list_pending env staking_balance pending_transactions
                   in (Print PendingHeader # fst lines, snd lines)))
      in case snd listing of
           Some e \<Rightarrow>
             (paused, api_empty @ fst listing @ [Broadcast (ErrorDuringRecheck e)], None)
         | None \<Rightarrow>
             (case pending_amounts (tick_decode env) (tick_float_of env) pending_transactions of
                None \<Rightarrow>
                  (paused,
                   api_empty @ fst listing @ [Broadcast (ErrorDuringRecheck ValueError)], None)
              | Some amounts \<Rightarrow>
                  (case compose_full_report transactions (to_double staking_balance)
                          (tick_decode env) (tick_float_of env) of
                     Raised e \<Rightarrow>
                       (paused,
                        api_empty @ fst listing @ [Broadcast (ErrorDuringRecheck e)], None)
                   | Returned report \<Rightarrow>
                       (let run = automated_execution paused (to_double staking_balance)
                                    pending_transactions env
                        in (fst run, api_empty @ fst listing @ snd run,
                            Some (report
                                    \<lparr>no_pending_note := pending_transactions = [],
                                     queue_link :=
                                       list_ex (\<lambda>t. signature_count t < confirmations_required t)
                                         pending_transactions,
                                     paused_note := paused\<rparr>))))))"

text \<open>
  One tick, from the pause flag to the pause flag and the events: the opening broadcast;
  the deposit probe, whose alert is broadcast and sets the flag; the queue; and, in the
  \<^verbatim>\<open>finally\<close> block, the daily report when it is due. The date that the \<^verbatim>\<open>finally\<close> block
  records is not part of the model.
\<close>

definition periodic_recheck :: "bool \<Rightarrow> tick_env \<Rightarrow> bool \<times> tick_event list" where
  "periodic_recheck paused env =
     (let block =
            (case probe_alert env of
               Raised e \<Rightarrow> (paused, [Broadcast (ErrorDuringRecheck e)], None)
             | Returned alert \<Rightarrow>
                 (let alerted = (if alert then [Broadcast DepositAlert] else []);
                      paused = (paused \<or> alert)
                  in case tick_transactions env of
                       Raised e \<Rightarrow>
                         (paused, alerted @ [Broadcast (ErrorDuringRecheck e)], None)
                     | Returned transactions \<Rightarrow>
                         (let run = recheck_queue paused env transactions
                          in (fst run, alerted @ fst (snd run), snd (snd run)))));
          daily = (if report_due env then [Broadcast (DailyReport (snd (snd block)))] else [])
      in (fst block, Broadcast Rechecking # fst (snd block) @ daily))"

text \<open>Ticks one after the other with no command in between: the flag is handed on.\<close>

fun run_ticks :: "bool \<Rightarrow> tick_env list \<Rightarrow> bool \<times> tick_event list" where
  "run_ticks paused [] = (paused, [])"
| "run_ticks paused (env # envs) =
     (let first = periodic_recheck paused env;
          others = run_ticks (fst first) envs
      in (fst others, snd first @ snd others))"

primrec execution_results :: "tick_event list \<Rightarrow> exec_result list" where
  "execution_results [] = []"
| "execution_results (e # es) =
     (case e of Execute t res \<Rightarrow> res # execution_results es | _ \<Rightarrow> execution_results es)"

section \<open>Example queues and environments\<close>

text \<open>
  The calldata of the decoder's example, and queue records that carry it: one with no
  signature of two, one with two of two, one without calldata, one that requires two
  signatures and has no \<^verbatim>\<open>confirmations\<close> key, and one whose feed record has neither
  \<^verbatim>\<open>confirmations\<close> nor \<^verbatim>\<open>confirmationsRequired\<close>.
\<close>

definition calldata_7_2500 :: string where
  "calldata_7_2500 = ''0x'' @ delegate_selector @ args_7_2500"

definition unsigned_tx :: tx where
  "unsigned_tx = \<lparr>nonce = 3, isExecuted = False, submissionDate = ''2024-01-02T00:00:00Z'',
     data = Some calldata_7_2500, confirmations = Some [], confirmationsRequired = Some 2,
     signature_count = 0, confirmations_required = 2\<rparr>"

definition signed_tx :: tx where
  "signed_tx = \<lparr>nonce = 3, isExecuted = False, submissionDate = ''2024-01-02T00:00:00Z'',
     data = Some calldata_7_2500, confirmations = Some two_confirmations,
     confirmationsRequired = Some 2, signature_count = 2, confirmations_required = 2\<rparr>"

definition undecodable_tx :: tx where
  "undecodable_tx = \<lparr>nonce = 3, isExecuted = False, submissionDate = ''2024-01-02T00:00:00Z'',
     data = None, confirmations = Some [], confirmationsRequired = Some 2,
     signature_count = 0, confirmations_required = 2\<rparr>"

definition keyless_tx :: tx where
  "keyless_tx = \<lparr>nonce = 3, isExecuted = False, submissionDate = ''2024-01-02T00:00:00Z'',
     data = Some calldata_7_2500, confirmations = None, confirmationsRequired = Some 2,
     signature_count = 0, confirmations_required = 2\<rparr>"

definition bare_tx :: feed_tx where
  "bare_tx = \<lparr>nonce = 3, isExecuted = False, submissionDate = ''2024-01-02T00:00:00Z'',
     data = Some calldata_7_2500, confirmations = None, confirmationsRequired = None\<rparr>"

text \<open>
  A feed that delivers two records: the record \<open>signed_twice\<close> of the signature examples,
  with two confirmations and \<^verbatim>\<open>"confirmationsRequired": 2\<close>, and the record \<open>bare_tx\<close>.
  \<open>signed_twice_counted\<close> and \<open>bare_counted\<close> are the records with the two counts that
  \<^verbatim>\<open>fetch_recent_transactions\<close> adds.
\<close>

definition json_signed_twice :: "(string \<times> json) list" where
  "json_signed_twice =
     [(''nonce'', JNum 7), (''isExecuted'', JBool False),
      (''submissionDate'', JStr ''2024-01-01T00:00:00Z''), (''data'', JNull),
      (''confirmations'',
         JArr [JObj [(''owner'', JStr ''0xB1''), (''signature'', JStr ''0x0102'')],
               JObj [(''owner'', JStr ''0xa2''), (''signature'', JStr ''0x03'')]]),
      (''confirmationsRequired'', JNum 2)]"

definition json_bare :: "(string \<times> json) list" where
  "json_bare =
     [(''nonce'', JNum 3), (''isExecuted'', JBool False),
      (''submissionDate'', JStr ''2024-01-02T00:00:00Z''), (''data'', JStr calldata_7_2500)]"

definition feed_signed_and_bare :: "nat \<Rightarrow> json http_outcome" where
  "feed_signed_and_bare k =
     Response 200 (Some (JObj [(''count'', JNum 2),
                               (''results'', JArr [JObj json_signed_twice, JObj json_bare])]))"

definition signed_twice_counted :: tx where
  "signed_twice_counted =
     \<lparr>nonce = 7, isExecuted = False, submissionDate = ''2024-01-01T00:00:00Z'',
      data = None, confirmations = Some two_confirmations, confirmationsRequired = Some 2,
      signature_count = 2, confirmations_required = 2\<rparr>"

definition bare_counted :: tx where
  "bare_counted =
     \<lparr>nonce = 3, isExecuted = False, submissionDate = ''2024-01-02T00:00:00Z'',
      data = Some calldata_7_2500, confirmations = None, confirmationsRequired = None,
      signature_count = 0, confirmations_required = 0\<rparr>"

text \<open>\<^verbatim>\<open>float(...)\<close> on the values the examples meet.\<close>

definition example_float :: "pyval \<Rightarrow> rat option" where
  "example_float v =
     (case v of
        PyFloat x \<Rightarrow> Some x
      | PyStr s \<Rightarrow> if s = ''2500.0'' then Some 2500 else None)"

definition command_env_of :: "tx list \<Rightarrow> command_env" where
  "command_env_of queue =
     \<lparr>get_paused = False, get_staking_balance = Some 5000, recent_transactions = queue,
      decode = decode_hex_data, float_of = example_float,
      fetch_transaction_by_nonce = (\<lambda>n. Some bare_tx),
      execute_transaction = (\<lambda>t. Receipt True ''0xabc'')\<rparr>"

text \<open>
  A tick in which every execution comes back with a failed receipt and nobody pauses; the
  daily report is due.
\<close>

definition tick_env_of :: "tx list \<Rightarrow> tick_env" where
  "tick_env_of queue =
     \<lparr>probe_alert = Returned False, tick_staking_balance = Some 5000,
      tick_transactions = Returned queue,
      tick_decode = decode_hex_data, tick_float_of = example_float,
      tick_transaction_by_nonce = (\<lambda>n. Some bare_tx),
      tick_execute = (\<lambda>k t. Receipt False ''0xdead''),
      paused_after_wait = (\<lambda>k. False), report_due = True\<rparr>"

section \<open>Deposit probe (helpers/deposit\_monitor.py)\<close>

text \<open>
  What a call of \<^verbatim>\<open>make_request\<close> gives its caller, by what the caller does with it:
  \<^verbatim>\<open>None\<close> after the retries (\<open>Unavailable\<close>); a body whose \<^verbatim>\<open>"result"\<close> the caller cannot
  read as it expects, so that \<^verbatim>\<open>int(...)\<close> or the loop over the logs raises
  (\<open>Malformed\<close>); or the value the caller reads from \<^verbatim>\<open>"result"\<close>.
\<close>

datatype 'a response = Unavailable | Malformed | Result 'a

text \<open>
  A raw log of the deposit event, with the keys the code reads: the block number (hex
  text or a number in the source, read to an int), the topics, and the first 32-byte
  word of the data field, \<^verbatim>\<open>w3.to_int(hexstr=deposit.get("data", "0x0")[:66])\<close>.
\<close>

record raw_log =
  transactionHash :: string
  blockNumber :: int
  topics :: "string list"
  amount_word :: "256 word"

definition FLAG_THRESHOLD :: rat where
  "FLAG_THRESHOLD = 100000"

text \<open>
  The messages of the probe, one constructor for each text of the source:
  \<^verbatim>\<open>"Error: Could not fetch block time."\<close>, \<^verbatim>\<open>"Error: Could not fetch latest block."\<close>,
  \<^verbatim>\<open>"Error: Could not fetch deposit logs."\<close>, the literal \<^verbatim>\<open>"message"\<close>, the alert made of
  one line for each large deposit (amount, sender, transaction hash), and
  \<^verbatim>\<open>"No deposits over 100,000 S tokens were found between blocks {start_block} and
  {new_last_block}."\<close>.
\<close>

datatype alert_line = LargeDeposit rat string string

datatype probe_message =
    ErrorBlockTime
  | ErrorLatestBlock
  | ErrorDepositLogs
  | PlaceholderMessage
  | AlertMessage "alert_line list"
  | NoDepositsFound "int option" "int option"

text \<open>
  The indexing API as one scan meets it: the block at the start of the look-back window,
  the chain head, and the logs of a block range.
\<close>

record probe_env =
  block_time_response :: "int response"
  latest_block_response :: "int response"
  logs_response :: "int \<Rightarrow> int \<Rightarrow> raw_log list response"

text \<open>
  The loop over the deposits, with \<^verbatim>\<open>last_block_scanned\<close>, \<^verbatim>\<open>alert_triggered\<close> and
  \<^verbatim>\<open>messages\<close>. \<^verbatim>\<open>deposit['topics'][1]\<close> raises an \<^verbatim>\<open>IndexError\<close> on fewer than two topics;
  \<^verbatim>\<open>[-40:]\<close> takes the last 40 characters.
\<close>

fun classify_deposits ::
  "raw_log list \<Rightarrow> int \<Rightarrow> bool \<Rightarrow> alert_line list \<Rightarrow> (int \<times> bool \<times> alert_line list) outcome"
where
  "classify_deposits [] last_block_scanned alert_triggered messages =
     Returned (last_block_scanned, alert_triggered, messages)"
| "classify_deposits (deposit # rest) last_block_scanned alert_triggered messages =
     (if length (topics deposit) < 2 then Raised IndexError
      else
       (let sender = ''0x'' @ drop (length (topics deposit ! 1) - 40) (topics deposit ! 1);
            deposit_amount = py_truediv (unat (amount_word deposit)) DECIMALS;
            last_block_scanned = max last_block_scanned (blockNumber deposit)
        in if deposit_amount \<ge> FLAG_THRESHOLD
           then classify_deposits rest last_block_scanned True
                  (messages @ [LargeDeposit deposit_amount sender (transactionHash deposit)])
           else classify_deposits rest last_block_scanned alert_triggered messages))"

text \<open>
  \<^verbatim>\<open>check_large_deposits_with_block\<close>: the start block is looked up only when none is
  given; each of the three requests may come back unavailable, which returns
  \<^verbatim>\<open>(False, "Error: ...", None)\<close>. With logs, the checkpoint candidate starts from the
  greatest block number among them, without logs from the chain head.
\<close>

definition check_large_deposits_with_block ::
  "probe_env \<Rightarrow> int option \<Rightarrow> (bool \<times> probe_message \<times> int option) outcome"
where
  "check_large_deposits_with_block env start_block =
     (case (case start_block of None \<Rightarrow> block_time_response env | Some b \<Rightarrow> Result b) of
        Unavailable \<Rightarrow> Returned (False, ErrorBlockTime, None)
      | Malformed \<Rightarrow> Raised ValueError
      | Result start \<Rightarrow>
         (case latest_block_response env of
            Unavailable \<Rightarrow> Returned (False, ErrorLatestBlock, None)
          | Malformed \<Rightarrow> Raised ValueError
          | Result latest_block \<Rightarrow>
             (case logs_response env start latest_block of
                Unavailable \<Rightarrow> Returned (False, ErrorDepositLogs, None)
              | Malformed \<Rightarrow> Raised TypeError
              | Result logs \<Rightarrow>
                 (let last_block_scanned =
                        (case logs of
                           [] \<Rightarrow> latest_block
                         | d # ds \<Rightarrow> foldl max (blockNumber d) (map blockNumber ds))
                  in case classify_deposits logs last_block_scanned False [] of
                       Raised e \<Rightarrow> Raised e
                     | Returned (last_block_scanned, alert_triggered, messages) \<Rightarrow>
                         if alert_triggered
                         then Returned (True, AlertMessage messages, Some last_block_scanned)
                         else Returned (False, PlaceholderMessage, Some last_block_scanned)))))"

text \<open>
  \<^verbatim>\<open>run_deposit_probe\<close>, from the persisted checkpoint (\<open>None\<close> when the file is missing
  or unreadable) to what it returns and the checkpoint it leaves. The file is taken to
  hold what \<^verbatim>\<open>save_last_scanned_block\<close> writes. An exception of the check leaves the
  function before anything is saved.
  \<^verbatim>\<open>
    old_persisted_block = load_last_scanned_block()
    if start_block is None:
        start_block = old_persisted_block + 1 if old_persisted_block is not None else None
    alert_triggered, deposit_message, new_last_block = check_large_deposits_with_block(start_block)
    if new_last_block is not None:
        save_last_scanned_block(new_last_block)
    if not alert_triggered:
        deposit_message = "No deposits over ... between blocks {start_block} and {new_last_block}."
    return alert_triggered, deposit_message, start_block, new_last_block
  \<close>
\<close>

definition run_deposit_probe ::
  "int option \<Rightarrow> probe_env \<Rightarrow> int option \<Rightarrow>
     (bool \<times> probe_message \<times> int option \<times> int option) outcome \<times> int option"
where
  "run_deposit_probe old_persisted_block env start_block =
     (let start_block =
            (case start_block of
               None \<Rightarrow> map_option (\<lambda>b. b + 1) old_persisted_block
             | Some b \<Rightarrow> Some b)
      in case check_large_deposits_with_block env start_block of
           Raised e \<Rightarrow> (Raised e, old_persisted_block)
         | Returned (alert_triggered, deposit_message, new_last_block) \<Rightarrow>
             (Returned (alert_triggered,
                        (if \<not> alert_triggered then NoDepositsFound start_block new_last_block
                         else deposit_message),
                        start_block, new_last_block),
              (case new_last_block of
                 None \<Rightarrow> old_persisted_block
               | Some b \<Rightarrow> Some b)))"





text \<open>
  Example scans: one whose chain head cannot be fetched, one that is quiet up to a head
  of 120, and one that is quiet with a head reported at 99.
\<close>

definition head_unavailable :: probe_env where
  "head_unavailable =
     \<lparr>block_time_response = Result 90, latest_block_response = Unavailable,
      logs_response = (\<lambda>from_block to_block. Result [])\<rparr>"



section \<open>Chunked historical scan (helpers/deposit\_monitor.py)\<close>

text \<open>
  The loop that \<^verbatim>\<open>check_large_deposits_custom\<close> and \<^verbatim>\<open>fetch_all_deposits_custom\<close> share.
  Its variables are the chunk size (\<^verbatim>\<open>BLOCK_CHUNK_SIZE\<close>, 25000 at the start), the start
  of the current chunk and the logs gathered; \<open>requests\<close> counts the calls of
  \<^verbatim>\<open>make_request\<close> and \<open>retrieved\<close> lists the block ranges of the \<^verbatim>\<open>Retrieved ...\<close> lines
  the loop prints, one for each chunk that came back. The API is a function from the
  number of the request and the block range to the logs, \<open>None\<close> when the request fails.
\<close>

definition INITIAL_BLOCK_CHUNK_SIZE :: nat where
  "INITIAL_BLOCK_CHUNK_SIZE = 25000"

definition MIN_BLOCK_CHUNK :: nat where
  "MIN_BLOCK_CHUNK = 3125"

definition RETRY_LIMIT :: nat where
  "RETRY_LIMIT = 2"

record scan_state =
  BLOCK_CHUNK_SIZE :: nat
  current_start_block :: int
  deposits :: "raw_log list"
  requests :: nat
  retrieved :: "(int \<times> int) list"

text \<open>
  The inner loop, from \<^verbatim>\<open>retries\<close> to \<^verbatim>\<open>retries\<close> at its end:
  \<^verbatim>\<open>
    while retries < RETRY_LIMIT:
        tx_response = make_request(tx_url)
        if tx_response and "result" in tx_response:
            deposits.extend(tx_response["result"])
            break
        else:
            retries += 1
            time.sleep(10 * retries)
            if retries == RETRY_LIMIT and BLOCK_CHUNK_SIZE > MIN_BLOCK_CHUNK:
                BLOCK_CHUNK_SIZE = max(BLOCK_CHUNK_SIZE // 2, MIN_BLOCK_CHUNK)
  \<close>
\<close>

function retry_chunk ::
  "(nat \<Rightarrow> int \<Rightarrow> int \<Rightarrow> raw_log list option) \<Rightarrow> int \<Rightarrow> nat \<Rightarrow> scan_state \<Rightarrow> nat \<times> scan_state"
where
  "retry_chunk api current_end_block retries st =
     (if retries < RETRY_LIMIT then
        (case api (requests st) (current_start_block st) current_end_block of
           Some logs \<Rightarrow>
             (retries,
              st\<lparr>deposits := deposits st @ logs, requests := Suc (requests st),
                 retrieved := retrieved st @ [(current_start_block st, current_end_block)]\<rparr>)
         | None \<Rightarrow>
             retry_chunk api current_end_block (Suc retries)
               (if Suc retries = RETRY_LIMIT \<and> BLOCK_CHUNK_SIZE st > MIN_BLOCK_CHUNK
                then st\<lparr>requests := Suc (requests st),
                        BLOCK_CHUNK_SIZE := max (BLOCK_CHUNK_SIZE st div 2) MIN_BLOCK_CHUNK\<rparr>
                else st\<lparr>requests := Suc (requests st)\<rparr>))
      else (retries, st))"
  by pat_completeness auto
termination
  by (relation "measure (\<lambda>(api, current_end_block, retries, st). RETRY_LIMIT - retries)") auto

declare retry_chunk.simps [simp del]

text \<open>
  The outer loop; \<open>False\<close> when it ends in the final failure condition, \<open>True\<close> when it
  runs past the chain head:
  \<^verbatim>\<open>
    while current_start_block <= latest_block:
        current_end_block = min(current_start_block + BLOCK_CHUNK_SIZE, latest_block)
        retries = 0
        (the inner loop)
        if retries == RETRY_LIMIT and BLOCK_CHUNK_SIZE == MIN_BLOCK_CHUNK:
            (return the error, or break)
        current_start_block = current_end_block + 1
  \<close>
\<close>

function scan_chunks ::
  "(nat \<Rightarrow> int \<Rightarrow> int \<Rightarrow> raw_log list option) \<Rightarrow> int \<Rightarrow> scan_state \<Rightarrow> bool \<times> scan_state"
where
  "scan_chunks api latest_block st =
     (if current_start_block st \<le> latest_block then
        (let current_end_block =
               min (current_start_block st + int (BLOCK_CHUNK_SIZE st)) latest_block;
             tried = retry_chunk api current_end_block 0 st
         in if fst tried = RETRY_LIMIT \<and> BLOCK_CHUNK_SIZE (snd tried) = MIN_BLOCK_CHUNK
            then (False, snd tried)
            else scan_chunks api latest_block
                   ((snd tried)\<lparr>current_start_block := current_end_block + 1\<rparr>))
      else (True, st))"
  by pat_completeness auto
termination
  by (relation "measure (\<lambda>(api, latest_block, st). nat (latest_block + 1 - current_start_block st))")
    auto

declare scan_chunks.simps [simp del]

definition history_scan ::
  "(nat \<Rightarrow> int \<Rightarrow> int \<Rightarrow> raw_log list option) \<Rightarrow> int \<Rightarrow> int \<Rightarrow> bool \<times> scan_state"
where
  "history_scan api start_block latest_block =
     scan_chunks api latest_block
       \<lparr>BLOCK_CHUNK_SIZE = INITIAL_BLOCK_CHUNK_SIZE, current_start_block = start_block,
        deposits = [], requests = 0, retrieved = []\<rparr>"

text \<open>
  The logs the two callers go on with, from the resolved start block and chain head:
  \<^verbatim>\<open>check_large_deposits_custom\<close> returns its error at the final failure (\<open>None\<close>),
  \<^verbatim>\<open>fetch_all_deposits_custom\<close> breaks and keeps what it has.
\<close>

definition check_large_deposits_custom_logs ::
  "(nat \<Rightarrow> int \<Rightarrow> int \<Rightarrow> raw_log list option) \<Rightarrow> int \<Rightarrow> int \<Rightarrow> raw_log list option"
where
  "check_large_deposits_custom_logs api start_block latest_block =
     (let done = history_scan api start_block latest_block
      in if fst done then Some (deposits (snd done)) else None)"

definition fetch_all_deposits_custom_logs ::
  "(nat \<Rightarrow> int \<Rightarrow> int \<Rightarrow> raw_log list option) \<Rightarrow> int \<Rightarrow> int \<Rightarrow> raw_log list"
where
  "fetch_all_deposits_custom_logs api start_block latest_block =
     deposits (snd (history_scan api start_block latest_block))"

text \<open>
  Whether block ranges follow one another from a start block to a chain head with no gap
  and no overlap.
\<close>

fun tiles :: "int \<Rightarrow> int \<Rightarrow> (int \<times> int) list \<Rightarrow> bool" where
  "tiles s h [] = (s = h + 1)"
| "tiles s h ((a, b) # rs) = (a = s \<and> a \<le> b \<and> tiles (b + 1) h rs)"

text \<open>
  An API whose first two requests fail and whose later requests find no log, one that
  never fails, and a log of block 10.
\<close>

definition first_two_fail :: "nat \<Rightarrow> int \<Rightarrow> int \<Rightarrow> raw_log list option" where
  "first_two_fail k from_block to_block = (if k < 2 then None else Some [])"

definition never_fails :: "nat \<Rightarrow> int \<Rightarrow> int \<Rightarrow> raw_log list option" where
  "never_fails k from_block to_block = Some []"

section \<open>Properties of the normalizer\<close>

lemma latest_step_keys:
  "distinct (map fst l) \<Longrightarrow> distinct (map fst (latest_step l t))"
  by (simp add: latest_step_def AList.distinct_update split: option.splits)

lemma set_update_subset: "set (AList.update k v l) \<subseteq> insert (k, v) (set l)"
  by (induction l) auto

lemma latest_step_nonce:
  assumes "\<forall>(k, v) \<in> set l. nonce v = k"
  shows "\<forall>(k, v) \<in> set (latest_step l t). nonce v = k"
  using assms set_update_subset [of "nonce t" t l]
  by (auto simp: latest_step_def split: option.splits if_splits)

lemma foldl_latest_step_inv:
  "distinct (map fst l) \<Longrightarrow> \<forall>(k, v) \<in> set l. nonce v = k \<Longrightarrow>
   distinct (map fst (foldl latest_step l ts)) \<and>
   (\<forall>(k, v) \<in> set (foldl latest_step l ts). nonce v = k)"
proof (induction ts arbitrary: l)
  case Nil
  then show ?case by simp
next
  case (Cons t ts)
  show ?case
    using Cons.IH [OF latest_step_keys [OF Cons.prems(1)] latest_step_nonce [OF Cons.prems(2)]]
    by simp
qed

lemma normalizer_one_entry_per_nonce:
  "distinct (map nonce (filter_and_sort_pending_transactions ts))"
proof -
  let ?l = "foldl latest_step [] ts"
  have d: "distinct (map fst ?l)" and n: "\<forall>(k, v) \<in> set ?l. nonce v = k"
    using foldl_latest_step_inv [of "[]" ts] by simp_all
  have "map nonce (map snd ?l) = map fst ?l"
    using n by (auto simp: map_eq_conv)
  then have "distinct (map nonce (map snd ?l))"
    using d by metis
  then have "distinct (map nonce (filter (\<lambda>t. \<not> isExecuted t) (map snd ?l)))"
    by (rule distinct_map_filter)
  then show ?thesis
    by (simp add: filter_and_sort_pending_transactions_def distinct_map inj_on_def)
qed

lemma normalizer_sorted:
  "sorted (map nonce (filter_and_sort_pending_transactions ts))"
  by (simp add: filter_and_sort_pending_transactions_def)

text \<open>
  Claim C1. The normalizer shall yield at most one entry for a nonce, and no entry as soon
  as one input record of that nonce is executed, whatever the order of the input. The
  first half holds (\<open>normalizer_one_entry_per_nonce\<close>). On the input
  \<open>[executed_5, pending_5]\<close> the code yields the pending record of nonce 5: the executed
  record is stored first, and the later pending record, having the greater
  \<open>submissionDate\<close>, replaces it. In the other order the nonce is left out.
\<close>

theorem normalizer_keeps_executed_nonce:
  "isExecuted executed_5 \<and> nonce executed_5 = nonce pending_5 \<and>
   filter_and_sort_pending_transactions [executed_5, pending_5] = [pending_5] \<and>
   filter_and_sort_pending_transactions [pending_5, executed_5] = []"
  by (simp add: filter_and_sort_pending_transactions_def latest_step_def
      executed_5_def pending_5_def)

section \<open>Properties of the calldata decoder\<close>

lemma decode_hex_args: "decode_hex args_7_2500 = Some bytes_7_2500"
  by code_simp

lemma decode_uint256_pair_args:
  "decode_uint256_pair bytes_7_2500 = Some (7, 2500000000000000000000)"
  by code_simp

lemma amount_2500: "py_truediv 2500000000000000000000 DECIMALS = 2500"
  by code_simp

lemma float_str_2500: "float_str 2500 = ''2500.0''"
  by code_simp

lemma str_nat_7: "str_nat 7 = ''7''"
  by code_simp

lemma decode_after_selector:
  assumes "drop 8 h = args_7_2500"
  shows "(case decode_hex (drop 8 h) of
            None \<Rightarrow> None
          | Some bs \<Rightarrow>
             (case decode_uint256_pair bs of
                None \<Rightarrow> None
              | Some params \<Rightarrow>
                  Some \<lparr>validatorId = PyStr (str_nat (fst params)),
                        amountInTokens = PyStr (float_str (py_truediv (snd params) DECIMALS))\<rparr>))
         = Some \<lparr>validatorId = PyStr ''7'', amountInTokens = PyStr ''2500.0''\<rparr>"
  by (simp add: assms decode_hex_args decode_uint256_pair_args amount_2500 float_str_2500
      str_nat_7)

lemma decode_prefixed:
  assumes "length sel = 8"
  shows "decode_hex_data (''0x'' @ sel @ args_7_2500) =
           Some \<lparr>validatorId = PyStr ''7'', amountInTokens = PyStr ''2500.0''\<rparr>"
proof -
  have d: "drop 8 (sel @ args_7_2500) = args_7_2500"
    using assms by simp
  show ?thesis
    unfolding decode_hex_data_def Let_def
    using decode_after_selector [OF d] by simp
qed

lemma decode_unprefixed:
  assumes "length sel = 8" and "take 2 sel \<noteq> ''0x''"
  shows "decode_hex_data (sel @ args_7_2500) =
           Some \<lparr>validatorId = PyStr ''7'', amountInTokens = PyStr ''2500.0''\<rparr>"
proof -
  have d: "drop 8 (sel @ args_7_2500) = args_7_2500"
    using assms(1) by simp
  have t: "take 2 (sel @ args_7_2500) = take 2 sel"
    using assms(1) by simp
  have n: "(take 2 (sel @ args_7_2500) = ''0x'') = False"
    unfolding t using assms(2) by simp
  show ?thesis
    unfolding decode_hex_data_def Let_def n if_False
    by (rule decode_after_selector [OF d])
qed

text \<open>
  Claim C8, as the code has it. For calldata made of any 8-character selector followed by
  the two 32-byte words encoding \<open>validatorId = 7\<close> and \<open>amount = 2500 * 10\<^sup>1\<^sup>8\<close>, with the
  \<^verbatim>\<open>0x\<close> prefix or (when the selector does not itself start with \<^verbatim>\<open>0x\<close>) without it,
  \<open>decode_hex_data\<close> returns the payload whose \<open>validatorId\<close> is the string \<^verbatim>\<open>"7"\<close> and
  whose \<open>amountInTokens\<close> is the string \<^verbatim>\<open>"2500.0"\<close>: the code returns
  \<^verbatim>\<open>str(amount_in_tokens)\<close>, the text of the float, not the float.
\<close>

theorem decode_hex_data_7_2500:
  assumes "length sel = 8"
  shows "decode_hex_data (''0x'' @ sel @ args_7_2500) =
           Some \<lparr>validatorId = PyStr ''7'', amountInTokens = PyStr ''2500.0''\<rparr> \<and>
         (take 2 sel \<noteq> ''0x'' \<longrightarrow>
          decode_hex_data (sel @ args_7_2500) =
           Some \<lparr>validatorId = PyStr ''7'', amountInTokens = PyStr ''2500.0''\<rparr>)"
  using decode_prefixed [OF assms] decode_unprefixed [OF assms] by blast

theorem decode_hex_data_7_2500_witness:
  "length delegate_selector = 8 \<and> take 2 delegate_selector \<noteq> ''0x'' \<and>
   decode_hex_data (''0x'' @ delegate_selector @ args_7_2500) =
     Some \<lparr>validatorId = PyStr ''7'', amountInTokens = PyStr ''2500.0''\<rparr> \<and>
   decode_hex_data (delegate_selector @ args_7_2500) =
     Some \<lparr>validatorId = PyStr ''7'', amountInTokens = PyStr ''2500.0''\<rparr>"
proof -
  have l: "length delegate_selector = 8" and p: "take 2 delegate_selector \<noteq> ''0x''"
    by (simp_all add: delegate_selector_def)
  show ?thesis
    using decode_hex_data_7_2500 [OF l] l p by blast
qed

text \<open>
  The claim as stated gives \<open>amountInTokens\<close> as the number \<open>2500.0\<close>; the payload the
  code returns for the example does not hold a float there.
\<close>

theorem decode_hex_data_amount_is_not_a_float:
  "decode_hex_data (''0x'' @ delegate_selector @ args_7_2500) \<noteq>
     Some \<lparr>validatorId = PyStr ''7'', amountInTokens = PyFloat 2500\<rparr>"
proof -
  have "length delegate_selector = 8"
    by (simp add: delegate_selector_def)
  from decode_prefixed [OF this] show ?thesis
    by simp
qed

section \<open>Properties of the signature aggregation\<close>

lemma fromhex_empty: "fromhex [] = Some []"
  by simp

lemma append_signatures_concat:
  assumes "\<forall>c \<in> set cs. well_formed_signature c"
  shows "append_signatures cs acc = Some (acc @ concat (map signature_bytes cs))"
  using assms
proof (induction cs arbitrary: acc)
  case Nil
  then show ?case by simp
next
  case (Cons c cs)
  have wf: "well_formed_signature c" and rest: "\<forall>c \<in> set cs. well_formed_signature c"
    using Cons.prems by simp_all
  show ?case
  proof (cases "signature c")
    case None
    then show ?thesis
      using Cons.IH [OF rest] by (simp add: signature_bytes_def)
  next
    case (Some s)
    show ?thesis
    proof (cases "s = []")
      case True
      then show ?thesis
        using Some Cons.IH [OF rest] by (simp add: signature_bytes_def)
    next
      case False
      then obtain bs where bs: "fromhex (drop 2 s) = Some bs"
        using wf Some by (auto simp: well_formed_signature_def)
      then show ?thesis
        using Some False Cons.IH [OF rest] by (simp add: signature_bytes_def)
    qed
  qed
qed

text \<open>
  Claim C9, as the code has it. For a transaction with a non-empty confirmations list
  whose signatures are each \<^verbatim>\<open>null\<close>, empty or hex text behind a two-character prefix,
  \<open>collect_and_sort_signatures\<close> returns the concatenation, with no separators, of the
  raw signature bytes of the confirmations ordered by lower-cased owner address, provided
  that at least one byte results; when the concatenation is empty it returns \<^verbatim>\<open>None\<close>.
\<close>

theorem collect_and_sort_signatures_concat:
  assumes "confirmations transaction = Some cs" and "cs \<noteq> []"
    and "\<forall>c \<in> set cs. well_formed_signature c"
  shows "collect_and_sort_signatures transaction =
           (let signatures = concat (map signature_bytes (sort_key (\<lambda>x. lower (owner x)) cs))
            in if signatures = [] then Returned None else Returned (Some signatures))"
proof -
  have "\<forall>c \<in> set (sort_key (\<lambda>x. lower (owner x)) cs). well_formed_signature c"
    using assms(3) by simp
  from append_signatures_concat [OF this, of "[]"] show ?thesis
    using assms(1,2) by (simp add: collect_and_sort_signatures_def Let_def)
qed

lemma two_confirmations_well_formed: "\<forall>c \<in> set two_confirmations. well_formed_signature c"
  by (simp add: two_confirmations_def well_formed_signature_def hex_digit_def is_ascii_space_def)

lemma two_confirmations_sorted:
  "sort_key (\<lambda>x. lower (owner x)) two_confirmations = rev two_confirmations"
  by (simp add: two_confirmations_def lower_def lower_char_def)

lemma two_confirmations_bytes:
  "concat (map signature_bytes (rev two_confirmations)) = [3, 1, 2]"
  by (simp add: two_confirmations_def signature_bytes_def hex_digit_def is_ascii_space_def)

theorem collect_and_sort_signatures_concat_witness:
  "confirmations signed_twice = Some two_confirmations \<and> two_confirmations \<noteq> [] \<and>
   collect_and_sort_signatures signed_twice = Returned (Some [3, 1, 2])"
proof -
  have c: "confirmations signed_twice = Some two_confirmations"
    by (simp add: signed_twice_def)
  have n: "two_confirmations \<noteq> []"
    by (simp add: two_confirmations_def)
  show ?thesis
    using collect_and_sort_signatures_concat [OF c n two_confirmations_well_formed] c n
    by (simp add: two_confirmations_sorted two_confirmations_bytes)
qed

text \<open>
  The claim as stated promises the concatenation for every non-empty confirmations list.
  The only confirmation of \<open>signed_blank\<close> has the signature \<^verbatim>\<open>"0x"\<close>, whose raw bytes are
  the empty byte string; the code returns \<^verbatim>\<open>None\<close>, not that concatenation.
\<close>

theorem collect_and_sort_signatures_blank:
  "confirmations signed_blank = Some blank_confirmations \<and> blank_confirmations \<noteq> [] \<and>
   collect_and_sort_signatures signed_blank = Returned None \<and>
   collect_and_sort_signatures signed_blank \<noteq>
     Returned (Some (concat (map signature_bytes
       (sort_key (\<lambda>x. lower (owner x)) blank_confirmations))))"
  by (simp add: signed_blank_def blank_confirmations_def collect_and_sort_signatures_def)

section \<open>Properties of the request executor\<close>

lemma make_request_unfolded:
  "make_request net =
     (case make_request_attempt (net 0) of
        Succeeded d \<Rightarrow> \<lparr>result = Returned (Some d), attempts = 1, sleeps = [1]\<rparr>
      | Crashed e \<Rightarrow> \<lparr>result = Raised e, attempts = 1, sleeps = [1]\<rparr>
      | Failed \<Rightarrow>
     (case make_request_attempt (net 1) of
        Succeeded d \<Rightarrow> \<lparr>result = Returned (Some d), attempts = 2, sleeps = [1, 2]\<rparr>
      | Crashed e \<Rightarrow> \<lparr>result = Raised e, attempts = 2, sleeps = [1, 2]\<rparr>
      | Failed \<Rightarrow>
     (case make_request_attempt (net 2) of
        Succeeded d \<Rightarrow> \<lparr>result = Returned (Some d), attempts = 3, sleeps = [1, 2, 4]\<rparr>
      | Crashed e \<Rightarrow> \<lparr>result = Raised e, attempts = 3, sleeps = [1, 2, 4]\<rparr>
      | Failed \<Rightarrow>
     (case make_request_attempt (net 3) of
        Succeeded d \<Rightarrow> \<lparr>result = Returned (Some d), attempts = 4, sleeps = [1, 2, 4, 8]\<rparr>
      | Crashed e \<Rightarrow> \<lparr>result = Raised e, attempts = 4, sleeps = [1, 2, 4, 8]\<rparr>
      | Failed \<Rightarrow>
     (case make_request_attempt (net 4) of
        Succeeded d \<Rightarrow> \<lparr>result = Returned (Some d), attempts = 5, sleeps = [1, 2, 4, 8, 16]\<rparr>
      | Crashed e \<Rightarrow> \<lparr>result = Raised e, attempts = 5, sleeps = [1, 2, 4, 8, 16]\<rparr>
      | Failed \<Rightarrow> \<lparr>result = Returned None, attempts = 5, sleeps = [1, 2, 4, 8, 16]\<rparr>)))))"
  by (simp add: make_request_def make_request_loop.simps deposit_monitor_MAX_RETRIES_def
      INITIAL_DELAY_def eval_nat_numeral split: attempt.splits)

lemma fetch_unfolded:
  "fetch_recent_transactions True feed =
     (case fetch_attempt (feed 0) of
        Succeeded r \<Rightarrow> \<lparr>result = Returned r, attempts = 1, sleeps = []\<rparr>
      | Crashed e \<Rightarrow> \<lparr>result = Raised e, attempts = 1, sleeps = []\<rparr>
      | Failed \<Rightarrow>
     (case fetch_attempt (feed 1) of
        Succeeded r \<Rightarrow> \<lparr>result = Returned r, attempts = 2, sleeps = [1]\<rparr>
      | Crashed e \<Rightarrow> \<lparr>result = Raised e, attempts = 2, sleeps = [1]\<rparr>
      | Failed \<Rightarrow>
     (case fetch_attempt (feed 2) of
        Succeeded r \<Rightarrow> \<lparr>result = Returned r, attempts = 3, sleeps = [1, 2]\<rparr>
      | Crashed e \<Rightarrow> \<lparr>result = Raised e, attempts = 3, sleeps = [1, 2]\<rparr>
      | Failed \<Rightarrow>
     (case fetch_attempt (feed 3) of
        Succeeded r \<Rightarrow> \<lparr>result = Returned r, attempts = 4, sleeps = [1, 2, 4]\<rparr>
      | Crashed e \<Rightarrow> \<lparr>result = Raised e, attempts = 4, sleeps = [1, 2, 4]\<rparr>
      | Failed \<Rightarrow> \<lparr>result = Returned (JArr []), attempts = 4, sleeps = [1, 2, 4]\<rparr>))))"
  by (simp add: fetch_recent_transactions_def fetch_loop.simps fetch_transactions_MAX_RETRIES_def
      BACKOFF_FACTOR_def eval_nat_numeral split: attempt.splits)

lemma make_request_attempts: "attempts (make_request net) \<le> 5"
  by (simp add: make_request_unfolded split: attempt.splits)

lemma make_request_sleeps:
  "sleeps (make_request net) = take (attempts (make_request net)) [1, 2, 4, 8, 16]"
  by (simp add: make_request_unfolded split: attempt.splits)

lemma make_request_exhausted:
  assumes "\<forall>k<5. make_request_attempt (net k) = Failed"
  shows "result (make_request net) = Returned None \<and> attempts (make_request net) = 5"
proof -
  have "make_request_attempt (net 0) = Failed" "make_request_attempt (net 1) = Failed"
    "make_request_attempt (net 2) = Failed" "make_request_attempt (net 3) = Failed"
    "make_request_attempt (net 4) = Failed"
    using assms by simp_all
  then show ?thesis
    by (simp add: make_request_unfolded)
qed

lemma make_request_attempt_failed:
  "make_request_attempt r = Failed \<longleftrightarrow>
     r = Timeout \<or> r = RequestFailed \<or>
     (\<exists>status body. r = Response status body \<and>
        (400 \<le> status \<and> status < 600 \<or> body = None \<or>
         (\<exists>parsed. body = Some parsed \<and> result_in parsed = Returned False)))"
  by (cases r)
    (auto simp: make_request_attempt_def raises_for_status_def
      split: option.splits outcome.splits if_splits)

lemma fetch_attempts: "attempts (fetch_recent_transactions configured feed) \<le> 4"
proof (cases configured)
  case True
  then show ?thesis
    by (simp add: fetch_unfolded split: attempt.splits)
next
  case False
  then show ?thesis
    by (simp add: fetch_recent_transactions_def)
qed

lemma fetch_sleeps:
  "sleeps (fetch_recent_transactions configured feed) =
     take (attempts (fetch_recent_transactions configured feed) - 1) [1, 2, 4]"
proof (cases configured)
  case True
  then show ?thesis
    by (simp add: fetch_unfolded split: attempt.splits)
next
  case False
  then show ?thesis
    by (simp add: fetch_recent_transactions_def)
qed

lemma fetch_exhausted:
  assumes "\<forall>k<4. fetch_attempt (feed k) = Failed"
  shows "result (fetch_recent_transactions True feed) = Returned (JArr []) \<and>
         attempts (fetch_recent_transactions True feed) = 4"
proof -
  have "fetch_attempt (feed 0) = Failed" "fetch_attempt (feed 1) = Failed"
    "fetch_attempt (feed 2) = Failed" "fetch_attempt (feed 3) = Failed"
    using assms by simp_all
  then show ?thesis
    by (simp add: fetch_unfolded)
qed

lemma fetch_attempt_failed:
  "fetch_attempt q = Failed \<longleftrightarrow>
     q = Timeout \<or> q = RequestFailed \<or>
     (\<exists>status body. q = Response status body \<and>
        (400 \<le> status \<and> status < 600 \<or> body = None))"
  by (cases q)
    (auto simp: fetch_attempt_def raises_for_status_def
      split: option.splits json.splits outcome.splits if_splits)

lemma fetch_first_answer:
  assumes "k < 4" and "\<forall>j<k. fetch_attempt (feed j) = Failed"
    and "fetch_attempt (feed k) = Succeeded v"
  shows "result (fetch_recent_transactions True feed) = Returned v \<and>
         attempts (fetch_recent_transactions True feed) = Suc k"
proof -
  consider "k = 0" | "k = 1" | "k = 2" | "k = 3"
    using assms(1) by linarith
  then show ?thesis
  proof cases
    case 1
    then show ?thesis
      using assms(3) by (simp add: fetch_unfolded)
  next
    case 2
    then have "fetch_attempt (feed 0) = Failed"
      using assms(2) by simp
    then show ?thesis
      using 2 assms(3) by (simp add: fetch_unfolded)
  next
    case 3
    then have "fetch_attempt (feed 0) = Failed" "fetch_attempt (feed 1) = Failed"
      using assms(2) by simp_all
    then show ?thesis
      using 3 assms(3) by (simp add: fetch_unfolded)
  next
    case 4
    then have "fetch_attempt (feed 0) = Failed" "fetch_attempt (feed 1) = Failed"
      "fetch_attempt (feed 2) = Failed"
      using assms(2) by simp_all
    then show ?thesis
      using 4 assms(3) by (simp add: fetch_unfolded)
  qed
qed

lemma fetch_attempt_no_results:
  assumes "\<not> (400 \<le> status \<and> status < 600)" and "map_of kvs ''results'' = None"
  shows "fetch_attempt (Response status (Some (JObj kvs))) = Succeeded (JArr [])"
  using assms
  by (simp add: fetch_attempt_def raises_for_status_def dict_get_def annotate_results_def)

lemma fetch_no_results:
  assumes "k < 4" and "\<forall>j<k. fetch_attempt (feed j) = Failed"
    and "feed k = Response status (Some (JObj kvs))"
    and "\<not> (400 \<le> status \<and> status < 600)" and "map_of kvs ''results'' = None"
  shows "result (fetch_recent_transactions True feed) = Returned (JArr []) \<and>
         attempts (fetch_recent_transactions True feed) = Suc k"
proof -
  have "fetch_attempt (feed k) = Succeeded (JArr [])"
    using assms(3) fetch_attempt_no_results [OF assms(4) assms(5)] by simp
  with assms(1) assms(2) show ?thesis
    by (rule fetch_first_answer)
qed

lemma fetch_unconfigured:
  "result (fetch_recent_transactions False feed) = Raised ValueError \<and>
   attempts (fetch_recent_transactions False feed) = 0"
  by (simp add: fetch_recent_transactions_def)

lemma make_request_attempt_object:
  assumes "\<forall>status parsed. r = Response status (Some parsed) \<longrightarrow> (\<exists>kvs. parsed = JObj kvs)"
  shows "make_request_attempt r \<noteq> Crashed e"
  using assms
  by (cases r)
    (auto simp: make_request_attempt_def result_in_def split: option.splits if_splits)

lemma make_request_returns:
  assumes "\<forall>k<5. \<forall>status parsed.
             net k = Response status (Some parsed) \<longrightarrow> (\<exists>kvs. parsed = JObj kvs)"
  shows "\<exists>v. result (make_request net) = Returned v"
proof -
  have ok: "\<forall>e. make_request_attempt (net k) \<noteq> Crashed e" if "k < 5" for k
  proof
    fix e
    have "\<forall>status parsed. net k = Response status (Some parsed) \<longrightarrow> (\<exists>kvs. parsed = JObj kvs)"
      using assms that by blast
    then show "make_request_attempt (net k) \<noteq> Crashed e"
      by (rule make_request_attempt_object)
  qed
  have "\<forall>e. make_request_attempt (net 0) \<noteq> Crashed e"
    "\<forall>e. make_request_attempt (net 1) \<noteq> Crashed e"
    "\<forall>e. make_request_attempt (net 2) \<noteq> Crashed e"
    "\<forall>e. make_request_attempt (net 3) \<noteq> Crashed e"
    "\<forall>e. make_request_attempt (net 4) \<noteq> Crashed e"
    using ok [of 0] ok [of 1] ok [of 2] ok [of 3] ok [of 4] by simp_all
  then show ?thesis
    by (simp add: make_request_unfolded split: attempt.splits)
qed

lemma annotate_record_shaped:
  assumes "record_shaped t"
  shows "\<exists>t'. annotate t = Returned t'"
  using assms
  by (auto simp: record_shaped_def annotate_def dict_get_def py_len_def Let_def
      split: json.splits option.splits)

lemma annotate_all_record_shaped:
  assumes "list_all record_shaped ts"
  shows "\<exists>ts'. annotate_all ts = Returned ts'"
  using assms
proof (induction ts)
  case Nil
  then show ?case
    by simp
next
  case (Cons t ts)
  then obtain t' ts' where "annotate t = Returned t'" "annotate_all ts = Returned ts'"
    using annotate_record_shaped [of t] by auto
  then show ?case
    by simp
qed

lemma fetch_attempt_feed_shaped:
  assumes "\<forall>status parsed.
             q = Response status (Some parsed) \<and> \<not> (400 \<le> status \<and> status < 600) \<longrightarrow>
             feed_shaped parsed"
  shows "fetch_attempt q \<noteq> Crashed e"
proof (cases q)
  case (Response status body)
  show ?thesis
  proof (cases "raises_for_status status \<or> body = None")
    case True
    then show ?thesis
      using Response by (auto simp: fetch_attempt_def)
  next
    case False
    then obtain parsed where body: "body = Some parsed" and ok: "\<not> raises_for_status status"
      by auto
    then have shaped: "feed_shaped parsed"
      using assms Response by (simp add: raises_for_status_def)
    then obtain kvs where kvs: "parsed = JObj kvs"
      by (auto simp: feed_shaped_def split: json.splits)
    have "\<exists>v. annotate_results (dict_get kvs ''results'' (JArr [])) = Returned v"
    proof (cases "map_of kvs ''results''")
      case None
      then show ?thesis
        by (simp add: dict_get_def annotate_results_def)
    next
      case (Some results)
      then obtain ts where ts: "results = JArr ts" "list_all record_shaped ts"
        using shaped kvs by (auto simp: feed_shaped_def split: json.splits)
      then obtain ts' where "annotate_all ts = Returned ts'"
        using annotate_all_record_shaped by blast
      then show ?thesis
        using Some ts by (simp add: dict_get_def annotate_results_def)
    qed
    then show ?thesis
      using Response body ok kvs by (auto simp: fetch_attempt_def)
  qed
qed (simp_all add: fetch_attempt_def)

lemma fetch_returns:
  assumes "\<forall>k<4. \<forall>status parsed.
             feed k = Response status (Some parsed) \<and> \<not> (400 \<le> status \<and> status < 600) \<longrightarrow>
             feed_shaped parsed"
  shows "\<exists>v. result (fetch_recent_transactions True feed) = Returned v"
proof -
  have ok: "\<forall>e. fetch_attempt (feed k) \<noteq> Crashed e" if "k < 4" for k
  proof
    fix e
    have "\<forall>status parsed.
            feed k = Response status (Some parsed) \<and> \<not> (400 \<le> status \<and> status < 600) \<longrightarrow>
            feed_shaped parsed"
      using assms that by blast
    then show "fetch_attempt (feed k) \<noteq> Crashed e"
      by (rule fetch_attempt_feed_shaped)
  qed
  have "\<forall>e. fetch_attempt (feed 0) \<noteq> Crashed e" "\<forall>e. fetch_attempt (feed 1) \<noteq> Crashed e"
    "\<forall>e. fetch_attempt (feed 2) \<noteq> Crashed e" "\<forall>e. fetch_attempt (feed 3) \<noteq> Crashed e"
    using ok [of 0] ok [of 1] ok [of 2] ok [of 3] by simp_all
  then show ?thesis
    by (simp add: fetch_unfolded split: attempt.splits)
qed

text \<open>
  Claim C7, as the code has it. \<open>make_request\<close> makes at most 5 attempts and sleeps
  1, 2, 4, 8, 16 seconds before them; \<open>fetch_recent_transactions\<close> makes at most 4
  attempts and sleeps 1, 2, 4 seconds between them. An attempt fails, and the next one is
  made, on a timeout, a transport error, a response with a status from 400 to 599, a body
  that is not JSON and, for \<open>make_request\<close>, a JSON body that answers \<^verbatim>\<open>"result" in data\<close>
  with false. When every attempt fails, \<open>make_request\<close> returns \<^verbatim>\<open>None\<close> and
  \<open>fetch_recent_transactions\<close> returns the empty list. For the queue call a JSON object
  without \<^verbatim>\<open>"results"\<close> is no failed attempt: when it is the first answer that does not
  fail, at attempt \<open>k\<close>, the call returns the empty list there, after \<open>k + 1\<close> attempts.
  Without its configuration the queue call raises a \<^verbatim>\<open>ValueError\<close> before any attempt.
  \<open>make_request\<close> does not raise when every JSON body it receives is a JSON object; the
  configured queue call does not raise when every JSON body of a response that is not an
  error response is an object whose \<^verbatim>\<open>"results"\<close>, if present, is a list of objects whose
  \<^verbatim>\<open>"confirmations"\<close>, if present, is a list.
\<close>

theorem request_executor_retries:
  "attempts (make_request net) \<le> 5 \<and>
   sleeps (make_request net) = take (attempts (make_request net)) [1, 2, 4, 8, 16] \<and>
   ((\<forall>k<5. make_request_attempt (net k) = Failed) \<longrightarrow>
      result (make_request net) = Returned None \<and> attempts (make_request net) = 5) \<and>
   (make_request_attempt r = Failed \<longleftrightarrow>
      r = Timeout \<or> r = RequestFailed \<or>
      (\<exists>status body. r = Response status body \<and>
         (400 \<le> status \<and> status < 600 \<or> body = None \<or>
          (\<exists>parsed. body = Some parsed \<and> result_in parsed = Returned False)))) \<and>
   attempts (fetch_recent_transactions configured feed) \<le> 4 \<and>
   sleeps (fetch_recent_transactions configured feed) =
     take (attempts (fetch_recent_transactions configured feed) - 1) [1, 2, 4] \<and>
   ((\<forall>k<4. fetch_attempt (feed k) = Failed) \<longrightarrow>
      result (fetch_recent_transactions True feed) = Returned (JArr []) \<and>
      attempts (fetch_recent_transactions True feed) = 4) \<and>
   (fetch_attempt q = Failed \<longleftrightarrow>
      q = Timeout \<or> q = RequestFailed \<or>
      (\<exists>status body. q = Response status body \<and>
         (400 \<le> status \<and> status < 600 \<or> body = None))) \<and>
   (k < 4 \<and> (\<forall>j<k. fetch_attempt (feed j) = Failed) \<and>
    feed k = Response status (Some (JObj kvs)) \<and> \<not> (400 \<le> status \<and> status < 600) \<and>
    map_of kvs ''results'' = None \<longrightarrow>
      result (fetch_recent_transactions True feed) = Returned (JArr []) \<and>
      attempts (fetch_recent_transactions True feed) = Suc k) \<and>
   result (fetch_recent_transactions False feed) = Raised ValueError \<and>
   attempts (fetch_recent_transactions False feed) = 0 \<and>
   ((\<forall>k<5. \<forall>status parsed.
       net k = Response status (Some parsed) \<longrightarrow> (\<exists>kvs. parsed = JObj kvs)) \<longrightarrow>
      (\<exists>v. result (make_request net) = Returned v)) \<and>
   ((\<forall>k<4. \<forall>status parsed.
       feed k = Response status (Some parsed) \<and> \<not> (400 \<le> status \<and> status < 600) \<longrightarrow>
       feed_shaped parsed) \<longrightarrow>
      (\<exists>v. result (fetch_recent_transactions True feed) = Returned v))"
proof -
  have "k < 4 \<and> (\<forall>j<k. fetch_attempt (feed j) = Failed) \<and>
        feed k = Response status (Some (JObj kvs)) \<and> \<not> (400 \<le> status \<and> status < 600) \<and>
        map_of kvs ''results'' = None \<longrightarrow>
          result (fetch_recent_transactions True feed) = Returned (JArr []) \<and>
          attempts (fetch_recent_transactions True feed) = Suc k"
    using fetch_no_results [of k feed status kvs] by blast
  then show ?thesis
    using make_request_returns [of net] fetch_returns [of feed] make_request_attempts [of net]
      make_request_sleeps [of net] make_request_exhausted [of net]
      make_request_attempt_failed [of r] fetch_attempts [of configured feed]
      fetch_sleeps [of configured feed] fetch_exhausted [of feed] fetch_attempt_failed [of q]
      fetch_unconfigured [of feed]
    by blast
qed

theorem request_executor_retries_witness:
  "result (make_request net_down) = Returned None \<and>
   attempts (make_request net_down) = 5 \<and>
   sleeps (make_request net_down) = [1, 2, 4, 8, 16] \<and>
   result (fetch_recent_transactions True net_down) = Returned (JArr []) \<and>
   attempts (fetch_recent_transactions True net_down) = 4 \<and>
   sleeps (fetch_recent_transactions True net_down) = [1, 2, 4] \<and>
   result (fetch_recent_transactions True feed_late_empty_object) = Returned (JArr []) \<and>
   attempts (fetch_recent_transactions True feed_late_empty_object) = 2 \<and>
   sleeps (fetch_recent_transactions True feed_late_empty_object) = [1] \<and>
   (\<exists>v. result (make_request net_block_number) = Returned v) \<and>
   (\<exists>v. result (fetch_recent_transactions True feed_late_empty_object) = Returned v)"
proof -
  have m: "\<forall>k<5. make_request_attempt (net_down k) = Failed"
    by (simp add: net_down_def make_request_attempt_def)
  have f: "\<forall>k<4. fetch_attempt (net_down k) = Failed"
    by (simp add: net_down_def fetch_attempt_def)
  have late: "(1::nat) < 4 \<and> (\<forall>j<1. fetch_attempt (feed_late_empty_object j) = Failed) \<and>
      feed_late_empty_object 1 = Response 200 (Some (JObj [])) \<and>
      \<not> (400 \<le> (200::nat) \<and> (200::nat) < 600) \<and> map_of ([]::(string \<times> json) list) ''results'' = None"
    by (simp add: feed_late_empty_object_def fetch_attempt_def)
  have objects: "\<forall>k<5. \<forall>status parsed.
      net_block_number k = Response status (Some parsed) \<longrightarrow> (\<exists>kvs. parsed = JObj kvs)"
    by (simp add: net_block_number_def)
  have shaped: "\<forall>k<4. \<forall>status parsed.
      feed_late_empty_object k = Response status (Some parsed) \<and>
      \<not> (400 \<le> status \<and> status < 600) \<longrightarrow> feed_shaped parsed"
    by (simp add: feed_late_empty_object_def feed_shaped_def)
  show ?thesis
    using request_executor_retries [of net_down Timeout True net_down Timeout 0 200 "[]"] m f
      request_executor_retries
        [of net_block_number Timeout True feed_late_empty_object Timeout 1 200 "[]"]
      late objects shaped
    by simp
qed

text \<open>
  The claim as stated counts a JSON body of the wrong shape as a failed attempt and lets
  the functions never raise. The feed \<open>feed_empty_object_first\<close> answers the first request
  with \<^verbatim>\<open>{}\<close> and would answer the second with a transaction: the code makes one attempt
  and returns the empty list. Without its configuration the function raises.
\<close>

theorem fetch_wrong_shape_not_retried:
  "fetch_attempt (feed_empty_object_first 1) =
     Succeeded (JArr [JObj [(''nonce'', JNum 5), (''isExecuted'', JBool False),
                            (''submissionDate'', JStr ''2024-01-02T00:00:00Z''),
                            (''signature_count'', JNum 0),
                            (''confirmations_required'', JNum 0)]]) \<and>
   result (fetch_recent_transactions True feed_empty_object_first) = Returned (JArr []) \<and>
   attempts (fetch_recent_transactions True feed_empty_object_first) = 1 \<and>
   result (fetch_recent_transactions False feed_empty_object_first) = Raised ValueError"
proof -
  have first: "fetch_attempt (feed_empty_object_first 0) = Succeeded (JArr [])"
    by (simp add: feed_empty_object_first_def fetch_attempt_def raises_for_status_def
        dict_get_def annotate_results_def)
  have second: "fetch_attempt (feed_empty_object_first 1) =
      Succeeded (JArr [JObj [(''nonce'', JNum 5), (''isExecuted'', JBool False),
                             (''submissionDate'', JStr ''2024-01-02T00:00:00Z''),
                             (''signature_count'', JNum 0),
                             (''confirmations_required'', JNum 0)]])"
    by (simp add: feed_empty_object_first_def fetch_attempt_def raises_for_status_def
        dict_get_def annotate_results_def json_pending_5_def annotate_def py_len_def Let_def)
  have unconfigured:
    "result (fetch_recent_transactions False feed_empty_object_first) = Raised ValueError"
    by (simp add: fetch_recent_transactions_def)
  show ?thesis
    using first second unconfigured by (simp add: fetch_unfolded)
qed

text \<open>
  JSON bodies on which the functions raise: \<^verbatim>\<open>null\<close> for \<open>make_request\<close>, and for the
  queue call the objects \<^verbatim>\<open>{"results": null}\<close>, \<^verbatim>\<open>{"results": [1]}\<close> and a record with
  \<^verbatim>\<open>"confirmations": null\<close>.
\<close>

lemma make_request_null_body: "result (make_request net_null) = Raised TypeError"
  by (simp add: make_request_unfolded net_null_def make_request_attempt_def
      raises_for_status_def result_in_def)

lemma fetch_results_null: "result (fetch_recent_transactions True feed_results_null) = Raised TypeError"
  by (simp add: fetch_unfolded feed_results_null_def fetch_attempt_def raises_for_status_def
      dict_get_def annotate_results_def)

lemma fetch_results_number:
  "result (fetch_recent_transactions True feed_results_number) = Raised AttributeError"
  by (simp add: fetch_unfolded feed_results_number_def fetch_attempt_def raises_for_status_def
      dict_get_def annotate_results_def annotate_def)

lemma fetch_confirmations_null:
  "result (fetch_recent_transactions True feed_confirmations_null) = Raised TypeError"
  by (simp add: fetch_unfolded feed_confirmations_null_def fetch_attempt_def
      raises_for_status_def dict_get_def annotate_results_def annotate_def py_len_def)

section \<open>Properties of the execution gate and of the tick\<close>

lemma normalizer_singleton:
  "\<not> isExecuted t \<Longrightarrow> filter_and_sort_pending_transactions [t] = [t]"
  by (simp add: filter_and_sort_pending_transactions_def latest_step_def)

lemma normalizer_empty: "filter_and_sort_pending_transactions [] = []"
  by (simp add: filter_and_sort_pending_transactions_def)

lemma execution_results_append:
  "execution_results (xs @ ys) = execution_results xs @ execution_results ys"
  by (induction xs) (auto split: tick_event.splits)

lemma decode_calldata:
  "decode_hex_data calldata_7_2500 =
     Some \<lparr>validatorId = PyStr ''7'', amountInTokens = PyStr ''2500.0''\<rparr>"
  unfolding calldata_7_2500_def
  by (rule decode_prefixed) (simp add: delegate_selector_def)

lemma decoded_of_calldata:
  "decoded_of decode_hex_data (Some calldata_7_2500) =
     Some \<lparr>validatorId = PyStr ''7'', amountInTokens = PyStr ''2500.0''\<rparr>"
proof -
  have "calldata_7_2500 \<noteq> []"
    by (simp add: calldata_7_2500_def)
  then show ?thesis
    by (simp add: decoded_of_def decode_calldata)
qed

lemma example_balance:
  "rounded_balance (Some 5000) = 5000" "to_double 5000 = 5000"
  by code_simp+

lemma calldata_given: "data_given (Some calldata_7_2500) = Some calldata_7_2500"
  by (simp add: data_given_def calldata_7_2500_def)

lemma calldata_function: "get_function_name calldata_7_2500 = ''delegate''"
  unfolding calldata_7_2500_def delegate_selector_def args_7_2500_def
  by code_simp

lemma calldata_amount: "given_amount decode_hex_data example_float calldata_7_2500 = Some 2500"
  by (simp add: given_amount_def decode_calldata example_float_def)

subsection \<open>The commands\<close>

lemma command_rejected:
  assumes "filter_and_sort_pending_transactions (recent_transactions env) = lowest # others"
    and "signature_count lowest < confirmations_required lowest"
  shows "run_execute_command check_pause check_balance allow_no_data_branch env =
           (if check_pause \<and> get_paused env then [Send BotPaused]
            else if \<not> allow_no_data_branch \<and> decoded_of (decode env) (data lowest) = None
              then [Send Checking, Send (FailedToDecode (nonce lowest))]
            else [Send Checking,
                  Send (InsufficientSignatures (nonce lowest) (signature_count lowest)
                          (confirmations_required lowest))])"
  using assms by (simp add: run_execute_command_def Let_def)

lemma command_no_submission:
  assumes "filter_and_sort_pending_transactions (recent_transactions env) = lowest # others"
    and "signature_count lowest < confirmations_required lowest"
  shows "submissions (run_execute_command check_pause check_balance allow_no_data_branch env) = []"
  by (simp add: command_rejected [OF assms] submissions_def)

subsection \<open>The tick, stage by stage\<close>

lemma list_pending_no_execution:
  "execution_results (fst (list_pending env staking_balance ts)) = []"
  by (induction ts) (simp_all add: Let_def split: outcome.splits)

lemma list_pending_prints:
  "e \<in> set (fst (list_pending env staking_balance ts)) \<Longrightarrow> \<exists>line. e = Print line"
  by (induction ts) (auto simp: Let_def split: outcome.splits)

lemma list_pending_first:
  assumes "status_line env staking_balance t = Returned line"
  shows "Print line \<in> set (fst (list_pending env staking_balance (t # ts)))"
  using assms by (simp add: Let_def)

lemma recheck_queue_unfolded:
  "recheck_queue paused env transactions =
     (let staking_balance = rounded_balance (tick_staking_balance env);
          pending_transactions = filter_and_sort_pending_transactions transactions;
          before = (if transactions = [] then [Broadcast SafeApiEmpty] else []) @
            (if pending_transactions = [] then [Print NoPendingFound]
             else Print PendingHeader # fst (list_pending env staking_balance pending_transactions));
          failed = (if pending_transactions = [] then None
                    else snd (list_pending env staking_balance pending_transactions))
      in case failed of
           Some e \<Rightarrow> (paused, before @ [Broadcast (ErrorDuringRecheck e)], None)
         | None \<Rightarrow>
             (case pending_amounts (tick_decode env) (tick_float_of env) pending_transactions of
                None \<Rightarrow> (paused, before @ [Broadcast (ErrorDuringRecheck ValueError)], None)
              | Some amounts \<Rightarrow>
                  (case compose_full_report transactions (to_double staking_balance)
                          (tick_decode env) (tick_float_of env) of
                     Raised e \<Rightarrow> (paused, before @ [Broadcast (ErrorDuringRecheck e)], None)
                   | Returned report \<Rightarrow>
                       (let run = automated_execution paused (to_double staking_balance)
                                    pending_transactions env
                        in (fst run, before @ snd run,
                            Some (report
                                    \<lparr>no_pending_note := pending_transactions = [],
                                     queue_link :=
                                       list_ex (\<lambda>t. signature_count t < confirmations_required t)
                                         pending_transactions,
                                     paused_note := paused\<rparr>))))))"
  unfolding recheck_queue_def Let_def
  by (cases "filter_and_sort_pending_transactions transactions = []")
    (simp_all split: option.splits outcome.splits)

lemma periodic_recheck_unfolded:
  "periodic_recheck paused env =
     (case probe_alert env of
        Raised e \<Rightarrow>
          (paused, Broadcast Rechecking # [Broadcast (ErrorDuringRecheck e)] @
                   (if report_due env then [Broadcast (DailyReport None)] else []))
      | Returned alert \<Rightarrow>
          (case tick_transactions env of
             Raised e \<Rightarrow>
               (paused \<or> alert,
                Broadcast Rechecking #
                ((if alert then [Broadcast DepositAlert] else []) @
                 [Broadcast (ErrorDuringRecheck e)]) @
                (if report_due env then [Broadcast (DailyReport None)] else []))
           | Returned transactions \<Rightarrow>
               (fst (recheck_queue (paused \<or> alert) env transactions),
                Broadcast Rechecking #
                ((if alert then [Broadcast DepositAlert] else []) @
                 fst (snd (recheck_queue (paused \<or> alert) env transactions))) @
                (if report_due env
                 then [Broadcast (DailyReport
                         (snd (snd (recheck_queue (paused \<or> alert) env transactions))))]
                 else []))))"
  by (simp add: periodic_recheck_def Let_def split: outcome.splits)

subsection \<open>The tick below the threshold\<close>

lemma automated_execution_rejected:
  assumes "signature_count lowest < confirmations_required lowest"
  shows "automated_execution paused bal (lowest # others) env =
           (paused,
            if paused then [Print ExecutionPaused]
            else (case decoded_of (tick_decode env) (data lowest) of
                    None \<Rightarrow> []
                  | Some d \<Rightarrow>
                     (case tick_float_of env (amountInTokens d) of
                        None \<Rightarrow> [Broadcast (ErrorDuringRecheck ValueError)]
                      | Some amount \<Rightarrow>
                          [Print (SkippingExecution (nonce lowest) (signature_count lowest)
                                    (confirmations_required lowest))])))"
  using assms by (simp add: automated_execution_def Let_def split: option.splits)

lemma recheck_queue_rejected:
  assumes q: "filter_and_sort_pending_transactions transactions = lowest # others"
    and low: "signature_count lowest < confirmations_required lowest"
  shows "recheck_queue paused env transactions =
     (let staking_balance = rounded_balance (tick_staking_balance env);
          before = Print PendingHeader # fst (list_pending env staking_balance (lowest # others))
      in case snd (list_pending env staking_balance (lowest # others)) of
           Some e \<Rightarrow> (paused, before @ [Broadcast (ErrorDuringRecheck e)], None)
         | None \<Rightarrow>
             (case pending_amounts (tick_decode env) (tick_float_of env) (lowest # others) of
                None \<Rightarrow> (paused, before @ [Broadcast (ErrorDuringRecheck ValueError)], None)
              | Some amounts \<Rightarrow>
                  (case compose_full_report transactions (to_double staking_balance)
                          (tick_decode env) (tick_float_of env) of
                     Raised e \<Rightarrow> (paused, before @ [Broadcast (ErrorDuringRecheck e)], None)
                   | Returned report \<Rightarrow>
                       (paused,
                        before @
                        (if paused then [Print ExecutionPaused]
                         else (case decoded_of (tick_decode env) (data lowest) of
                                 None \<Rightarrow> []
                               | Some d \<Rightarrow>
                                  (case tick_float_of env (amountInTokens d) of
                                     None \<Rightarrow> [Broadcast (ErrorDuringRecheck ValueError)]
                                   | Some amount \<Rightarrow>
                                       [Print (SkippingExecution (nonce lowest)
                                                 (signature_count lowest)
                                                 (confirmations_required lowest))]))),
                        Some (report\<lparr>no_pending_note := False, queue_link := True,
                                      paused_note := paused\<rparr>)))))"
proof -
  have ne: "transactions \<noteq> []"
    using q by (auto simp: normalizer_empty)
  show ?thesis
    unfolding recheck_queue_unfolded Let_def q automated_execution_rejected [OF low]
    using ne low by (simp split: option.splits outcome.splits)
qed

lemma recheck_queue_quiet:
  assumes q: "filter_and_sort_pending_transactions transactions = lowest # others"
    and low: "signature_count lowest < confirmations_required lowest"
  shows "fst (recheck_queue paused env transactions) = paused \<and>
         execution_results (fst (snd (recheck_queue paused env transactions))) = [] \<and>
         Broadcast (DailyReport x) \<notin> set (fst (snd (recheck_queue paused env transactions)))"
proof -
  have "Broadcast (DailyReport x) \<notin>
      set (fst (list_pending env (rounded_balance (tick_staking_balance env)) (lowest # others)))"
    using list_pending_prints by blast
  then show ?thesis
    unfolding recheck_queue_rejected [OF q low] Let_def
    using list_pending_no_execution
      [of env "rounded_balance (tick_staking_balance env)" "lowest # others"]
    by (simp add: execution_results_append split: option.splits outcome.splits)
qed

lemma recheck_queue_lists:
  assumes q: "filter_and_sort_pending_transactions transactions = lowest # others"
    and low: "signature_count lowest < confirmations_required lowest"
    and line: "status_line env (rounded_balance (tick_staking_balance env)) lowest = Returned line"
  shows "Print line \<in> set (fst (snd (recheck_queue paused env transactions)))"
proof -
  have "Print line \<in>
      set (fst (list_pending env (rounded_balance (tick_staking_balance env)) (lowest # others)))"
    using line by (rule list_pending_first)
  then show ?thesis
    unfolding recheck_queue_rejected [OF q low] Let_def
    by (simp split: option.splits outcome.splits)
qed

lemma recheck_queue_unaborted:
  assumes q: "filter_and_sort_pending_transactions transactions = lowest # others"
    and low: "signature_count lowest < confirmations_required lowest"
    and ok: "\<forall>e. Broadcast (ErrorDuringRecheck e) \<notin>
                 set (fst (snd (recheck_queue paused env transactions)))"
  shows "(paused \<longrightarrow>
            Print ExecutionPaused \<in> set (fst (snd (recheck_queue paused env transactions)))) \<and>
         (\<forall>d. \<not> paused \<and> decoded_of (tick_decode env) (data lowest) = Some d \<longrightarrow>
            Print (SkippingExecution (nonce lowest) (signature_count lowest)
                     (confirmations_required lowest)) \<in>
              set (fst (snd (recheck_queue paused env transactions))))"
  using ok unfolding recheck_queue_rejected [OF q low] Let_def
  by (auto split: option.splits outcome.splits if_splits)

subsection \<open>The report below the threshold\<close>

lemma collect_first:
  assumes "collect (x # xs) = Returned ys"
  shows "\<exists>y rest. ys = y # rest \<and> x = Returned y"
  using assms by (auto split: outcome.splits)

lemma report_row_below_threshold:
  assumes "signature_count t < confirmations_required t"
    and "report_row_of dec fl bal t = Returned row"
  shows "row_nonce row = nonce t \<and>
         row_status row = (if data_given (data t) = None then NoData else SignaturesNeeded) \<and>
         row_signature_count row = signature_count t \<and>
         row_confirmations_required row = confirmations_required t"
  using assms by (auto simp: report_row_of_def split: option.splits)

lemma append_nonce_keeps:
  assumes "map_of m k = Some ns" and "n \<in> set ns"
  shows "\<exists>ns'. map_of (append_nonce k' n' m) k = Some ns' \<and> n \<in> set ns'"
  using assms by (auto simp: append_nonce_def update_conv')

lemma append_nonce_adds:
  "\<exists>ns. map_of (append_nonce k n m) k = Some ns \<and> n \<in> set ns"
  by (auto simp: append_nonce_def update_conv' split: option.splits)

lemma signers_fold_keeps:
  assumes "\<exists>ns. map_of m k = Some ns \<and> n \<in> set ns"
  shows "\<exists>ns. map_of (foldl (\<lambda>m (address, discord_id).
                  if address \<notin> owners then append_nonce discord_id n' m else m) m signers) k
               = Some ns \<and> n \<in> set ns"
  using assms
proof (induction signers arbitrary: m)
  case Nil
  then show ?case
    by simp
next
  case (Cons s signers)
  obtain address discord_id where s: "s = (address, discord_id)"
    by (cases s)
  have "\<exists>ns. map_of (if address \<notin> owners then append_nonce discord_id n' m else m) k = Some ns \<and>
      n \<in> set ns"
    using Cons.prems append_nonce_keeps by fastforce
  from Cons.IH [OF this] show ?case
    by (simp add: s)
qed

lemma signers_fold_adds:
  assumes "(address, discord_id) \<in> set signers" and "address \<notin> owners"
  shows "\<exists>ns. map_of (foldl (\<lambda>m (address, discord_id).
                  if address \<notin> owners then append_nonce discord_id n m else m) m signers)
               discord_id = Some ns \<and> n \<in> set ns"
  using assms
proof (induction signers arbitrary: m)
  case Nil
  then show ?case
    by simp
next
  case (Cons s signers)
  obtain a i where s: "s = (a, i)"
    by (cases s)
  show ?case
  proof (cases "s = (address, discord_id)")
    case True
    have "\<exists>ns. map_of (append_nonce discord_id n m) discord_id = Some ns \<and> n \<in> set ns"
      by (rule append_nonce_adds)
    from signers_fold_keeps [OF this, of owners n signers] show ?thesis
      using True Cons.prems(2) by simp
  next
    case False
    then have "(address, discord_id) \<in> set signers"
      using Cons.prems(1) by simp
    from Cons.IH [OF this Cons.prems(2)] show ?thesis
      by (simp add: s)
  qed
qed

lemma missing_signers_adds:
  assumes "(address, discord_id) \<in> set signer_discord_map" and "address \<notin> set (map owner cs)"
  shows "\<exists>ns. map_of (missing_signers t cs m) discord_id = Some ns \<and> nonce t \<in> set ns"
  unfolding missing_signers_def
  using signers_fold_adds [OF assms, of "nonce t" m] .

lemma missing_signers_keeps:
  assumes "\<exists>ns. map_of m k = Some ns \<and> n \<in> set ns"
  shows "\<exists>ns. map_of (missing_signers t cs m) k = Some ns \<and> n \<in> set ns"
  unfolding missing_signers_def
  using signers_fold_keeps [OF assms, of "set (map owner cs)" "nonce t" signer_discord_map] .

lemma collect_missing_signatures_keeps:
  assumes "collect_missing_signatures ts m = Returned m'"
    and "\<exists>ns. map_of m k = Some ns \<and> n \<in> set ns"
  shows "\<exists>ns. map_of m' k = Some ns \<and> n \<in> set ns"
  using assms
proof (induction ts arbitrary: m)
  case Nil
  then show ?case
    by simp
next
  case (Cons t ts)
  show ?case
  proof (cases "signature_count t < confirmations_required t")
    case False
    then show ?thesis
      using Cons by simp
  next
    case True
    then obtain cs where cs: "confirmations t = Some cs"
      and rest: "collect_missing_signatures ts (missing_signers t cs m) = Returned m'"
      using Cons.prems(1) by (cases "confirmations t") simp_all
    from Cons.IH [OF rest missing_signers_keeps [OF Cons.prems(2)]] show ?thesis .
  qed
qed

lemma collect_missing_signatures_first:
  assumes "collect_missing_signatures (t # ts) [] = Returned missing"
    and "signature_count t < confirmations_required t"
    and "confirmations t = Some cs"
    and "(address, discord_id) \<in> set signer_discord_map" and "address \<notin> set (map owner cs)"
  shows "\<exists>ns. map_of missing discord_id = Some ns \<and> nonce t \<in> set ns"
proof -
  have "collect_missing_signatures ts (missing_signers t cs []) = Returned missing"
    using assms(1,2,3) by simp
  then show ?thesis
    using missing_signers_adds [OF assms(4,5)] by (rule collect_missing_signatures_keeps)
qed

lemma compose_full_report_below_threshold:
  assumes q: "filter_and_sort_pending_transactions transactions = lowest # others"
    and low: "signature_count lowest < confirmations_required lowest"
    and r: "compose_full_report transactions bal dec fl = Returned report"
  shows "(\<exists>row rows. report_rows report = row # rows \<and> row_nonce row = nonce lowest \<and>
            row_status row =
              (if data_given (data lowest) = None then NoData else SignaturesNeeded) \<and>
            row_signature_count row = signature_count lowest \<and>
            row_confirmations_required row = confirmations_required lowest) \<and>
         (\<exists>cs. confirmations lowest = Some cs \<and>
            (\<forall>address discord_id.
               (address, discord_id) \<in> set signer_discord_map \<and>
               address \<notin> set (map owner cs) \<longrightarrow>
               (\<exists>ns. map_of (missing_signatures report) discord_id = Some ns \<and>
                     nonce lowest \<in> set ns)))"
proof -
  obtain rows amounts missing where
    rows: "collect (report_row_of dec fl bal lowest # map (report_row_of dec fl bal) others) =
             Returned rows"
    and missing: "collect_missing_signatures (lowest # others) [] = Returned missing"
    and report: "report_rows report = rows" "missing_signatures report = missing"
    using r unfolding compose_full_report_def Let_def q
    by (auto split: outcome.splits option.splits)
  obtain row rest where row: "rows = row # rest" "report_row_of dec fl bal lowest = Returned row"
    using collect_first [OF rows] by blast
  have first: "\<exists>row rows. report_rows report = row # rows \<and> row_nonce row = nonce lowest \<and>
      row_status row = (if data_given (data lowest) = None then NoData else SignaturesNeeded) \<and>
      row_signature_count row = signature_count lowest \<and>
      row_confirmations_required row = confirmations_required lowest"
    using report_row_below_threshold [OF low row(2)] row(1) report(1) by blast
  obtain cs where cs: "confirmations lowest = Some cs"
    using missing low by (cases "confirmations lowest") simp_all
  have "\<forall>address discord_id.
      (address, discord_id) \<in> set signer_discord_map \<and> address \<notin> set (map owner cs) \<longrightarrow>
      (\<exists>ns. map_of (missing_signatures report) discord_id = Some ns \<and> nonce lowest \<in> set ns)"
    using collect_missing_signatures_first [OF missing low cs] report(2) by blast
  then show ?thesis
    using first cs by blast
qed

lemma recheck_queue_report:
  assumes q: "filter_and_sort_pending_transactions transactions = lowest # others"
    and low: "signature_count lowest < confirmations_required lowest"
    and r: "snd (snd (recheck_queue paused env transactions)) = Some report"
  shows "queue_link report \<and>
         (\<exists>row rows. report_rows report = row # rows \<and> row_nonce row = nonce lowest \<and>
            row_status row =
              (if data_given (data lowest) = None then NoData else SignaturesNeeded) \<and>
            row_signature_count row = signature_count lowest \<and>
            row_confirmations_required row = confirmations_required lowest) \<and>
         (\<exists>cs. confirmations lowest = Some cs \<and>
            (\<forall>address discord_id.
               (address, discord_id) \<in> set signer_discord_map \<and>
               address \<notin> set (map owner cs) \<longrightarrow>
               (\<exists>ns. map_of (missing_signatures report) discord_id = Some ns \<and>
                     nonce lowest \<in> set ns)))"
proof -
  obtain built where built: "compose_full_report transactions
        (to_double (rounded_balance (tick_staking_balance env)))
        (tick_decode env) (tick_float_of env) = Returned built"
    and report: "report = built\<lparr>no_pending_note := False, queue_link := True,
        paused_note := paused\<rparr>"
    using r unfolding recheck_queue_rejected [OF q low] Let_def
    by (auto split: option.splits outcome.splits)
  show ?thesis
    using compose_full_report_below_threshold [OF q low built] by (simp add: report)
qed

subsection \<open>The whole tick below the threshold\<close>

lemma tick_no_execution:
  assumes t: "tick_transactions tenv = Returned transactions"
    and q: "filter_and_sort_pending_transactions transactions = lowest # others"
    and low: "signature_count lowest < confirmations_required lowest"
  shows "execution_results (snd (periodic_recheck paused tenv)) = []"
proof (cases "probe_alert tenv")
  case (Raised e)
  then show ?thesis
    by (simp add: periodic_recheck_unfolded)
next
  case (Returned alert)
  then show ?thesis
    using t recheck_queue_quiet [OF q low, of "paused \<or> alert" tenv]
    by (simp add: periodic_recheck_unfolded execution_results_append)
qed

lemma tick_events:
  assumes a: "probe_alert tenv = Returned alert"
    and t: "tick_transactions tenv = Returned transactions"
  shows "periodic_recheck paused tenv =
           (fst (recheck_queue (paused \<or> alert) tenv transactions),
            Broadcast Rechecking #
            ((if alert then [Broadcast DepositAlert] else []) @
             fst (snd (recheck_queue (paused \<or> alert) tenv transactions))) @
            (if report_due tenv
             then [Broadcast (DailyReport
                     (snd (snd (recheck_queue (paused \<or> alert) tenv transactions))))]
             else []))"
  using a t by (simp add: periodic_recheck_unfolded)

lemma tick_flag:
  assumes a: "probe_alert tenv = Returned alert"
    and t: "tick_transactions tenv = Returned transactions"
    and q: "filter_and_sort_pending_transactions transactions = lowest # others"
    and low: "signature_count lowest < confirmations_required lowest"
  shows "fst (periodic_recheck paused tenv) = (paused \<or> alert)"
  using recheck_queue_quiet [OF q low, of "paused \<or> alert" tenv]
  by (simp add: tick_events [OF a t])

lemma tick_lists:
  assumes a: "probe_alert tenv = Returned alert"
    and t: "tick_transactions tenv = Returned transactions"
    and q: "filter_and_sort_pending_transactions transactions = lowest # others"
    and low: "signature_count lowest < confirmations_required lowest"
  shows "(decoded_of (tick_decode tenv) (data lowest) = None \<longrightarrow>
            Print (StatusLine (nonce lowest) NoData (PyStr ''N/A'') 0
                     (signature_count lowest) (confirmations_required lowest)) \<in>
              set (snd (periodic_recheck paused tenv))) \<and>
         (\<forall>d amount.
            decoded_of (tick_decode tenv) (data lowest) = Some d \<and>
            tick_float_of tenv (amountInTokens d) = Some amount \<longrightarrow>
            Print (StatusLine (nonce lowest) SignaturesNeeded (validatorId d) amount
                     (signature_count lowest) (confirmations_required lowest)) \<in>
              set (snd (periodic_recheck paused tenv)))"
proof -
  have listed: "Print line \<in> set (snd (periodic_recheck paused tenv))"
    if "status_line tenv (rounded_balance (tick_staking_balance tenv)) lowest = Returned line"
    for line
    using recheck_queue_lists [OF q low that, of "paused \<or> alert"]
    by (simp add: tick_events [OF a t])
  have none: "Print (StatusLine (nonce lowest) NoData (PyStr ''N/A'') 0
        (signature_count lowest) (confirmations_required lowest)) \<in>
      set (snd (periodic_recheck paused tenv))"
    if "decoded_of (tick_decode tenv) (data lowest) = None"
    using that by (intro listed) (simp add: status_line_def)
  have some: "Print (StatusLine (nonce lowest) SignaturesNeeded (validatorId d) amount
        (signature_count lowest) (confirmations_required lowest)) \<in>
      set (snd (periodic_recheck paused tenv))"
    if "decoded_of (tick_decode tenv) (data lowest) = Some d"
      and "tick_float_of tenv (amountInTokens d) = Some amount"
    for d amount
    using that low by (intro listed) (simp add: status_line_def)
  show ?thesis
    using none some by blast
qed

lemma tick_unaborted:
  assumes a: "probe_alert tenv = Returned alert"
    and t: "tick_transactions tenv = Returned transactions"
    and q: "filter_and_sort_pending_transactions transactions = lowest # others"
    and low: "signature_count lowest < confirmations_required lowest"
    and ok: "\<forall>e. Broadcast (ErrorDuringRecheck e) \<notin> set (snd (periodic_recheck paused tenv))"
  shows "(paused \<or> alert \<longrightarrow>
            Print ExecutionPaused \<in> set (snd (periodic_recheck paused tenv))) \<and>
         (\<forall>d. \<not> (paused \<or> alert) \<and> decoded_of (tick_decode tenv) (data lowest) = Some d \<longrightarrow>
            Print (SkippingExecution (nonce lowest) (signature_count lowest)
                     (confirmations_required lowest)) \<in>
              set (snd (periodic_recheck paused tenv)))"
proof -
  have "\<forall>e. Broadcast (ErrorDuringRecheck e) \<notin>
      set (fst (snd (recheck_queue (paused \<or> alert) tenv transactions)))"
    using ok by (simp add: tick_events [OF a t])
  from recheck_queue_unaborted [OF q low this] show ?thesis
    by (simp add: tick_events [OF a t])
qed

lemma tick_report:
  assumes a: "probe_alert tenv = Returned alert"
    and t: "tick_transactions tenv = Returned transactions"
    and q: "filter_and_sort_pending_transactions transactions = lowest # others"
    and low: "signature_count lowest < confirmations_required lowest"
    and r: "Broadcast (DailyReport (Some report)) \<in> set (snd (periodic_recheck paused tenv))"
  shows "queue_link report \<and>
         (\<exists>row rows. report_rows report = row # rows \<and> row_nonce row = nonce lowest \<and>
            row_status row =
              (if data_given (data lowest) = None then NoData else SignaturesNeeded) \<and>
            row_signature_count row = signature_count lowest \<and>
            row_confirmations_required row = confirmations_required lowest) \<and>
         (\<exists>cs. confirmations lowest = Some cs \<and>
            (\<forall>address discord_id.
               (address, discord_id) \<in> set signer_discord_map \<and>
               address \<notin> set (map owner cs) \<longrightarrow>
               (\<exists>ns. map_of (missing_signatures report) discord_id = Some ns \<and>
                     nonce lowest \<in> set ns)))"
proof -
  have "Broadcast (DailyReport (Some report)) \<notin>
      set (fst (snd (recheck_queue (paused \<or> alert) tenv transactions)))"
    using recheck_queue_quiet [OF q low, of "paused \<or> alert" tenv "Some report"] by simp
  then have "snd (snd (recheck_queue (paused \<or> alert) tenv transactions)) = Some report"
    using r by (simp add: tick_events [OF a t] split: if_splits)
  then show ?thesis
    by (rule recheck_queue_report [OF q low])
qed

text \<open>
  Claim C4. When the lowest-nonce pending transaction has fewer signatures than it
  requires, no variant of the command and no tick calls \<^verbatim>\<open>execute_transaction\<close>, and each of
  them reports why.

  Every command variant answers with one rejection, that of the first check that fails:
  the pause notice (\<^verbatim>\<open>!execute\<close> only), the decoding failure (all but \<^verbatim>\<open>!shukai9000\<close>) or
  the insufficient signatures with the two counts.

  A tick that has got its probe and its queue leaves the pause flag as the probe set it
  and prints the line of the transaction in its listing, with the nonce, the two counts
  and the status: \<^verbatim>\<open>Signatures Needed\<close> when the calldata decodes (and \<^verbatim>\<open>float\<close> takes
  the amount, as it does for the decoder's own strings), \<^verbatim>\<open>No Data\<close> when it does not.
  Unless an exception ends the tick first, which it then broadcasts, the execution part
  prints that execution is paused or, when it is not paused and the calldata decodes,
  that it skips the nonce for its signatures. A daily report that the tick broadcasts
  carries the link to the Safe queue, a first row for this nonce with the two counts and
  the status \<^verbatim>\<open>Signatures Needed\<close> (\<^verbatim>\<open>No Data\<close> without calldata), and the nonce under
  every known signer who is not among the owners of its confirmations.
\<close>

theorem signature_threshold_gate:
  assumes "filter_and_sort_pending_transactions (recent_transactions env) = lowest # others"
    and "signature_count lowest < confirmations_required lowest"
    and "tick_transactions tenv = Returned transactions"
    and "filter_and_sort_pending_transactions transactions = lowest' # others'"
    and "signature_count lowest' < confirmations_required lowest'"
  shows "run_execute_command check_pause check_balance allow_no_data_branch env =
           (if check_pause \<and> get_paused env then [Send BotPaused]
            else if \<not> allow_no_data_branch \<and> decoded_of (decode env) (data lowest) = None
              then [Send Checking, Send (FailedToDecode (nonce lowest))]
            else [Send Checking,
                  Send (InsufficientSignatures (nonce lowest) (signature_count lowest)
                          (confirmations_required lowest))]) \<and>
         submissions (execute env) = [] \<and>
         submissions (force_execute env) = [] \<and>
         submissions (force_execute_no_checks env) = [] \<and>
         submissions (ultimate_force_execute env) = [] \<and>
         execution_results (snd (periodic_recheck paused tenv)) = [] \<and>
         (\<forall>alert. probe_alert tenv = Returned alert \<longrightarrow>
            fst (periodic_recheck paused tenv) = (paused \<or> alert) \<and>
            (decoded_of (tick_decode tenv) (data lowest') = None \<longrightarrow>
               Print (StatusLine (nonce lowest') NoData (PyStr ''N/A'') 0
                        (signature_count lowest') (confirmations_required lowest')) \<in>
                 set (snd (periodic_recheck paused tenv))) \<and>
            (\<forall>d amount.
               decoded_of (tick_decode tenv) (data lowest') = Some d \<and>
               tick_float_of tenv (amountInTokens d) = Some amount \<longrightarrow>
               Print (StatusLine (nonce lowest') SignaturesNeeded (validatorId d) amount
                        (signature_count lowest') (confirmations_required lowest')) \<in>
                 set (snd (periodic_recheck paused tenv))) \<and>
            ((\<forall>e. Broadcast (ErrorDuringRecheck e) \<notin> set (snd (periodic_recheck paused tenv))) \<longrightarrow>
               (paused \<or> alert \<longrightarrow>
                  Print ExecutionPaused \<in> set (snd (periodic_recheck paused tenv))) \<and>
               (\<forall>d. \<not> (paused \<or> alert) \<and>
                    decoded_of (tick_decode tenv) (data lowest') = Some d \<longrightarrow>
                  Print (SkippingExecution (nonce lowest') (signature_count lowest')
                           (confirmations_required lowest')) \<in>
                    set (snd (periodic_recheck paused tenv)))) \<and>
            (\<forall>report.
               Broadcast (DailyReport (Some report)) \<in> set (snd (periodic_recheck paused tenv)) \<longrightarrow>
               queue_link report \<and>
               (\<exists>row rows. report_rows report = row # rows \<and> row_nonce row = nonce lowest' \<and>
                  row_status row =
                    (if data_given (data lowest') = None then NoData else SignaturesNeeded) \<and>
                  row_signature_count row = signature_count lowest' \<and>
                  row_confirmations_required row = confirmations_required lowest') \<and>
               (\<exists>cs. confirmations lowest' = Some cs \<and>
                  (\<forall>address discord_id.
                     (address, discord_id) \<in> set signer_discord_map \<and>
                     address \<notin> set (map owner cs) \<longrightarrow>
                     (\<exists>ns. map_of (missing_signatures report) discord_id = Some ns \<and>
                           nonce lowest' \<in> set ns)))))"
proof -
  note c = assms(1,2) and t = assms(3) and q = assms(4) and low = assms(5)
  have tick: "fst (periodic_recheck paused tenv) = (paused \<or> alert) \<and>
      (decoded_of (tick_decode tenv) (data lowest') = None \<longrightarrow>
         Print (StatusLine (nonce lowest') NoData (PyStr ''N/A'') 0
                  (signature_count lowest') (confirmations_required lowest')) \<in>
           set (snd (periodic_recheck paused tenv))) \<and>
      (\<forall>d amount.
         decoded_of (tick_decode tenv) (data lowest') = Some d \<and>
         tick_float_of tenv (amountInTokens d) = Some amount \<longrightarrow>
         Print (StatusLine (nonce lowest') SignaturesNeeded (validatorId d) amount
                  (signature_count lowest') (confirmations_required lowest')) \<in>
           set (snd (periodic_recheck paused tenv))) \<and>
      ((\<forall>e. Broadcast (ErrorDuringRecheck e) \<notin> set (snd (periodic_recheck paused tenv))) \<longrightarrow>
         (paused \<or> alert \<longrightarrow>
            Print ExecutionPaused \<in> set (snd (periodic_recheck paused tenv))) \<and>
         (\<forall>d. \<not> (paused \<or> alert) \<and>
              decoded_of (tick_decode tenv) (data lowest') = Some d \<longrightarrow>
            Print (SkippingExecution (nonce lowest') (signature_count lowest')
                     (confirmations_required lowest')) \<in>
              set (snd (periodic_recheck paused tenv)))) \<and>
      (\<forall>report.
         Broadcast (DailyReport (Some report)) \<in> set (snd (periodic_recheck paused tenv)) \<longrightarrow>
         queue_link report \<and>
         (\<exists>row rows. report_rows report = row # rows \<and> row_nonce row = nonce lowest' \<and>
            row_status row =
              (if data_given (data lowest') = None then NoData else SignaturesNeeded) \<and>
            row_signature_count row = signature_count lowest' \<and>
            row_confirmations_required row = confirmations_required lowest') \<and>
         (\<exists>cs. confirmations lowest' = Some cs \<and>
            (\<forall>address discord_id.
               (address, discord_id) \<in> set signer_discord_map \<and>
               address \<notin> set (map owner cs) \<longrightarrow>
               (\<exists>ns. map_of (missing_signatures report) discord_id = Some ns \<and>
                     nonce lowest' \<in> set ns))))"
    if a: "probe_alert tenv = Returned alert" for alert
  proof (intro conjI)
    show "fst (periodic_recheck paused tenv) = (paused \<or> alert)"
      by (rule tick_flag [OF a t q low])
    show "decoded_of (tick_decode tenv) (data lowest') = None \<longrightarrow>
         Print (StatusLine (nonce lowest') NoData (PyStr ''N/A'') 0
                  (signature_count lowest') (confirmations_required lowest')) \<in>
           set (snd (periodic_recheck paused tenv))"
      using tick_lists [OF a t q low, of paused] by blast
    show "\<forall>d amount.
         decoded_of (tick_decode tenv) (data lowest') = Some d \<and>
         tick_float_of tenv (amountInTokens d) = Some amount \<longrightarrow>
         Print (StatusLine (nonce lowest') SignaturesNeeded (validatorId d) amount
                  (signature_count lowest') (confirmations_required lowest')) \<in>
           set (snd (periodic_recheck paused tenv))"
      using tick_lists [OF a t q low, of paused] by blast
    show "(\<forall>e. Broadcast (ErrorDuringRecheck e) \<notin> set (snd (periodic_recheck paused tenv))) \<longrightarrow>
         (paused \<or> alert \<longrightarrow>
            Print ExecutionPaused \<in> set (snd (periodic_recheck paused tenv))) \<and>
         (\<forall>d. \<not> (paused \<or> alert) \<and>
              decoded_of (tick_decode tenv) (data lowest') = Some d \<longrightarrow>
            Print (SkippingExecution (nonce lowest') (signature_count lowest')
                     (confirmations_required lowest')) \<in>
              set (snd (periodic_recheck paused tenv)))"
      using tick_unaborted [OF a t q low, of paused] by blast
    show "\<forall>report.
         Broadcast (DailyReport (Some report)) \<in> set (snd (periodic_recheck paused tenv)) \<longrightarrow>
         queue_link report \<and>
         (\<exists>row rows. report_rows report = row # rows \<and> row_nonce row = nonce lowest' \<and>
            row_status row =
              (if data_given (data lowest') = None then NoData else SignaturesNeeded) \<and>
            row_signature_count row = signature_count lowest' \<and>
            row_confirmations_required row = confirmations_required lowest') \<and>
         (\<exists>cs. confirmations lowest' = Some cs \<and>
            (\<forall>address discord_id.
               (address, discord_id) \<in> set signer_discord_map \<and>
               address \<notin> set (map owner cs) \<longrightarrow>
               (\<exists>ns. map_of (missing_signatures report) discord_id = Some ns \<and>
                     nonce lowest' \<in> set ns)))"
      using tick_report [OF a t q low, of _ paused] by blast
  qed
  show ?thesis
    using command_rejected [OF c] command_no_submission [OF c]
      tick_no_execution [OF t q low] tick
    unfolding execute_def force_execute_def force_execute_no_checks_def
      ultimate_force_execute_def
    by blast
qed

subsection \<open>Three ticks below the threshold\<close>

lemma example_environment:
  "probe_alert (tick_env_of queue) = Returned False"
  "tick_transactions (tick_env_of queue) = Returned queue"
  "tick_staking_balance (tick_env_of queue) = Some 5000"
  "tick_decode (tick_env_of queue) = decode_hex_data"
  "tick_float_of (tick_env_of queue) = example_float"
  "report_due (tick_env_of queue) = True"
  by (simp_all add: tick_env_of_def)

lemma example_amount: "example_float (PyStr ''2500.0'') = Some 2500"
  by (simp add: example_float_def)

lemma everyone_missing:
  "missing_signers t [] [] =
     [(892276475045249064, [nonce t]), (232514597200855040, [nonce t]),
      (538717564067381249, [nonce t]), (771222144780206100, [nonce t]),
      (258369063124860928, [nonce t])]"
  by (simp add: missing_signers_def signer_discord_map_def append_nonce_def)

lemma unsigned_queue:
  "filter_and_sort_pending_transactions (recent_transactions (command_env_of [unsigned_tx])) =
     unsigned_tx # []"
  "filter_and_sort_pending_transactions [unsigned_tx] = unsigned_tx # []"
  by (simp_all add: command_env_of_def normalizer_singleton unsigned_tx_def)

lemma unsigned_below_threshold: "signature_count unsigned_tx < confirmations_required unsigned_tx"
  by (simp add: unsigned_tx_def)

lemma unsigned_tick:
  "periodic_recheck False (tick_env_of [unsigned_tx]) =
     (False, [Broadcast Rechecking, Print PendingHeader,
              Print (StatusLine 3 SignaturesNeeded (PyStr ''7'') 2500 0 2),
              Print (SkippingExecution 3 0 2),
              Broadcast (DailyReport (Some
                \<lparr>report_staking_balance = 5000,
                 report_rows =
                   [\<lparr>row_nonce = 3, row_func = ''delegate'', row_validator_id = PyStr ''7'',
                     row_amount = 2500, row_status = SignaturesNeeded,
                     row_signature_count = 0, row_confirmations_required = 2\<rparr>],
                 headroom_amounts = [2500],
                 missing_signatures =
                   [(892276475045249064, [3]), (232514597200855040, [3]),
                    (538717564067381249, [3]), (771222144780206100, [3]),
                    (258369063124860928, [3])],
                 no_pending_note = False, queue_link = True, paused_note = False\<rparr>))])"
proof -
  note e = example_environment [of "[unsigned_tx]"]
  have v: "nonce unsigned_tx = 3" "signature_count unsigned_tx = 0"
    "confirmations_required unsigned_tx = 2" "data unsigned_tx = Some calldata_7_2500"
    "confirmations unsigned_tx = Some []"
    by (simp_all add: unsigned_tx_def)
  have d: "decoded_of decode_hex_data (Some calldata_7_2500) =
      Some \<lparr>validatorId = PyStr ''7'', amountInTokens = PyStr ''2500.0''\<rparr>"
    by (rule decoded_of_calldata)
  have line: "status_line (tick_env_of [unsigned_tx]) 5000 unsigned_tx =
      Returned (StatusLine 3 SignaturesNeeded (PyStr ''7'') 2500 0 2)"
    by (simp add: status_line_def e d v example_amount)
  have lines: "list_pending (tick_env_of [unsigned_tx]) 5000 [unsigned_tx] =
      ([Print (StatusLine 3 SignaturesNeeded (PyStr ''7'') 2500 0 2)], None)"
    by (simp add: line)
  have amounts: "pending_amounts decode_hex_data example_float [unsigned_tx] = Some [2500]"
    by (simp add: pending_amounts_def List.map_filter_def v calldata_given calldata_amount)
  have row: "report_row_of decode_hex_data example_float 5000 unsigned_tx =
      Returned \<lparr>row_nonce = 3, row_func = ''delegate'', row_validator_id = PyStr ''7'',
                row_amount = 2500, row_status = SignaturesNeeded, row_signature_count = 0,
                row_confirmations_required = 2\<rparr>"
    by (simp add: report_row_of_def v calldata_given calldata_amount calldata_function
        decode_calldata)
  have missing: "collect_missing_signatures [unsigned_tx] [] =
      Returned [(892276475045249064, [3]), (232514597200855040, [3]),
                (538717564067381249, [3]), (771222144780206100, [3]),
                (258369063124860928, [3])]"
    by (simp add: v everyone_missing)
  have report: "compose_full_report [unsigned_tx] 5000 decode_hex_data example_float =
      Returned \<lparr>report_staking_balance = 5000,
                report_rows =
                  [\<lparr>row_nonce = 3, row_func = ''delegate'', row_validator_id = PyStr ''7'',
                    row_amount = 2500, row_status = SignaturesNeeded,
                    row_signature_count = 0, row_confirmations_required = 2\<rparr>],
                headroom_amounts = [2500],
                missing_signatures =
                  [(892276475045249064, [3]), (232514597200855040, [3]),
                   (538717564067381249, [3]), (771222144780206100, [3]),
                   (258369063124860928, [3])],
                no_pending_note = False, queue_link = False, paused_note = False\<rparr>"
    unfolding compose_full_report_def Let_def unsigned_queue(2)
    using missing by (simp add: row amounts)
  have q: "recheck_queue False (tick_env_of [unsigned_tx]) [unsigned_tx] =
      (False, [Print PendingHeader,
               Print (StatusLine 3 SignaturesNeeded (PyStr ''7'') 2500 0 2),
               Print (SkippingExecution 3 0 2)],
       Some \<lparr>report_staking_balance = 5000,
             report_rows =
               [\<lparr>row_nonce = 3, row_func = ''delegate'', row_validator_id = PyStr ''7'',
                 row_amount = 2500, row_status = SignaturesNeeded,
                 row_signature_count = 0, row_confirmations_required = 2\<rparr>],
             headroom_amounts = [2500],
             missing_signatures =
               [(892276475045249064, [3]), (232514597200855040, [3]),
                (538717564067381249, [3]), (771222144780206100, [3]),
                (258369063124860928, [3])],
             no_pending_note = False, queue_link = True, paused_note = False\<rparr>)"
    unfolding recheck_queue_rejected [OF unsigned_queue(2) unsigned_below_threshold] Let_def
      e example_balance
    by (simp add: line Let_def amounts report d v example_amount)
  show ?thesis
    by (simp add: periodic_recheck_unfolded e q)
qed

lemma undecodable_queue:
  "filter_and_sort_pending_transactions [undecodable_tx] = undecodable_tx # []"
  by (simp add: normalizer_singleton undecodable_tx_def)

lemma undecodable_below_threshold:
  "signature_count undecodable_tx < confirmations_required undecodable_tx"
  by (simp add: undecodable_tx_def)

lemma undecodable_tick:
  "periodic_recheck False (tick_env_of [undecodable_tx]) =
     (False, [Broadcast Rechecking, Print PendingHeader,
              Print (StatusLine 3 NoData (PyStr ''N/A'') 0 0 2),
              Broadcast (DailyReport (Some
                \<lparr>report_staking_balance = 5000,
                 report_rows =
                   [\<lparr>row_nonce = 3, row_func = ''No Data'',
                     row_validator_id = PyStr ''No Data'', row_amount = 0,
                     row_status = NoData, row_signature_count = 0,
                     row_confirmations_required = 2\<rparr>],
                 headroom_amounts = [],
                 missing_signatures =
                   [(892276475045249064, [3]), (232514597200855040, [3]),
                    (538717564067381249, [3]), (771222144780206100, [3]),
                    (258369063124860928, [3])],
                 no_pending_note = False, queue_link = True, paused_note = False\<rparr>))])"
proof -
  note e = example_environment [of "[undecodable_tx]"]
  have v: "nonce undecodable_tx = 3" "signature_count undecodable_tx = 0"
    "confirmations_required undecodable_tx = 2" "data undecodable_tx = None"
    "confirmations undecodable_tx = Some []"
    by (simp_all add: undecodable_tx_def)
  have d: "decoded_of decode_hex_data None = None"
    by (simp add: decoded_of_def)
  have line: "status_line (tick_env_of [undecodable_tx]) 5000 undecodable_tx =
      Returned (StatusLine 3 NoData (PyStr ''N/A'') 0 0 2)"
    by (simp add: status_line_def e d v)
  have lines: "list_pending (tick_env_of [undecodable_tx]) 5000 [undecodable_tx] =
      ([Print (StatusLine 3 NoData (PyStr ''N/A'') 0 0 2)], None)"
    by (simp add: line)
  have amounts: "pending_amounts decode_hex_data example_float [undecodable_tx] = Some []"
    by (simp add: pending_amounts_def List.map_filter_def v data_given_def)
  have row: "report_row_of decode_hex_data example_float 5000 undecodable_tx =
      Returned \<lparr>row_nonce = 3, row_func = ''No Data'', row_validator_id = PyStr ''No Data'',
                row_amount = 0, row_status = NoData, row_signature_count = 0,
                row_confirmations_required = 2\<rparr>"
    by (simp add: report_row_of_def v data_given_def)
  have missing: "collect_missing_signatures [undecodable_tx] [] =
      Returned [(892276475045249064, [3]), (232514597200855040, [3]),
                (538717564067381249, [3]), (771222144780206100, [3]),
                (258369063124860928, [3])]"
    by (simp add: v everyone_missing)
  have report: "compose_full_report [undecodable_tx] 5000 decode_hex_data example_float =
      Returned \<lparr>report_staking_balance = 5000,
                report_rows =
                  [\<lparr>row_nonce = 3, row_func = ''No Data'',
                    row_validator_id = PyStr ''No Data'', row_amount = 0,
                    row_status = NoData, row_signature_count = 0,
                    row_confirmations_required = 2\<rparr>],
                headroom_amounts = [],
                missing_signatures =
                  [(892276475045249064, [3]), (232514597200855040, [3]),
                   (538717564067381249, [3]), (771222144780206100, [3]),
                   (258369063124860928, [3])],
                no_pending_note = False, queue_link = False, paused_note = False\<rparr>"
    unfolding compose_full_report_def Let_def undecodable_queue
    using missing by (simp add: row amounts)
  have q: "recheck_queue False (tick_env_of [undecodable_tx]) [undecodable_tx] =
      (False, [Print PendingHeader, Print (StatusLine 3 NoData (PyStr ''N/A'') 0 0 2)],
       Some \<lparr>report_staking_balance = 5000,
             report_rows =
               [\<lparr>row_nonce = 3, row_func = ''No Data'',
                 row_validator_id = PyStr ''No Data'', row_amount = 0,
                 row_status = NoData, row_signature_count = 0,
                 row_confirmations_required = 2\<rparr>],
             headroom_amounts = [],
             missing_signatures =
               [(892276475045249064, [3]), (232514597200855040, [3]),
                (538717564067381249, [3]), (771222144780206100, [3]),
                (258369063124860928, [3])],
             no_pending_note = False, queue_link = True, paused_note = False\<rparr>)"
    unfolding recheck_queue_rejected [OF undecodable_queue undecodable_below_threshold] Let_def
      e example_balance
    by (simp add: line Let_def amounts report d v)
  show ?thesis
    by (simp add: periodic_recheck_unfolded e q)
qed

text \<open>
  A record that requires two signatures and has no \<^verbatim>\<open>confirmations\<close> key: the listing
  prints its line, \<^verbatim>\<open>compose_full_report\<close> raises the \<^verbatim>\<open>KeyError\<close>, and the tick broadcasts
  the error and, the daily report being due, that the report failed to build.
\<close>

lemma keyless_tick:
  "periodic_recheck False (tick_env_of [keyless_tx]) =
     (False, [Broadcast Rechecking, Print PendingHeader,
              Print (StatusLine 3 SignaturesNeeded (PyStr ''7'') 2500 0 2),
              Broadcast (ErrorDuringRecheck KeyError),
              Broadcast (DailyReport None)])"
proof -
  note e = example_environment [of "[keyless_tx]"]
  have v: "nonce keyless_tx = 3" "signature_count keyless_tx = 0"
    "confirmations_required keyless_tx = 2" "data keyless_tx = Some calldata_7_2500"
    "confirmations keyless_tx = None"
    by (simp_all add: keyless_tx_def)
  have k: "filter_and_sort_pending_transactions [keyless_tx] = keyless_tx # []"
    by (simp add: normalizer_singleton keyless_tx_def)
  have low: "signature_count keyless_tx < confirmations_required keyless_tx"
    by (simp add: v)
  have d: "decoded_of decode_hex_data (Some calldata_7_2500) =
      Some \<lparr>validatorId = PyStr ''7'', amountInTokens = PyStr ''2500.0''\<rparr>"
    by (rule decoded_of_calldata)
  have line: "status_line (tick_env_of [keyless_tx]) 5000 keyless_tx =
      Returned (StatusLine 3 SignaturesNeeded (PyStr ''7'') 2500 0 2)"
    by (simp add: status_line_def e d v example_amount)
  have lines: "list_pending (tick_env_of [keyless_tx]) 5000 [keyless_tx] =
      ([Print (StatusLine 3 SignaturesNeeded (PyStr ''7'') 2500 0 2)], None)"
    by (simp add: line)
  have amounts: "pending_amounts decode_hex_data example_float [keyless_tx] = Some [2500]"
    by (simp add: pending_amounts_def List.map_filter_def v calldata_given calldata_amount)
  have row: "\<exists>row. report_row_of decode_hex_data example_float 5000 keyless_tx = Returned row"
    by (simp add: report_row_of_def v calldata_given calldata_amount)
  have report: "compose_full_report [keyless_tx] 5000 decode_hex_data example_float =
      Raised KeyError"
    unfolding compose_full_report_def Let_def k
    using row by (auto simp: amounts v)
  have q: "recheck_queue False (tick_env_of [keyless_tx]) [keyless_tx] =
      (False, [Print PendingHeader,
               Print (StatusLine 3 SignaturesNeeded (PyStr ''7'') 2500 0 2),
               Broadcast (ErrorDuringRecheck KeyError)], None)"
    unfolding recheck_queue_rejected [OF k low] Let_def e example_balance
    by (simp add: line Let_def amounts report)
  show ?thesis
    by (simp add: periodic_recheck_unfolded e q)
qed

theorem signature_threshold_gate_witness:
  "execute (command_env_of [unsigned_tx]) = [Send Checking, Send (InsufficientSignatures 3 0 2)] \<and>
   force_execute (command_env_of [unsigned_tx]) =
     [Send Checking, Send (InsufficientSignatures 3 0 2)] \<and>
   force_execute_no_checks (command_env_of [unsigned_tx]) =
     [Send Checking, Send (InsufficientSignatures 3 0 2)] \<and>
   ultimate_force_execute (command_env_of [unsigned_tx]) =
     [Send Checking, Send (InsufficientSignatures 3 0 2)] \<and>
   execution_results (snd (periodic_recheck False (tick_env_of [unsigned_tx]))) = [] \<and>
   fst (periodic_recheck False (tick_env_of [unsigned_tx])) = False \<and>
   Print (StatusLine 3 SignaturesNeeded (PyStr ''7'') 2500 0 2) \<in>
     set (snd (periodic_recheck False (tick_env_of [unsigned_tx]))) \<and>
   Print (SkippingExecution 3 0 2) \<in>
     set (snd (periodic_recheck False (tick_env_of [unsigned_tx]))) \<and>
   (\<exists>report. Broadcast (DailyReport (Some report)) \<in>
       set (snd (periodic_recheck False (tick_env_of [unsigned_tx]))) \<and>
     queue_link report \<and> map row_status (report_rows report) = [SignaturesNeeded] \<and>
     map_of (missing_signatures report) 538717564067381249 = Some [3]) \<and>
   execution_results (snd (periodic_recheck False (tick_env_of [undecodable_tx]))) = [] \<and>
   Print (StatusLine 3 NoData (PyStr ''N/A'') 0 0 2) \<in>
     set (snd (periodic_recheck False (tick_env_of [undecodable_tx]))) \<and>
   (\<exists>report. Broadcast (DailyReport (Some report)) \<in>
       set (snd (periodic_recheck False (tick_env_of [undecodable_tx]))) \<and>
     queue_link report \<and> map row_status (report_rows report) = [NoData] \<and>
     map_of (missing_signatures report) 538717564067381249 = Some [3])"
proof -
  have d: "decoded_of (decode (command_env_of [unsigned_tx])) (data unsigned_tx) =
      Some \<lparr>validatorId = PyStr ''7'', amountInTokens = PyStr ''2500.0''\<rparr>"
    using decoded_of_calldata by (simp add: command_env_of_def unsigned_tx_def)
  have v: "nonce unsigned_tx = 3" "signature_count unsigned_tx = 0"
    "confirmations_required unsigned_tx = 2"
    by (simp_all add: unsigned_tx_def)
  have e: "get_paused (command_env_of [unsigned_tx]) = False"
    by (simp add: command_env_of_def)
  note g = signature_threshold_gate [OF unsigned_queue(1) unsigned_below_threshold
      example_environment(2) unsigned_queue(2) unsigned_below_threshold]
  note h = signature_threshold_gate [OF unsigned_queue(1) unsigned_below_threshold
      example_environment(2) undecodable_queue undecodable_below_threshold]
  show ?thesis
    using g [of True True False False] g [of False True False False]
      g [of False False False False] g [of False False True False]
      h [of True True False False]
    unfolding execute_def force_execute_def force_execute_no_checks_def
      ultimate_force_execute_def
    by (simp add: d v e unsigned_tick undecodable_tick)
qed

section \<open>Properties of the retry loop and of the circuit breaker\<close>

lemma attempt_loop_unfolded:
  "attempt_loop env t n d 0 False =
     (let r0 = tick_execute env 0 t; r1 = tick_execute env 1 t; r2 = tick_execute env 2 t
      in if exec_ok r0
           then (False, [Execute t r0, Broadcast (SuccessfullyExecuted n d (tx_hash r0))])
         else if paused_after_wait env 1
           then (True, [Execute t r0, Broadcast (Reverted 1 n), Print PauseDetected])
         else if exec_ok r1
           then (False, [Execute t r0, Broadcast (Reverted 1 n), Execute t r1,
                         Broadcast (SuccessfullyExecuted n d (tx_hash r1))])
         else if paused_after_wait env 2
           then (True, [Execute t r0, Broadcast (Reverted 1 n), Execute t r1,
                        Broadcast (Reverted 2 n), Print PauseDetected])
         else if exec_ok r2
           then (False, [Execute t r0, Broadcast (Reverted 1 n), Execute t r1,
                         Broadcast (Reverted 2 n), Execute t r2,
                         Broadcast (SuccessfullyExecuted n d (tx_hash r2))])
         else (True, [Execute t r0, Broadcast (Reverted 1 n), Execute t r1,
                      Broadcast (Reverted 2 n), Execute t r2,
                      Broadcast TransactionRevertedAlert, Print ThreeConsecutiveReverts]))"
  by (simp add: attempt_loop.simps Let_def eval_nat_numeral)

lemma attempt_loop_at_most_three:
  "length (execution_results (snd (attempt_loop env t n d 0 False))) \<le> 3"
  by (simp add: attempt_loop_unfolded Let_def)

lemma attempt_loop_three_reverts:
  assumes "map exec_ok (execution_results (snd (attempt_loop env t n d 0 False))) =
             [False, False, False]"
  shows "fst (attempt_loop env t n d 0 False) = True \<and>
         Broadcast TransactionRevertedAlert \<in> set (snd (attempt_loop env t n d 0 False))"
  using assms by (simp add: attempt_loop_unfolded Let_def split: if_splits)

lemma automated_execution_flag:
  "(execution_results (snd (automated_execution paused bal pending env)) = [] \<and>
    fst (automated_execution paused bal pending env) = paused) \<or>
   (\<not> paused \<and>
    (\<exists>t n d. automated_execution paused bal pending env = attempt_loop env t n d 0 False))"
  by (auto simp: automated_execution_def Let_def split: list.splits option.splits)

lemma recheck_queue_cases:
  "(fst (recheck_queue paused env transactions) = paused \<and>
    execution_results (fst (snd (recheck_queue paused env transactions))) = []) \<or>
   (\<not> paused \<and>
    (\<exists>t n d. fst (recheck_queue paused env transactions) = fst (attempt_loop env t n d 0 False) \<and>
       execution_results (fst (snd (recheck_queue paused env transactions))) =
         execution_results (snd (attempt_loop env t n d 0 False)) \<and>
       set (snd (attempt_loop env t n d 0 False)) \<subseteq>
         set (fst (snd (recheck_queue paused env transactions)))))"
proof -
  define staking_balance where "staking_balance = rounded_balance (tick_staking_balance env)"
  define pending where "pending = filter_and_sort_pending_transactions transactions"
  define before where "before = (if transactions = [] then [Broadcast SafeApiEmpty] else []) @
      (if pending = [] then [Print NoPendingFound]
       else Print PendingHeader # fst (list_pending env staking_balance pending))"
  define run where "run = automated_execution paused (to_double staking_balance) pending env"
  have quiet: "execution_results before = []"
    by (simp add: before_def execution_results_append list_pending_no_execution)
  have shape: "(\<exists>e. recheck_queue paused env transactions =
                   (paused, before @ [Broadcast (ErrorDuringRecheck e)], None)) \<or>
               (\<exists>report. recheck_queue paused env transactions =
                   (fst run, before @ snd run, Some report))"
    unfolding recheck_queue_unfolded Let_def staking_balance_def [symmetric]
      pending_def [symmetric] before_def [symmetric] run_def [symmetric]
    by (simp split: option.splits outcome.splits)
  then show ?thesis
  proof
    assume "\<exists>e. recheck_queue paused env transactions =
        (paused, before @ [Broadcast (ErrorDuringRecheck e)], None)"
    then show ?thesis
      using quiet by (auto simp: execution_results_append)
  next
    assume "\<exists>report. recheck_queue paused env transactions =
        (fst run, before @ snd run, Some report)"
    then obtain report where r: "recheck_queue paused env transactions =
        (fst run, before @ snd run, Some report)"
      by blast
    from automated_execution_flag [of paused "to_double staking_balance" pending env]
    consider "execution_results (snd run) = []" "fst run = paused"
      | t n d where "\<not> paused" "run = attempt_loop env t n d 0 False"
      unfolding run_def by blast
    then show ?thesis
    proof cases
      case 1
      then show ?thesis
        using r quiet by (simp add: execution_results_append)
    next
      case 2
      then show ?thesis
        using r quiet by (auto simp: execution_results_append)
    qed
  qed
qed

lemma periodic_recheck_cases:
  "(execution_results (snd (periodic_recheck paused env)) = []) \<or>
   (\<exists>t n d. fst (periodic_recheck paused env) = fst (attempt_loop env t n d 0 False) \<and>
      execution_results (snd (periodic_recheck paused env)) =
        execution_results (snd (attempt_loop env t n d 0 False)) \<and>
      set (snd (attempt_loop env t n d 0 False)) \<subseteq> set (snd (periodic_recheck paused env)))"
proof (cases "probe_alert env")
  case (Raised e)
  then show ?thesis
    by (simp add: periodic_recheck_unfolded)
next
  case (Returned alert)
  show ?thesis
  proof (cases "tick_transactions env")
    case (Raised e)
    then show ?thesis
      using Returned by (simp add: periodic_recheck_unfolded execution_results_append)
  next
    case (Returned transactions)
    let ?q = "recheck_queue (paused \<or> alert) env transactions"
    have p: "periodic_recheck paused env =
        (fst ?q,
         Broadcast Rechecking #
         ((if alert then [Broadcast DepositAlert] else []) @ fst (snd ?q)) @
         (if report_due env then [Broadcast (DailyReport (snd (snd ?q)))] else []))"
      using Returned \<open>probe_alert env = Returned alert\<close>
      by (simp add: periodic_recheck_unfolded)
    have r: "execution_results (snd (periodic_recheck paused env)) =
        execution_results (fst (snd ?q))"
      by (simp add: p execution_results_append)
    have sub: "set (fst (snd ?q)) \<subseteq> set (snd (periodic_recheck paused env))"
      by (auto simp: p)
    from recheck_queue_cases [of "paused \<or> alert" env transactions]
    consider (quiet) "execution_results (fst (snd ?q)) = []"
      | (loop) t n d where "fst ?q = fst (attempt_loop env t n d 0 False)"
        "execution_results (fst (snd ?q)) =
           execution_results (snd (attempt_loop env t n d 0 False))"
        "set (snd (attempt_loop env t n d 0 False)) \<subseteq> set (fst (snd ?q))"
      by blast
    then show ?thesis
    proof cases
      case quiet
      then show ?thesis
        using r by simp
    next
      case loop
      have "fst (periodic_recheck paused env) = fst (attempt_loop env t n d 0 False)"
        using p loop(1) by simp
      moreover have "execution_results (snd (periodic_recheck paused env)) =
          execution_results (snd (attempt_loop env t n d 0 False))"
        using r loop(2) by simp
      moreover have "set (snd (attempt_loop env t n d 0 False)) \<subseteq>
          set (snd (periodic_recheck paused env))"
        using loop(3) sub by blast
      ultimately show ?thesis
        by blast
    qed
  qed
qed

lemma paused_tick:
  "fst (periodic_recheck True env) = True \<and>
   execution_results (snd (periodic_recheck True env)) = []"
proof (cases "probe_alert env")
  case (Raised e)
  then show ?thesis
    by (simp add: periodic_recheck_unfolded)
next
  case (Returned alert)
  show ?thesis
  proof (cases "tick_transactions env")
    case (Raised e)
    then show ?thesis
      using Returned by (simp add: periodic_recheck_unfolded execution_results_append)
  next
    case (Returned transactions)
    have "fst (recheck_queue True env transactions) = True \<and>
        execution_results (fst (snd (recheck_queue True env transactions))) = []"
      using recheck_queue_cases [of True env transactions] by simp
    then show ?thesis
      using Returned \<open>probe_alert env = Returned alert\<close>
      by (simp add: periodic_recheck_unfolded execution_results_append)
  qed
qed

lemma paused_ticks:
  "fst (run_ticks True envs) = True \<and> execution_results (snd (run_ticks True envs)) = []"
  by (induction envs) (simp_all add: Let_def paused_tick execution_results_append)

text \<open>
  Claim C5. A tick calls \<^verbatim>\<open>execute_transaction\<close> at most three times. If its calls are
  three and all three come back without success, the tick ends with the pause flag set
  and has broadcast the transaction-reverted alert; and however many ticks follow with no
  command in between, none of them calls \<^verbatim>\<open>execute_transaction\<close> and the flag stays set.
\<close>

theorem circuit_breaker_after_three_reverts:
  assumes "map exec_ok (execution_results (snd (periodic_recheck paused env))) =
             [False, False, False]"
  shows "fst (periodic_recheck paused env) = True \<and>
         Broadcast TransactionRevertedAlert \<in> set (snd (periodic_recheck paused env)) \<and>
         length (execution_results (snd (periodic_recheck paused env))) = 3 \<and>
         length (execution_results (snd (periodic_recheck paused' env'))) \<le> 3 \<and>
         fst (run_ticks (fst (periodic_recheck paused env)) envs) = True \<and>
         execution_results (snd (run_ticks (fst (periodic_recheck paused env)) envs)) = []"
proof -
  have three: "length (execution_results (snd (periodic_recheck paused env))) = 3"
    using arg_cong [OF assms, of length] by simp
  from periodic_recheck_cases [of paused env] three
  obtain t n d where
    f: "fst (periodic_recheck paused env) = fst (attempt_loop env t n d 0 False)" and
    e: "execution_results (snd (periodic_recheck paused env)) =
          execution_results (snd (attempt_loop env t n d 0 False))" and
    s: "set (snd (attempt_loop env t n d 0 False)) \<subseteq> set (snd (periodic_recheck paused env))"
    by auto
  have "fst (attempt_loop env t n d 0 False) = True \<and>
      Broadcast TransactionRevertedAlert \<in> set (snd (attempt_loop env t n d 0 False))"
    using assms e by (intro attempt_loop_three_reverts) simp
  then have set: "fst (periodic_recheck paused env) = True"
    and alert: "Broadcast TransactionRevertedAlert \<in> set (snd (periodic_recheck paused env))"
    using f s by auto
  have bound: "length (execution_results (snd (periodic_recheck paused' env'))) \<le> 3"
    using periodic_recheck_cases [of paused' env'] attempt_loop_at_most_three
    by (metis list.size(3) zero_le)
  show ?thesis
    using set alert three bound paused_ticks [of envs] by simp
qed

lemma signed_queue:
  "filter_and_sort_pending_transactions [signed_tx] = [signed_tx]"
  by (simp add: normalizer_singleton signed_tx_def)

lemma signed_report:
  "compose_full_report [signed_tx] 5000 decode_hex_data example_float =
     Returned \<lparr>report_staking_balance = 5000,
               report_rows =
                 [\<lparr>row_nonce = 3, row_func = ''delegate'', row_validator_id = PyStr ''7'',
                   row_amount = 2500, row_status = ReadyToExecute, row_signature_count = 2,
                   row_confirmations_required = 2\<rparr>],
               headroom_amounts = [2500], missing_signatures = [],
               no_pending_note = False, queue_link = False, paused_note = False\<rparr>"
proof -
  have v: "nonce signed_tx = 3" "signature_count signed_tx = 2"
    "confirmations_required signed_tx = 2" "data signed_tx = Some calldata_7_2500"
    by (simp_all add: signed_tx_def)
  have row: "report_row_of decode_hex_data example_float 5000 signed_tx =
      Returned \<lparr>row_nonce = 3, row_func = ''delegate'', row_validator_id = PyStr ''7'',
                row_amount = 2500, row_status = ReadyToExecute, row_signature_count = 2,
                row_confirmations_required = 2\<rparr>"
    by (simp add: report_row_of_def v calldata_given calldata_amount calldata_function
        decode_calldata)
  have amounts: "pending_amounts decode_hex_data example_float [signed_tx] = Some [2500]"
    by (simp add: pending_amounts_def List.map_filter_def v calldata_given calldata_amount)
  show ?thesis
    unfolding compose_full_report_def Let_def signed_queue
    by (simp add: row amounts v)
qed

lemma reverting_tick:
  "periodic_recheck False (tick_env_of [signed_tx]) =
     (True, [Broadcast Rechecking, Print PendingHeader,
             Print (StatusLine 3 ReadyToExecute (PyStr ''7'') 2500 2 2),
             Execute bare_tx (Receipt False ''0xdead''), Broadcast (Reverted 1 3),
             Execute bare_tx (Receipt False ''0xdead''), Broadcast (Reverted 2 3),
             Execute bare_tx (Receipt False ''0xdead''),
             Broadcast TransactionRevertedAlert, Print ThreeConsecutiveReverts,
             Broadcast (DailyReport (Some
               \<lparr>report_staking_balance = 5000,
                report_rows =
                  [\<lparr>row_nonce = 3, row_func = ''delegate'', row_validator_id = PyStr ''7'',
                    row_amount = 2500, row_status = ReadyToExecute, row_signature_count = 2,
                    row_confirmations_required = 2\<rparr>],
                headroom_amounts = [2500], missing_signatures = [],
                no_pending_note = False, queue_link = False, paused_note = False\<rparr>))])"
proof -
  have d: "decoded_of decode_hex_data (data signed_tx) =
      Some \<lparr>validatorId = PyStr ''7'', amountInTokens = PyStr ''2500.0''\<rparr>"
    using decoded_of_calldata by (simp add: signed_tx_def)
  have l: "attempt_loop (tick_env_of [signed_tx]) bare_tx 3
        \<lparr>validatorId = PyStr ''7'', amountInTokens = PyStr ''2500.0''\<rparr> 0 False =
      (True, [Execute bare_tx (Receipt False ''0xdead''), Broadcast (Reverted 1 3),
             Execute bare_tx (Receipt False ''0xdead''), Broadcast (Reverted 2 3),
             Execute bare_tx (Receipt False ''0xdead''),
             Broadcast TransactionRevertedAlert, Print ThreeConsecutiveReverts])"
    by (simp add: attempt_loop_unfolded Let_def tick_env_of_def exec_ok_def)
  have v: "nonce signed_tx = 3" "signature_count signed_tx = 2"
    "confirmations_required signed_tx = 2"
    by (simp_all add: signed_tx_def)
  have e: "probe_alert (tick_env_of [signed_tx]) = Returned False"
    "tick_transactions (tick_env_of [signed_tx]) = Returned [signed_tx]"
    "tick_staking_balance (tick_env_of [signed_tx]) = Some 5000"
    "tick_decode (tick_env_of [signed_tx]) = decode_hex_data"
    "tick_float_of (tick_env_of [signed_tx]) = example_float"
    "tick_transaction_by_nonce (tick_env_of [signed_tx]) 3 = Some bare_tx"
    "report_due (tick_env_of [signed_tx]) = True"
    by (simp_all add: tick_env_of_def)
  have f: "example_float (PyStr ''2500.0'') = Some 2500"
    by (simp add: example_float_def)
  have line: "status_line (tick_env_of [signed_tx]) 5000 signed_tx =
      Returned (StatusLine 3 ReadyToExecute (PyStr ''7'') 2500 2 2)"
    by (simp add: status_line_def d v e f)
  have amounts: "pending_amounts decode_hex_data example_float [signed_tx] = Some [2500]"
    by (simp add: pending_amounts_def List.map_filter_def signed_tx_def calldata_given
        calldata_amount)
  have run: "automated_execution False 5000 [signed_tx] (tick_env_of [signed_tx]) =
      (True, [Execute bare_tx (Receipt False ''0xdead''), Broadcast (Reverted 1 3),
             Execute bare_tx (Receipt False ''0xdead''), Broadcast (Reverted 2 3),
             Execute bare_tx (Receipt False ''0xdead''),
             Broadcast TransactionRevertedAlert, Print ThreeConsecutiveReverts])"
    by (simp add: automated_execution_def d v e f l)
  have q: "recheck_queue False (tick_env_of [signed_tx]) [signed_tx] =
      (True, [Print PendingHeader, Print (StatusLine 3 ReadyToExecute (PyStr ''7'') 2500 2 2),
              Execute bare_tx (Receipt False ''0xdead''), Broadcast (Reverted 1 3),
              Execute bare_tx (Receipt False ''0xdead''), Broadcast (Reverted 2 3),
              Execute bare_tx (Receipt False ''0xdead''),
              Broadcast TransactionRevertedAlert, Print ThreeConsecutiveReverts],
       Some \<lparr>report_staking_balance = 5000,
             report_rows =
               [\<lparr>row_nonce = 3, row_func = ''delegate'', row_validator_id = PyStr ''7'',
                 row_amount = 2500, row_status = ReadyToExecute, row_signature_count = 2,
                 row_confirmations_required = 2\<rparr>],
             headroom_amounts = [2500], missing_signatures = [],
             no_pending_note = False, queue_link = False, paused_note = False\<rparr>)"
    unfolding recheck_queue_unfolded Let_def signed_queue e example_balance
    by (simp add: line amounts signed_report run v)
  show ?thesis
    by (simp add: periodic_recheck_unfolded e q)
qed

theorem circuit_breaker_after_three_reverts_witness:
  "map exec_ok (execution_results (snd (periodic_recheck False (tick_env_of [signed_tx])))) =
     [False, False, False] \<and>
   fst (periodic_recheck False (tick_env_of [signed_tx])) = True \<and>
   Broadcast TransactionRevertedAlert \<in> set (snd (periodic_recheck False (tick_env_of [signed_tx]))) \<and>
   execution_results (snd (run_ticks True [tick_env_of [signed_tx], tick_env_of [signed_tx]])) = []"
proof -
  have h: "map exec_ok (execution_results (snd (periodic_recheck False (tick_env_of [signed_tx]))))
      = [False, False, False]"
    by (simp add: reverting_tick exec_ok_def)
  have p: "fst (periodic_recheck False (tick_env_of [signed_tx])) = True"
    by (simp add: reverting_tick)
  show ?thesis
    using circuit_breaker_after_three_reverts
      [OF h, of False "tick_env_of [signed_tx]" "[tick_env_of [signed_tx], tick_env_of [signed_tx]]"]
      h
    unfolding p by blast
qed

section \<open>Properties of the annotation of the queue\<close>

lemma annotate_object:
  assumes "annotate t = Returned t'"
  shows "\<exists>kv kv'. t = JObj kv \<and> t' = JObj kv' \<and>
           (\<exists>n. py_len (dict_get kv ''confirmations'' (JArr [])) = Some n \<and>
                map_of kv' ''signature_count'' = Some (JNum (of_nat n))) \<and>
           map_of kv' ''confirmations_required'' =
             Some (dict_get kv ''confirmationsRequired'' (JNum 0)) \<and>
           (\<forall>key. key \<noteq> ''signature_count'' \<and> key \<noteq> ''confirmations_required'' \<longrightarrow>
                  map_of kv' key = map_of kv key)"
proof -
  obtain kv where kv: "t = JObj kv"
    using assms by (cases t) (simp_all add: annotate_def)
  obtain n where n: "py_len (dict_get kv ''confirmations'' (JArr [])) = Some n"
    using assms kv by (cases "py_len (dict_get kv ''confirmations'' (JArr []))")
      (simp_all add: annotate_def)
  define counted where "counted = AList.update ''signature_count'' (JNum (of_nat n)) kv"
  define kv' where "kv' = AList.update ''confirmations_required''
      (dict_get counted ''confirmationsRequired'' (JNum 0)) counted"
  have t': "t' = JObj kv'"
    using assms kv n by (simp add: annotate_def Let_def counted_def kv'_def)
  have same: "dict_get counted ''confirmationsRequired'' (JNum 0) =
      dict_get kv ''confirmationsRequired'' (JNum 0)"
    by (simp add: dict_get_def counted_def update_conv')
  have sc: "map_of kv' ''signature_count'' = Some (JNum (of_nat n))"
    by (simp add: kv'_def counted_def update_conv')
  have cr: "map_of kv' ''confirmations_required'' =
      Some (dict_get kv ''confirmationsRequired'' (JNum 0))"
    by (simp add: kv'_def update_conv' same)
  have others: "\<forall>key. key \<noteq> ''signature_count'' \<and> key \<noteq> ''confirmations_required'' \<longrightarrow>
      map_of kv' key = map_of kv key"
    by (simp add: kv'_def counted_def update_conv')
  show ?thesis
    using kv t' n sc cr others by blast
qed

lemma annotate_all_nth:
  assumes "annotate_all ts = Returned ts'"
  shows "length ts' = length ts \<and> (\<forall>i<length ts. annotate (ts ! i) = Returned (ts' ! i))"
  using assms
proof (induction ts arbitrary: ts')
  case Nil
  then show ?case
    by simp
next
  case (Cons t ts)
  then obtain u us where u: "annotate t = Returned u" and us: "annotate_all ts = Returned us"
    and ts': "ts' = u # us"
    by (auto split: outcome.splits)
  have "length us = length ts \<and> (\<forall>i<length ts. annotate (ts ! i) = Returned (us ! i))"
    using Cons.IH [OF us] .
  then show ?case
    using u ts' by (auto simp: nth_Cons split: nat.splits)
qed

lemma fetch_attempt_delivered:
  assumes "fetch_attempt q = Succeeded (JArr txs)" and "txs \<noteq> []"
  shows "\<exists>status kvs raws. q = Response status (Some (JObj kvs)) \<and>
           map_of kvs ''results'' = Some (JArr raws) \<and> annotate_all raws = Returned txs"
proof -
  obtain status kvs where q: "q = Response status (Some (JObj kvs))"
    and r: "annotate_results (dict_get kvs ''results'' (JArr [])) = Returned (JArr txs)"
    using assms(1)
    by (cases q)
      (auto simp: fetch_attempt_def split: option.splits json.splits outcome.splits if_splits)
  obtain raws where raws: "dict_get kvs ''results'' (JArr []) = JArr raws"
    and a: "annotate_all raws = Returned txs"
    using r
    by (cases "dict_get kvs ''results'' (JArr [])")
      (auto simp: annotate_results_def split: outcome.splits if_splits)
  have "raws \<noteq> []"
    using a assms(2) by auto
  then have "map_of kvs ''results'' = Some (JArr raws)"
    using raws by (auto simp: dict_get_def split: option.splits)
  then show ?thesis
    using q a by blast
qed

lemma one_of_four:
  assumes "P 0 \<or> P 1 \<or> P 2 \<or> P (3::nat)"
  shows "\<exists>k<4. P k"
  using assms
proof (elim disjE)
  assume "P 0"
  then show ?thesis
    by (intro exI [of _ 0]) simp
next
  assume "P 1"
  then show ?thesis
    by (intro exI [of _ 1]) simp
next
  assume "P 2"
  then show ?thesis
    by (intro exI [of _ 2]) simp
next
  assume "P 3"
  then show ?thesis
    by (intro exI [of _ 3]) simp
qed

lemma fetch_delivered:
  assumes "result (fetch_recent_transactions configured feed) = Returned (JArr txs)"
    and "txs \<noteq> []"
  shows "\<exists>k status kvs raws. k < 4 \<and> feed k = Response status (Some (JObj kvs)) \<and>
           map_of kvs ''results'' = Some (JArr raws) \<and> annotate_all raws = Returned txs"
proof (cases configured)
  case False
  then show ?thesis
    using assms by (simp add: fetch_recent_transactions_def)
next
  case True
  have "fetch_attempt (feed 0) = Succeeded (JArr txs) \<or>
        fetch_attempt (feed 1) = Succeeded (JArr txs) \<or>
        fetch_attempt (feed 2) = Succeeded (JArr txs) \<or>
        fetch_attempt (feed 3) = Succeeded (JArr txs)"
    using assms True by (auto simp: fetch_unfolded split: attempt.splits)
  then have "\<exists>k<4. fetch_attempt (feed k) = Succeeded (JArr txs)"
    by (rule one_of_four)
  then obtain k where k: "k < 4" "fetch_attempt (feed k) = Succeeded (JArr txs)"
    by blast
  show ?thesis
    using fetch_attempt_delivered [OF k(2) assms(2)] k(1) by blast
qed

lemma those_length: "those xs = Some ys \<Longrightarrow> length ys = length xs"
proof (induction xs arbitrary: ys)
  case Nil
  then show ?case
    by simp
next
  case (Cons x xs)
  then show ?case
    by (auto split: option.splits)
qed

lemma feed_tx_of_same_keys:
  assumes "\<forall>key. key \<noteq> ''signature_count'' \<and> key \<noteq> ''confirmations_required'' \<longrightarrow>
             map_of kv' key = map_of kv key"
  shows "feed_tx_of kv' = feed_tx_of kv"
proof -
  have "map_of kv' ''nonce'' = map_of kv ''nonce''"
    "map_of kv' ''isExecuted'' = map_of kv ''isExecuted''"
    "map_of kv' ''submissionDate'' = map_of kv ''submissionDate''"
    "map_of kv' ''data'' = map_of kv ''data''"
    "map_of kv' ''confirmations'' = map_of kv ''confirmations''"
    "map_of kv' ''confirmationsRequired'' = map_of kv ''confirmationsRequired''"
    using assms by simp_all
  then show ?thesis
    by (simp add: feed_tx_of_def data_field_def confirmations_field_def required_field_def)
qed

lemma counted_record:
  assumes n: "py_len (dict_get kv ''confirmations'' (JArr [])) = Some n"
    and sc: "map_of kv' ''signature_count'' = Some (JNum (of_nat n))"
    and cr: "map_of kv' ''confirmations_required'' =
               Some (dict_get kv ''confirmationsRequired'' (JNum 0))"
    and others: "\<forall>key. key \<noteq> ''signature_count'' \<and> key \<noteq> ''confirmations_required'' \<longrightarrow>
                   map_of kv' key = map_of kv key"
    and r: "tx_of (JObj kv') = Some r"
  shows "feed_tx_of kv =
           Some \<lparr>nonce = nonce r, isExecuted = isExecuted r,
                 submissionDate = submissionDate r, data = data r,
                 confirmations = confirmations r,
                 confirmationsRequired = confirmationsRequired r\<rparr> \<and>
         signature_count r = (case confirmations r of None \<Rightarrow> 0 | Some cs \<Rightarrow> int (length cs)) \<and>
         confirmations_required r = (case confirmationsRequired r of None \<Rightarrow> 0 | Some m \<Rightarrow> m)"
proof -
  obtain t where t: "feed_tx_of kv' = Some t"
    and rsc: "json_int (JNum (of_nat n)) = Some (signature_count r)"
    and rcr: "json_int (dict_get kv ''confirmationsRequired'' (JNum 0)) =
                Some (confirmations_required r)"
    and fields: "nonce r = nonce t" "isExecuted r = isExecuted t"
      "submissionDate r = submissionDate t" "data r = data t"
      "confirmations r = confirmations t" "confirmationsRequired r = confirmationsRequired t"
    using r sc cr by (auto simp: tx_of_def bind_eq_Some_conv)
  have t': "feed_tx_of kv = Some t"
    using t feed_tx_of_same_keys [OF others] by simp
  have count: "signature_count r = int n"
    using rsc by (simp add: json_int_def)
  have cf: "confirmations_field kv = Some (confirmations t)"
    and rf: "required_field kv = Some (confirmationsRequired t)"
    using t' by (auto simp: feed_tx_of_def bind_eq_Some_conv)
  have len: "int n = (case confirmations t of None \<Rightarrow> 0 | Some cs \<Rightarrow> int (length cs))"
  proof (cases "map_of kv ''confirmations''")
    case None
    then show ?thesis
      using cf n by (simp add: confirmations_field_def dict_get_def py_len_def)
  next
    case (Some v)
    then obtain cs where cs: "v = JArr cs"
      using cf by (cases v) (simp_all add: confirmations_field_def)
    then have "map_option Some (those (map confirmation_of cs)) = Some (confirmations t)"
      using cf Some by (simp add: confirmations_field_def)
    then obtain cs' where "those (map confirmation_of cs) = Some cs'"
      and "confirmations t = Some cs'"
      by (cases "those (map confirmation_of cs)") auto
    then show ?thesis
      using n Some cs those_length [of "map confirmation_of cs" cs']
      by (simp add: dict_get_def py_len_def)
  qed
  have req: "confirmations_required r =
      (case confirmationsRequired t of None \<Rightarrow> 0 | Some m \<Rightarrow> m)"
  proof (cases "map_of kv ''confirmationsRequired''")
    case None
    then show ?thesis
      using rf rcr by (simp add: required_field_def dict_get_def json_int_def)
  next
    case (Some v)
    have a: "json_int v = Some (confirmations_required r)"
      using rcr Some by (simp add: dict_get_def)
    have "map_option Some (json_int v) = Some (confirmationsRequired t)"
      using rf Some by (simp add: required_field_def)
    then have "confirmationsRequired t = Some (confirmations_required r)"
      unfolding a by simp
    then show ?thesis
      by simp
  qed
  have "t = \<lparr>nonce = nonce r, isExecuted = isExecuted r,
             submissionDate = submissionDate r, data = data r,
             confirmations = confirmations r,
             confirmationsRequired = confirmationsRequired r\<rparr>"
    using fields by simp
  then show ?thesis
    using t' count len req fields by simp
qed

lemma command_threshold_met:
  assumes "filter_and_sort_pending_transactions (recent_transactions env) = lowest # others"
    and "\<not> signature_count lowest < confirmations_required lowest"
  shows "Send (InsufficientSignatures n a b) \<notin>
           set (run_execute_command check_pause check_balance allow_no_data_branch env)"
  using assms
  by (auto simp: run_execute_command_def Let_def split: option.splits if_splits)

text \<open>
  Claim C10. When \<open>fetch_recent_transactions\<close> returns a list, its \<open>i\<close>-th element is the
  \<open>i\<close>-th record that the feed delivered under \<^verbatim>\<open>"results"\<close> in one of the four answers,
  with two keys set and every other key as the feed delivered it: \<^verbatim>\<open>signature_count\<close> is
  the length of the delivered record's \<^verbatim>\<open>confirmations\<close>, \<open>0\<close> when the key is absent, and
  \<^verbatim>\<open>confirmations_required\<close> is the delivered record's \<^verbatim>\<open>confirmationsRequired\<close>, \<open>0\<close> when
  that key is absent. Read as a record of the queue, the element has the fields of the
  delivered record and these two counts. A transaction whose feed record omits
  \<^verbatim>\<open>confirmationsRequired\<close> therefore meets the threshold
  \<open>signature_count \<ge> confirmations_required\<close> whatever its signatures, and as the
  lowest-nonce pending transaction it is never rejected for insufficient signatures by
  any command variant.
\<close>

theorem annotated_signature_counts:
  assumes "result (fetch_recent_transactions configured feed) = Returned (JArr txs)"
    and "i < length txs"
  shows "\<exists>k status kvs raws kv kv'.
           k < 4 \<and> feed k = Response status (Some (JObj kvs)) \<and>
           map_of kvs ''results'' = Some (JArr raws) \<and> length raws = length txs \<and>
           raws ! i = JObj kv \<and> txs ! i = JObj kv' \<and>
           (\<exists>n. py_len (dict_get kv ''confirmations'' (JArr [])) = Some n \<and>
                map_of kv' ''signature_count'' = Some (JNum (of_nat n))) \<and>
           (map_of kv ''confirmations'' = None \<longrightarrow>
              map_of kv' ''signature_count'' = Some (JNum 0)) \<and>
           (\<forall>cs. map_of kv ''confirmations'' = Some (JArr cs) \<longrightarrow>
              map_of kv' ''signature_count'' = Some (JNum (of_nat (length cs)))) \<and>
           (map_of kv ''confirmationsRequired'' = None \<longrightarrow>
              map_of kv' ''confirmations_required'' = Some (JNum 0)) \<and>
           (\<forall>v. map_of kv ''confirmationsRequired'' = Some v \<longrightarrow>
              map_of kv' ''confirmations_required'' = Some v) \<and>
           (\<forall>key. key \<noteq> ''signature_count'' \<and> key \<noteq> ''confirmations_required'' \<longrightarrow>
              map_of kv' key = map_of kv key) \<and>
           (\<forall>r. tx_of (txs ! i) = Some r \<longrightarrow>
              feed_tx_of kv =
                Some \<lparr>nonce = nonce r, isExecuted = isExecuted r,
                      submissionDate = submissionDate r, data = data r,
                      confirmations = confirmations r,
                      confirmationsRequired = confirmationsRequired r\<rparr> \<and>
              signature_count r =
                (case confirmations r of None \<Rightarrow> 0 | Some cs \<Rightarrow> int (length cs)) \<and>
              confirmations_required r =
                (case confirmationsRequired r of None \<Rightarrow> 0 | Some m \<Rightarrow> m) \<and>
              (confirmationsRequired r = None \<longrightarrow>
                 confirmations_required r \<le> signature_count r \<and>
                 (filter_and_sort_pending_transactions (recent_transactions env) = r # others \<longrightarrow>
                    Send (InsufficientSignatures m a b) \<notin>
                      set (run_execute_command check_pause check_balance
                             allow_no_data_branch env))))"
proof -
  have "txs \<noteq> []"
    using assms(2) by auto
  then obtain k status kvs raws where k: "k < 4"
    and feed: "feed k = Response status (Some (JObj kvs))"
    and raws: "map_of kvs ''results'' = Some (JArr raws)"
    and all: "annotate_all raws = Returned txs"
    using fetch_delivered [OF assms(1)] by blast
  have len: "length txs = length raws"
    and nth: "annotate (raws ! i) = Returned (txs ! i)"
    using annotate_all_nth [OF all] assms(2) by simp_all
  from annotate_object [OF nth]
  obtain kv kv' n where kv: "raws ! i = JObj kv" and kv': "txs ! i = JObj kv'"
    and n: "py_len (dict_get kv ''confirmations'' (JArr [])) = Some n"
    and sc: "map_of kv' ''signature_count'' = Some (JNum (of_nat n))"
    and cr: "map_of kv' ''confirmations_required'' =
               Some (dict_get kv ''confirmationsRequired'' (JNum 0))"
    and others: "\<forall>key. key \<noteq> ''signature_count'' \<and> key \<noteq> ''confirmations_required'' \<longrightarrow>
                   map_of kv' key = map_of kv key"
    by (elim exE conjE)
  have absent: "map_of kv ''confirmations'' = None \<longrightarrow>
      map_of kv' ''signature_count'' = Some (JNum 0)"
    using n sc by (auto simp: dict_get_def py_len_def)
  have present: "\<forall>cs. map_of kv ''confirmations'' = Some (JArr cs) \<longrightarrow>
      map_of kv' ''signature_count'' = Some (JNum (of_nat (length cs)))"
    using n sc by (auto simp: dict_get_def py_len_def)
  have rabsent: "map_of kv ''confirmationsRequired'' = None \<longrightarrow>
      map_of kv' ''confirmations_required'' = Some (JNum 0)"
    using cr by (simp add: dict_get_def)
  have rpresent: "\<forall>v. map_of kv ''confirmationsRequired'' = Some v \<longrightarrow>
      map_of kv' ''confirmations_required'' = Some v"
    using cr by (simp add: dict_get_def)
  have typed: "feed_tx_of kv =
        Some \<lparr>nonce = nonce r, isExecuted = isExecuted r,
              submissionDate = submissionDate r, data = data r,
              confirmations = confirmations r,
              confirmationsRequired = confirmationsRequired r\<rparr> \<and>
      signature_count r =
        (case confirmations r of None \<Rightarrow> 0 | Some cs \<Rightarrow> int (length cs)) \<and>
      confirmations_required r =
        (case confirmationsRequired r of None \<Rightarrow> 0 | Some m \<Rightarrow> m) \<and>
      (confirmationsRequired r = None \<longrightarrow>
         confirmations_required r \<le> signature_count r \<and>
         (filter_and_sort_pending_transactions (recent_transactions env) = r # others \<longrightarrow>
            Send (InsufficientSignatures m a b) \<notin>
              set (run_execute_command check_pause check_balance
                     allow_no_data_branch env)))"
    if r: "tx_of (txs ! i) = Some r" for r
  proof -
    have c: "feed_tx_of kv =
        Some \<lparr>nonce = nonce r, isExecuted = isExecuted r,
              submissionDate = submissionDate r, data = data r,
              confirmations = confirmations r,
              confirmationsRequired = confirmationsRequired r\<rparr> \<and>
      signature_count r =
        (case confirmations r of None \<Rightarrow> 0 | Some cs \<Rightarrow> int (length cs)) \<and>
      confirmations_required r =
        (case confirmationsRequired r of None \<Rightarrow> 0 | Some m \<Rightarrow> m)"
      using counted_record [OF n sc cr others] r kv' by simp
    have met: "confirmations_required r \<le> signature_count r"
      if "confirmationsRequired r = None"
      using that c by (simp split: option.splits)
    have gate: "Send (InsufficientSignatures m a b) \<notin>
        set (run_execute_command check_pause check_balance allow_no_data_branch env)"
      if "confirmationsRequired r = None"
        and "filter_and_sort_pending_transactions (recent_transactions env) = r # others"
      using command_threshold_met [OF that(2)] met [OF that(1)] by simp
    show ?thesis
      using c met gate by blast
  qed
  have count: "\<exists>n. py_len (dict_get kv ''confirmations'' (JArr [])) = Some n \<and>
      map_of kv' ''signature_count'' = Some (JNum (of_nat n))"
    using n sc by blast
  have len': "length raws = length txs"
    using len by simp
  show ?thesis
    apply (rule exI [of _ k], rule exI [of _ status], rule exI [of _ kvs],
        rule exI [of _ raws], rule exI [of _ kv], rule exI [of _ kv'])
    apply (intro conjI)
                apply (rule k)
               apply (rule feed)
              apply (rule raws)
             apply (rule len')
            apply (rule kv)
           apply (rule kv')
          apply (rule count)
         apply (rule absent)
        apply (rule present)
       apply (rule rabsent)
      apply (rule rpresent)
     apply (rule others)
    apply (intro allI impI)
    apply (erule typed)
    done
qed

lemma signed_twice_read:
  "feed_tx_of json_signed_twice = Some signed_twice"
  "tx_of (JObj (AList.update ''confirmations_required'' (JNum 2)
            (AList.update ''signature_count'' (JNum 2) json_signed_twice))) =
     Some signed_twice_counted"
  by (simp_all add: tx_of_def feed_tx_of_def data_field_def confirmations_field_def
      required_field_def confirmation_of_def json_int_def json_bool_def json_str_def
      json_signed_twice_def signed_twice_def signed_twice_counted_def two_confirmations_def)

lemma bare_read:
  "feed_tx_of json_bare = Some bare_tx"
  "tx_of (JObj (AList.update ''confirmations_required'' (JNum 0)
            (AList.update ''signature_count'' (JNum 0) json_bare))) =
     Some bare_counted"
  by (simp_all add: tx_of_def feed_tx_of_def data_field_def confirmations_field_def
      required_field_def json_int_def json_bool_def json_str_def
      json_bare_def bare_tx_def bare_counted_def)

lemma fetch_signed_and_bare:
  "result (fetch_recent_transactions True feed_signed_and_bare) =
     Returned (JArr
       [JObj (AList.update ''confirmations_required'' (JNum 2)
                (AList.update ''signature_count'' (JNum 2) json_signed_twice)),
        JObj (AList.update ''confirmations_required'' (JNum 0)
                (AList.update ''signature_count'' (JNum 0) json_bare))])"
proof -
  have s: "annotate (JObj json_signed_twice) =
      Returned (JObj (AList.update ''confirmations_required'' (JNum 2)
                (AList.update ''signature_count'' (JNum 2) json_signed_twice)))"
    by (simp add: annotate_def dict_get_def py_len_def Let_def update_conv'
        json_signed_twice_def)
  have b: "annotate (JObj json_bare) =
      Returned (JObj (AList.update ''confirmations_required'' (JNum 0)
                (AList.update ''signature_count'' (JNum 0) json_bare)))"
    by (simp add: annotate_def dict_get_def py_len_def Let_def update_conv' json_bare_def)
  have "fetch_attempt (feed_signed_and_bare 0) =
      Succeeded (JArr
       [JObj (AList.update ''confirmations_required'' (JNum 2)
                (AList.update ''signature_count'' (JNum 2) json_signed_twice)),
        JObj (AList.update ''confirmations_required'' (JNum 0)
                (AList.update ''signature_count'' (JNum 0) json_bare))])"
    by (simp add: feed_signed_and_bare_def fetch_attempt_def raises_for_status_def
        dict_get_def annotate_results_def s b)
  then show ?thesis
    by (simp add: fetch_unfolded)
qed

lemma bare_queue:
  "filter_and_sort_pending_transactions (recent_transactions (command_env_of [bare_counted]))
     = bare_counted # []"
  by (simp add: command_env_of_def normalizer_singleton bare_counted_def)

lemma bare_submitted:
  "force_execute_no_checks (command_env_of [bare_counted]) =
     [Send Checking, Submit bare_tx,
      Send (ExecutedSuccessfully 3
        (Some \<lparr>validatorId = PyStr ''7'', amountInTokens = PyStr ''2500.0''\<rparr>) ''0xabc'')]"
proof -
  have d: "decoded_of (decode (command_env_of [bare_counted])) (data bare_counted) =
      Some \<lparr>validatorId = PyStr ''7'', amountInTokens = PyStr ''2500.0''\<rparr>"
    using decoded_of_calldata by (simp add: command_env_of_def bare_counted_def)
  have v: "nonce bare_counted = 3" "signature_count bare_counted = 0"
    "confirmations_required bare_counted = 0"
    by (simp_all add: bare_counted_def)
  have e: "float_of (command_env_of [bare_counted]) (PyStr ''2500.0'') = Some 2500"
    "fetch_transaction_by_nonce (command_env_of [bare_counted]) 3 = Some bare_tx"
    "execute_transaction (command_env_of [bare_counted]) bare_tx = Receipt True ''0xabc''"
    by (simp_all add: command_env_of_def example_float_def)
  show ?thesis
    unfolding force_execute_no_checks_def run_execute_command_def Let_def bare_queue
    by (simp add: d v e exec_ok_def tx_hash_def)
qed

theorem annotated_signature_counts_witness:
  "result (fetch_recent_transactions True feed_signed_and_bare) =
     Returned (JArr
       [JObj (AList.update ''confirmations_required'' (JNum 2)
                (AList.update ''signature_count'' (JNum 2) json_signed_twice)),
        JObj (AList.update ''confirmations_required'' (JNum 0)
                (AList.update ''signature_count'' (JNum 0) json_bare))]) \<and>
   queue_of (JArr
       [JObj (AList.update ''confirmations_required'' (JNum 2)
                (AList.update ''signature_count'' (JNum 2) json_signed_twice)),
        JObj (AList.update ''confirmations_required'' (JNum 0)
                (AList.update ''signature_count'' (JNum 0) json_bare))]) =
     Some [signed_twice_counted, bare_counted] \<and>
   feed_tx_of json_signed_twice = Some signed_twice \<and>
   tx_of (JObj (AList.update ''confirmations_required'' (JNum 2)
            (AList.update ''signature_count'' (JNum 2) json_signed_twice))) =
     Some signed_twice_counted \<and>
   confirmations signed_twice_counted = Some two_confirmations \<and>
   confirmationsRequired signed_twice_counted = Some 2 \<and>
   signature_count signed_twice_counted = 2 \<and>
   confirmations_required signed_twice_counted = 2 \<and>
   feed_tx_of json_bare = Some bare_tx \<and>
   tx_of (JObj (AList.update ''confirmations_required'' (JNum 0)
            (AList.update ''signature_count'' (JNum 0) json_bare))) =
     Some bare_counted \<and>
   confirmations bare_counted = None \<and>
   confirmationsRequired bare_counted = None \<and>
   signature_count bare_counted = 0 \<and>
   confirmations_required bare_counted = 0 \<and>
   Send (InsufficientSignatures 3 0 0) \<notin>
     set (force_execute_no_checks (command_env_of [bare_counted])) \<and>
   submissions (force_execute_no_checks (command_env_of [bare_counted])) = [Submit bare_tx]"
proof -
  have first: "(0::nat) < length
      [JObj (AList.update ''confirmations_required'' (JNum 2)
               (AList.update ''signature_count'' (JNum 2) json_signed_twice)),
       JObj (AList.update ''confirmations_required'' (JNum 0)
               (AList.update ''signature_count'' (JNum 0) json_bare))]"
    and second: "(1::nat) < length
      [JObj (AList.update ''confirmations_required'' (JNum 2)
               (AList.update ''signature_count'' (JNum 2) json_signed_twice)),
       JObj (AList.update ''confirmations_required'' (JNum 0)
               (AList.update ''signature_count'' (JNum 0) json_bare))]"
    by simp_all
  have c: "confirmations signed_twice_counted = Some two_confirmations"
    "confirmationsRequired signed_twice_counted = Some 2"
    "signature_count signed_twice_counted = 2"
    "confirmations_required signed_twice_counted = 2"
    "confirmations bare_counted = None" "confirmationsRequired bare_counted = None"
    "signature_count bare_counted = 0" "confirmations_required bare_counted = 0"
    by (simp_all add: signed_twice_counted_def bare_counted_def)
  have s: "submissions (force_execute_no_checks (command_env_of [bare_counted])) =
      [Submit bare_tx]"
    by (simp add: bare_submitted submissions_def)
  have n: "Send (InsufficientSignatures 3 0 0) \<notin>
      set (force_execute_no_checks (command_env_of [bare_counted]))"
    by (simp add: bare_submitted)
  have queue: "queue_of (JArr
       [JObj (AList.update ''confirmations_required'' (JNum 2)
                (AList.update ''signature_count'' (JNum 2) json_signed_twice)),
        JObj (AList.update ''confirmations_required'' (JNum 0)
                (AList.update ''signature_count'' (JNum 0) json_bare))]) =
     Some [signed_twice_counted, bare_counted]"
    by (simp add: queue_of_def signed_twice_read bare_read)
  show ?thesis
    using annotated_signature_counts [OF fetch_signed_and_bare first,
        of "command_env_of [bare_counted]" "[]" 3 0 0 False False False]
      annotated_signature_counts [OF fetch_signed_and_bare second,
        of "command_env_of [bare_counted]" "[]" 3 0 0 False False False]
      fetch_signed_and_bare signed_twice_read bare_read c s n queue
    by blast
qed

section \<open>Properties of the deposit probe\<close>

lemma check_unavailable:
  assumes "check_large_deposits_with_block env start_block = Returned (alert, message, None)"
  shows "\<not> alert \<and> message \<in> {ErrorBlockTime, ErrorLatestBlock, ErrorDepositLogs}"
  using assms
  by (auto simp: check_large_deposits_with_block_def Let_def
      split: response.splits option.splits outcome.splits if_splits)

lemma probe_after_failed_check:
  assumes "check_large_deposits_with_block env
             (case start_block of None \<Rightarrow> map_option (\<lambda>b. b + 1) stored | Some b \<Rightarrow> Some b) =
           Returned (alert, message, None)"
  shows "run_deposit_probe stored env start_block =
           (Returned (False,
              NoDepositsFound
                (case start_block of None \<Rightarrow> map_option (\<lambda>b. b + 1) stored | Some b \<Rightarrow> Some b)
                None,
              (case start_block of None \<Rightarrow> map_option (\<lambda>b. b + 1) stored | Some b \<Rightarrow> Some b),
              None),
            stored)"
  using assms check_unavailable [OF assms]
  by (simp add: run_deposit_probe_def Let_def)

text \<open>
  Claim C3. A probe whose range resolution or log fetch fails shall return
  \<open>alertTriggered = false\<close> with an explicit error message and no new checkpoint, and
  leave the stored checkpoint alone. With the checkpoint 100 stored and a chain head that
  cannot be fetched, the code returns no alert and no new checkpoint and leaves the 100
  in place, but the message it returns is the text of a clean scan, \<^verbatim>\<open>"No deposits over
  100,000 S tokens were found between blocks 101 and None."\<close>: the error text
  \<^verbatim>\<open>"Error: Could not fetch latest block."\<close> of the check is overwritten.
\<close>

theorem probe_failure_reported_as_clean_scan:
  "check_large_deposits_with_block head_unavailable (Some 101) =
     Returned (False, ErrorLatestBlock, None) \<and>
   run_deposit_probe (Some 100) head_unavailable None =
     (Returned (False, NoDepositsFound (Some 101) None, Some 101, None), Some 100)"
  by (simp add: run_deposit_probe_def check_large_deposits_with_block_def
      head_unavailable_def Let_def)



lemma check_quiet:
  assumes "logs_response env start latest_block = Result []"
    and "latest_block_response env = Result latest_block"
  shows "check_large_deposits_with_block env (Some start) =
           Returned (False, PlaceholderMessage, Some latest_block)"
  using assms by (simp add: check_large_deposits_with_block_def)




lemma probe_quiet:
  assumes "latest_block_response env = Result latest_block"
    and "logs_response env (c + 1) latest_block = Result []"
  shows "run_deposit_probe (Some c) env None =
           (Returned (False, NoDepositsFound (Some (c + 1)) (Some latest_block),
                      Some (c + 1), Some latest_block),
            Some latest_block)"
  using check_quiet [OF assms(2,1)] by (simp add: run_deposit_probe_def Let_def)







section \<open>Properties of the chunked historical scan\<close>

lemma retry_chunk_first_try:
  assumes "api (requests st) (current_start_block st) e = Some logs"
  shows "retry_chunk api e 0 st =
           (0, st\<lparr>deposits := deposits st @ logs, requests := Suc (requests st),
                  retrieved := retrieved st @ [(current_start_block st, e)]\<rparr>)"
  using assms by (simp add: retry_chunk.simps RETRY_LIMIT_def)

lemma scan_chunks_step:
  assumes "current_start_block st \<le> latest_block"
    and "retry_chunk api (min (current_start_block st + int (BLOCK_CHUNK_SIZE st)) latest_block)
           0 st = (r, st')"
    and "\<not> (r = RETRY_LIMIT \<and> BLOCK_CHUNK_SIZE st' = MIN_BLOCK_CHUNK)"
  shows "scan_chunks api latest_block st =
           scan_chunks api latest_block
             (st'\<lparr>current_start_block :=
                   min (current_start_block st + int (BLOCK_CHUNK_SIZE st)) latest_block + 1\<rparr>)"
  using assms by (subst scan_chunks.simps) (auto simp: Let_def)

lemma scan_chunks_done:
  assumes "\<not> current_start_block st \<le> latest_block"
  shows "scan_chunks api latest_block st = (True, st)"
  using assms by (subst scan_chunks.simps) simp

lemma tiles_snoc:
  "tiles s (a - 1) rs \<Longrightarrow> a \<le> b \<Longrightarrow> tiles s b (rs @ [(a, b)])"
  by (induction rs arbitrary: s) auto

lemma scan_chunks_tiles:
  assumes "\<And>k a b. api k a b \<noteq> None"
    and "tiles s0 (current_start_block st - 1) (retrieved st)"
    and "current_start_block st \<le> latest_block + 1"
  shows "fst (scan_chunks api latest_block st) \<and>
         tiles s0 latest_block (retrieved (snd (scan_chunks api latest_block st)))"
  using assms
proof (induction api latest_block st rule: scan_chunks.induct)
  case (1 api latest_block st)
  show ?case
  proof (cases "current_start_block st \<le> latest_block")
    case False
    then have "current_start_block st - 1 = latest_block"
      using "1.prems"(3) by simp
    then show ?thesis
      using False "1.prems"(2) by (simp add: scan_chunks.simps)
  next
    case True
    define e where "e = min (current_start_block st + int (BLOCK_CHUNK_SIZE st)) latest_block"
    obtain logs where ok: "api (requests st) (current_start_block st) e = Some logs"
      using "1.prems"(1) [of "requests st" "current_start_block st" e] by auto
    define st' where "st' = st\<lparr>deposits := deposits st @ logs, requests := Suc (requests st),
        retrieved := retrieved st @ [(current_start_block st, e)]\<rparr>"
    have tried: "retry_chunk api e 0 st = (0, st')"
      using retry_chunk_first_try [of api st e logs] ok by (simp add: st'_def)
    have bounds: "current_start_block st \<le> e" "e \<le> latest_block"
      using True by (simp_all add: e_def)
    have step: "scan_chunks api latest_block st =
        scan_chunks api latest_block (st'\<lparr>current_start_block := e + 1\<rparr>)"
      using scan_chunks_step [of st latest_block api 0 st'] True tried
      by (simp add: e_def RETRY_LIMIT_def)
    have t: "tiles s0 (current_start_block (st'\<lparr>current_start_block := e + 1\<rparr>) - 1)
        (retrieved (st'\<lparr>current_start_block := e + 1\<rparr>))"
      using tiles_snoc [OF "1.prems"(2) bounds(1)] by (simp add: st'_def)
    have n: "current_start_block (st'\<lparr>current_start_block := e + 1\<rparr>) \<le> latest_block + 1"
      using bounds(2) by simp
    have c: "\<not> (fst (retry_chunk api e 0 st) = RETRY_LIMIT \<and>
        BLOCK_CHUNK_SIZE (snd (retry_chunk api e 0 st)) = MIN_BLOCK_CHUNK)"
      by (simp add: tried RETRY_LIMIT_def)
    have "fst (scan_chunks api latest_block (st'\<lparr>current_start_block := e + 1\<rparr>)) \<and>
        tiles s0 latest_block
          (retrieved (snd (scan_chunks api latest_block (st'\<lparr>current_start_block := e + 1\<rparr>))))"
      using "1.IH" [OF True e_def refl c "1.prems"(1)] t n by (simp add: tried)
    then show ?thesis
      by (simp add: step)
  qed
qed

lemma history_scan_tiles:
  assumes "\<And>k a b. api k a b \<noteq> None" and "start_block \<le> latest_block + 1"
  shows "fst (history_scan api start_block latest_block) \<and>
         tiles start_block latest_block (retrieved (snd (history_scan api start_block latest_block)))"
  unfolding history_scan_def
  by (rule scan_chunks_tiles) (use assms in simp_all)

text \<open>
  Claim C2. A chunk that uses up its two tries while the chunk size is above the floor
  shall be scanned again from its own start block with the halved size, so that the
  chunks that came back cover the whole range. From block 0 to a chain head of 30000,
  with an API whose first two requests fail, the code halves the size to 12500, as the
  claim says, and then goes on from block 25001: the loop ends as complete after three
  requests, the only range that came back is 25001 to 30000, and the blocks 0 to 25000
  were never scanned.
\<close>

theorem failed_chunk_is_skipped:
  "history_scan first_two_fail 0 30000 =
     (True, \<lparr>BLOCK_CHUNK_SIZE = 12500, current_start_block = 30001, deposits = [],
             requests = 3, retrieved = [(25001, 30000)]\<rparr>) \<and>
   \<not> tiles 0 30000 (retrieved (snd (history_scan first_two_fail 0 30000)))"
proof -
  have first: "retry_chunk first_two_fail 25000 0
      \<lparr>BLOCK_CHUNK_SIZE = 25000, current_start_block = 0, deposits = [], requests = 0,
       retrieved = []\<rparr> =
      (2, \<lparr>BLOCK_CHUNK_SIZE = 12500, current_start_block = 0, deposits = [], requests = 2,
           retrieved = []\<rparr>)"
    by (simp add: retry_chunk.simps first_two_fail_def RETRY_LIMIT_def MIN_BLOCK_CHUNK_def)
  have second: "retry_chunk first_two_fail 30000 0
      \<lparr>BLOCK_CHUNK_SIZE = 12500, current_start_block = 25001, deposits = [], requests = 2,
       retrieved = []\<rparr> =
      (0, \<lparr>BLOCK_CHUNK_SIZE = 12500, current_start_block = 25001, deposits = [], requests = 3,
           retrieved = [(25001, 30000)]\<rparr>)"
    by (simp add: retry_chunk.simps first_two_fail_def RETRY_LIMIT_def)
  have one: "scan_chunks first_two_fail 30000
      \<lparr>BLOCK_CHUNK_SIZE = 25000, current_start_block = 0, deposits = [], requests = 0,
       retrieved = []\<rparr> =
    scan_chunks first_two_fail 30000
      \<lparr>BLOCK_CHUNK_SIZE = 12500, current_start_block = 25001, deposits = [], requests = 2,
       retrieved = []\<rparr>"
    by (subst scan_chunks_step [where r = 2 and st' = "\<lparr>BLOCK_CHUNK_SIZE = 12500,
          current_start_block = 0, deposits = [], requests = 2, retrieved = []\<rparr>"])
      (simp_all add: first RETRY_LIMIT_def MIN_BLOCK_CHUNK_def)
  have two: "scan_chunks first_two_fail 30000
      \<lparr>BLOCK_CHUNK_SIZE = 12500, current_start_block = 25001, deposits = [], requests = 2,
       retrieved = []\<rparr> =
    scan_chunks first_two_fail 30000
      \<lparr>BLOCK_CHUNK_SIZE = 12500, current_start_block = 30001, deposits = [], requests = 3,
       retrieved = [(25001, 30000)]\<rparr>"
    by (subst scan_chunks_step [where r = 0 and st' = "\<lparr>BLOCK_CHUNK_SIZE = 12500,
          current_start_block = 25001, deposits = [], requests = 3,
          retrieved = [(25001, 30000)]\<rparr>"])
      (simp_all add: second RETRY_LIMIT_def MIN_BLOCK_CHUNK_def)
  have three: "scan_chunks first_two_fail 30000
      \<lparr>BLOCK_CHUNK_SIZE = 12500, current_start_block = 30001, deposits = [], requests = 3,
       retrieved = [(25001, 30000)]\<rparr> =
    (True, \<lparr>BLOCK_CHUNK_SIZE = 12500, current_start_block = 30001, deposits = [],
            requests = 3, retrieved = [(25001, 30000)]\<rparr>)"
    by (rule scan_chunks_done) simp
  have "history_scan first_two_fail 0 30000 =
     (True, \<lparr>BLOCK_CHUNK_SIZE = 12500, current_start_block = 30001, deposits = [],
             requests = 3, retrieved = [(25001, 30000)]\<rparr>)"
    unfolding history_scan_def INITIAL_BLOCK_CHUNK_SIZE_def
    by (simp only: one two three)
  then show ?thesis
    by simp
qed

end
